theory Spec2Isabelle
  imports Main
begin

section \<open>JavaScript values\<close>

text \<open>
  A value of TypeScript type \<^verbatim>\<open>string | null\<close> or \<^verbatim>\<open>string | undefined\<close>.
  Strings are lists of characters; only ASCII content is inspected by the code.
\<close>

datatype js_string = Str string | Null | Undefined

text \<open>JavaScript truthiness: the empty string, \<^verbatim>\<open>null\<close> and \<^verbatim>\<open>undefined\<close> are falsy.\<close>

fun truthy :: "js_string \<Rightarrow> bool" where
  "truthy (Str s) = (s \<noteq> [])"
| "truthy Null = False"
| "truthy Undefined = False"

text \<open>\<^verbatim>\<open>v || d\<close> with a string default.\<close>

fun or_else :: "js_string \<Rightarrow> string \<Rightarrow> string" where
  "or_else (Str s) d = (if s = [] then d else s)"
| "or_else Null d = d"
| "or_else Undefined d = d"

text \<open>A value inside a template literal \<^verbatim>\<open>`${v}`\<close>.\<close>

fun template :: "js_string \<Rightarrow> string" where
  "template (Str s) = s"
| "template Null = ''null''"
| "template Undefined = ''undefined''"

text \<open>\<^verbatim>\<open>s.includes(sub)\<close>: \<open>sub\<close> occurs in \<open>s\<close> as a contiguous run.\<close>

definition starts_with :: "string \<Rightarrow> string \<Rightarrow> bool" where
  "starts_with s p = (take (length p) s = p)"

fun str_includes :: "string \<Rightarrow> string \<Rightarrow> bool" where
  "str_includes [] sub = (sub = [])"
| "str_includes (c # cs) sub = (starts_with (c # cs) sub \<or> str_includes cs sub)"

text \<open>\<^verbatim>\<open>s.split(sep)\<close> for a one-character separator, and \<^verbatim>\<open>xs[i]\<close> on the result.\<close>

fun split :: "char \<Rightarrow> string \<Rightarrow> string list" where
  "split sep [] = [[]]"
| "split sep (c # cs) =
     (if c = sep then [] # split sep cs
      else (case split sep cs of [] \<Rightarrow> [[c]] | x # xs \<Rightarrow> (c # x) # xs))"

definition at_index :: "string list \<Rightarrow> nat \<Rightarrow> js_string" where
  "at_index xs i = (if i < length xs then Str (xs ! i) else Undefined)"

text \<open>
  A thrown or rejected value: an object whose \<^verbatim>\<open>message\<close> property may be missing
  (the code reads it as \<^verbatim>\<open>error.message?.includes\<close> and \<^verbatim>\<open>error.message || ...\<close>).
\<close>

datatype js_error = Error (error_message: js_string)

section \<open>Data model (types.ts)\<close>

datatype status = idle | analyzing | cleaning_frame | generating | completed | error

text \<open>
  \<^verbatim>\<open>ProcessingState\<close>. The object literal of the failure branch of \<^verbatim>\<open>startProcessing\<close>
  has no \<^verbatim>\<open>progress\<close> property, so the field is optional at run time.
\<close>

record ProcessingState =
  status :: status
  message :: string
  progress :: "int option"
  error :: "string option"

record File =
  file_name :: string
  file_type :: string

record VideoData =
  file_obj :: "File option"
  url :: js_string
  previewUrl :: js_string
  base64Data :: js_string
  mimeType :: js_string

record video_ref =
  uri :: string
  expirationTime :: "string option"

record GeneratedVideo =
  video :: video_ref

record VeoResponse =
  generatedVideos :: "GeneratedVideo list option"

text \<open>
  The long-running operation handle of the SDK, as far as the code reads it:
  \<^verbatim>\<open>done\<close>, \<^verbatim>\<open>error.message\<close> (when there is an error object) and \<^verbatim>\<open>response\<close>.
\<close>

record operation =
  op_done :: bool
  op_error :: "js_string option"
  response :: "VeoResponse option"

section \<open>The remote collaborator and the browser\<close>

record content_request =
  model :: string
  inline_data :: string
  inline_mimeType :: string
  instruction :: string

record content_response =
  resp_text :: js_string

record images_request =
  images_model :: string
  images_prompt :: string
  numberOfImages :: nat
  images_aspectRatio :: string
  outputMimeType :: string

text \<open>
  The response of the image model, as far as the code reads it:
  \<^verbatim>\<open>generatedImages[0].image.imageBytes\<close>. In the SDK each of the three properties is
  optional.
\<close>

record Image =
  imageBytes :: js_string

record GeneratedImage =
  image_obj :: "Image option"

record images_response =
  generatedImages :: "GeneratedImage list option"

record videos_request =
  videos_model :: string
  videos_prompt :: string
  image_imageBytes :: js_string
  image_mimeType :: string
  numberOfVideos :: nat
  resolution :: string
  videos_aspectRatio :: string

text \<open>Everything observable that a run does, in the order it does it.\<close>

datatype event =
    HasSelectedApiKey
  | OpenSelectKey
  | GenerateContent content_request
  | GenerateImages images_request
  | GenerateVideos videos_request
  | GetVideosOperation operation
  | Sleep nat
  | OnProgress string
  | ConsoleError js_error
  | ConsoleLog string
  | Alert string
  | PreventDefault
  | OnVideoSelected VideoData

text \<open>How an awaited promise settles.\<close>

datatype 'a reply = Resolve 'a | Reject js_error

text \<open>
  The world a run executes in. \<open>aistudio\<close> says whether \<^verbatim>\<open>window.aistudio\<close> exists,
  \<open>API_KEY\<close> is \<^verbatim>\<open>process.env.API_KEY\<close>. Each remote endpoint has the list of replies
  it will give, in order; a call made when the list is empty is never answered. \<open>log\<close>
  records the events so far and \<open>caller\<close> is the state of the calling component, which
  the service functions reach only through the progress callback.

  An \<^verbatim>\<open>async\<close> function that waits for a reply, a timer or an event is suspended, and
  the event handlers of the page can run before it is resumed. \<open>interleaved\<close> lists, for
  the suspensions of the run in their order, what the handlers that run during each of
  them do to the state of the component; when the list is exhausted no handler runs any
  more.
\<close>

record 'a world =
  aistudio :: bool
  API_KEY :: js_string
  hasSelectedApiKey_replies :: "bool reply list"
  openSelectKey_replies :: "unit reply list"
  generateContent_replies :: "content_response reply list"
  generateImages_replies :: "images_response reply list"
  generateVideos_replies :: "operation reply list"
  getVideosOperation_replies :: "operation reply list"
  log :: "event list"
  caller :: 'a
  interleaved :: "('a \<Rightarrow> 'a) list"

section \<open>Asynchronous computations\<close>

text \<open>
  An \<^verbatim>\<open>async\<close> function either returns, throws, or is still waiting for a promise
  that is never settled.
\<close>

datatype 'a outcome = Returned 'a | Threw js_error | Pending

type_synonym ('a, 's) io = "'s world \<Rightarrow> 'a outcome \<times> 's world"

definition ret :: "'a \<Rightarrow> ('a, 's) io" where
  "ret x w = (Returned x, w)"

definition throw :: "js_error \<Rightarrow> ('a, 's) io" where
  "throw e w = (Threw e, w)"

definition bind :: "('a, 's) io \<Rightarrow> ('a \<Rightarrow> ('b, 's) io) \<Rightarrow> ('b, 's) io" where
  "bind m f w =
     (case m w of
        (Returned x, w') \<Rightarrow> f x w'
      | (Threw e, w') \<Rightarrow> (Threw e, w')
      | (Pending, w') \<Rightarrow> (Pending, w'))"

text \<open>\<^verbatim>\<open>try { m } catch (error) { h error }\<close>.\<close>

definition try_catch :: "('a, 's) io \<Rightarrow> (js_error \<Rightarrow> ('a, 's) io) \<Rightarrow> ('a, 's) io" where
  "try_catch m h w =
     (case m w of
        (Returned x, w') \<Rightarrow> (Returned x, w')
      | (Threw e, w') \<Rightarrow> h e w'
      | (Pending, w') \<Rightarrow> (Pending, w'))"

definition emit :: "event \<Rightarrow> (unit, 's) io" where
  "emit ev w = (Returned (), w\<lparr>log := log w @ [ev]\<rparr>)"

text \<open>
  The world when a suspended function is resumed: the handlers that ran meanwhile have
  changed the state of the component.
\<close>

definition resume :: "'s world \<Rightarrow> 's world" where
  "resume w =
     (case interleaved w of
        [] \<Rightarrow> w
      | h # hs \<Rightarrow> w\<lparr>caller := h (caller w), interleaved := hs\<rparr>)"

text \<open>An awaited promise settles with the reply \<open>r\<close>, and the function is resumed.\<close>

definition settle :: "'a reply \<Rightarrow> 's world \<Rightarrow> 'a outcome \<times> 's world" where
  "settle r w =
     (case r of Resolve x \<Rightarrow> (Returned x, resume w) | Reject e \<Rightarrow> (Threw e, resume w))"

subsection \<open>The awaited calls\<close>

definition hasSelectedApiKey :: "(bool, 's) io" where
  "hasSelectedApiKey w =
     (let w1 = w\<lparr>log := log w @ [HasSelectedApiKey]\<rparr> in
      case hasSelectedApiKey_replies w of
        [] \<Rightarrow> (Pending, w1)
      | r # rs \<Rightarrow> settle r (w1\<lparr>hasSelectedApiKey_replies := rs\<rparr>))"

definition openSelectKey :: "(unit, 's) io" where
  "openSelectKey w =
     (let w1 = w\<lparr>log := log w @ [OpenSelectKey]\<rparr> in
      case openSelectKey_replies w of
        [] \<Rightarrow> (Pending, w1)
      | r # rs \<Rightarrow> settle r (w1\<lparr>openSelectKey_replies := rs\<rparr>))"

definition generateContent :: "content_request \<Rightarrow> (content_response, 's) io" where
  "generateContent req w =
     (let w1 = w\<lparr>log := log w @ [GenerateContent req]\<rparr> in
      case generateContent_replies w of
        [] \<Rightarrow> (Pending, w1)
      | r # rs \<Rightarrow> settle r (w1\<lparr>generateContent_replies := rs\<rparr>))"

definition generateImages :: "images_request \<Rightarrow> (images_response, 's) io" where
  "generateImages req w =
     (let w1 = w\<lparr>log := log w @ [GenerateImages req]\<rparr> in
      case generateImages_replies w of
        [] \<Rightarrow> (Pending, w1)
      | r # rs \<Rightarrow> settle r (w1\<lparr>generateImages_replies := rs\<rparr>))"

definition generateVideos :: "videos_request \<Rightarrow> (operation, 's) io" where
  "generateVideos req w =
     (let w1 = w\<lparr>log := log w @ [GenerateVideos req]\<rparr> in
      case generateVideos_replies w of
        [] \<Rightarrow> (Pending, w1)
      | r # rs \<Rightarrow> settle r (w1\<lparr>generateVideos_replies := rs\<rparr>))"

definition getVideosOperation :: "operation \<Rightarrow> (operation, 's) io" where
  "getVideosOperation opn w =
     (let w1 = w\<lparr>log := log w @ [GetVideosOperation opn]\<rparr> in
      case getVideosOperation_replies w of
        [] \<Rightarrow> (Pending, w1)
      | r # rs \<Rightarrow> settle r (w1\<lparr>getVideosOperation_replies := rs\<rparr>))"

text \<open>\<^verbatim>\<open>await new Promise((resolve) => setTimeout(resolve, ms))\<close>: always resumes.\<close>

definition sleep :: "nat \<Rightarrow> (unit, 's) io" where
  "sleep ms = bind (emit (Sleep ms)) (\<lambda>_ w. (Returned (), resume w))"

text \<open>
  \<^verbatim>\<open>if (onProgress) onProgress(msg)\<close>. The callback is a function on the caller's state;
  the call is recorded in the log.
\<close>

definition report :: "(string \<Rightarrow> 's \<Rightarrow> 's) option \<Rightarrow> string \<Rightarrow> (unit, 's) io" where
  "report onProgress msg w =
     (case onProgress of
        None \<Rightarrow> (Returned (), w)
      | Some cb \<Rightarrow> (Returned (), w\<lparr>caller := cb msg (caller w), log := log w @ [OnProgress msg]\<rparr>))"

section \<open>The service (services/gemini)\<close>

text \<open>
  \<^verbatim>\<open>getAiClient\<close>: when the host offers key selection and no key is selected, open the
  selection dialog; then build the client. The client object is opaque.
\<close>

definition getAiClient :: "(unit, 's) io" where
  "getAiClient w =
     (if aistudio w then
        bind hasSelectedApiKey
          (\<lambda>hasKey. if \<not> hasKey then bind openSelectKey (\<lambda>_. ret ()) else ret ()) w
      else ret () w)"

definition analyze_instruction :: string where
  "analyze_instruction = ''Describe the visual content, subject, movement, and camera angle of this video in high detail. Focus on the main action and scene description. Do not mention any watermarks or text overlays in the description.''"

definition analyze_request :: "string \<Rightarrow> string \<Rightarrow> content_request" where
  "analyze_request videoBase64 mime =
     \<lparr>model = ''gemini-2.5-flash-latest'', inline_data = videoBase64,
      inline_mimeType = mime, instruction = analyze_instruction\<rparr>"

definition analyzeVideoContent :: "string \<Rightarrow> string \<Rightarrow> (string, 's) io" where
  "analyzeVideoContent videoBase64 mime =
     bind getAiClient (\<lambda>ai.
     bind (generateContent (analyze_request videoBase64 mime)) (\<lambda>response.
     ret (or_else (resp_text response) ''A cinematic video scene.'')))"

definition remove_instruction :: string where
  "remove_instruction = ''Remove the 'Sora' or 'Sora 2' watermark and any text overlays from this image. Output only the visual data of the cleaned image.''"

definition describe_instruction :: string where
  "describe_instruction = ''Describe this image in extreme detail for reconstruction. Ignore any text or watermarks like 'Sora'.''"

definition image_qualifier :: string where
  "image_qualifier = '' high quality, photorealistic, no text, no watermarks, clear 8k.''"

definition remove_request :: "string \<Rightarrow> string \<Rightarrow> content_request" where
  "remove_request imageBase64 mime =
     \<lparr>model = ''gemini-2.5-flash-image'', inline_data = imageBase64,
      inline_mimeType = mime, instruction = remove_instruction\<rparr>"

definition describe_request :: "string \<Rightarrow> string \<Rightarrow> content_request" where
  "describe_request imageBase64 mime =
     \<lparr>model = ''gemini-2.5-flash-latest'', inline_data = imageBase64,
      inline_mimeType = mime, instruction = describe_instruction\<rparr>"

definition imagen_request :: "string \<Rightarrow> images_request" where
  "imagen_request prompt =
     \<lparr>images_model = ''imagen-4.0-generate-001'', images_prompt = prompt @ image_qualifier,
      numberOfImages = 1, images_aspectRatio = ''16:9'', outputMimeType = ''image/png''\<rparr>"

text \<open>
  \<^verbatim>\<open>imagenResponse.generatedImages[0].image.imageBytes\<close>: reading a property of a
  missing list, of a missing first element or of a missing image raises a TypeError; the
  bytes themselves are returned as they are, also when they are missing.
\<close>

definition first_image_bytes :: "images_response \<Rightarrow> (js_string, 's) io" where
  "first_image_bytes r =
     (case generatedImages r of
        None \<Rightarrow> throw (Error (Str ''Cannot read properties of undefined (reading '0')''))
      | Some [] \<Rightarrow> throw (Error (Str ''Cannot read properties of undefined (reading 'image')''))
      | Some (g # _) \<Rightarrow>
          (case image_obj g of
             None \<Rightarrow>
               throw (Error (Str ''Cannot read properties of undefined (reading 'imageBytes')''))
           | Some img \<Rightarrow> ret (imageBytes img)))"

text \<open>
  \<^verbatim>\<open>cleanFrame\<close> (lines 42-103). The response of the first request is bound to a
  variable that is never read. The declared result type is \<^verbatim>\<open>string\<close>; the value
  returned is whatever the response holds.
\<close>

definition cleanFrame :: "string \<Rightarrow> string \<Rightarrow> (js_string, 's) io" where
  "cleanFrame imageBase64 mime =
     bind getAiClient (\<lambda>ai.
     bind (generateContent (remove_request imageBase64 mime)) (\<lambda>response.
     bind (generateContent (describe_request imageBase64 mime)) (\<lambda>descriptionResponse.
     let prompt = or_else (resp_text descriptionResponse) ''A clean video frame'' in
     bind (generateImages (imagen_request prompt)) (\<lambda>imagenResponse.
     first_image_bytes imagenResponse))))"

definition veo_request :: "js_string \<Rightarrow> string \<Rightarrow> videos_request" where
  "veo_request startFrameBase64 prompt =
     \<lparr>videos_model = ''veo-3.1-fast-generate-preview'',
      videos_prompt = prompt @ '' cinematic, high quality, consistent motion.'',
      image_imageBytes = startFrameBase64, image_mimeType = ''image/png'',
      numberOfVideos = 1, resolution = ''720p'', videos_aspectRatio = ''16:9''\<rparr>"

text \<open>
  The polling loop (lines 134-138):
  \<^verbatim>\<open>while (!operation.done) { report; sleep 5s; operation = await getVideosOperation }\<close>.
  Each pass consumes one reply of the status endpoint, which bounds the recursion; when
  the replies run out the last request stays unanswered.
\<close>

function poll :: "(string \<Rightarrow> 's \<Rightarrow> 's) option \<Rightarrow> operation \<Rightarrow> (operation, 's) io" where
  "poll onProgress opn w =
     (if op_done opn then (Returned opn, w)
      else
        (case bind (report onProgress ''Rendering video frames...'') (\<lambda>_.
              bind (sleep 5000) (\<lambda>_. getVideosOperation opn)) w of
           (Returned opn', w') \<Rightarrow> poll onProgress opn' w'
         | (Threw e, w') \<Rightarrow> (Threw e, w')
         | (Pending, w') \<Rightarrow> (Pending, w')))"
  by pat_completeness auto
termination
  by (relation "measure (\<lambda>(onProgress, opn, w). length (getVideosOperation_replies w))")
     (auto simp: bind_def report_def sleep_def emit_def getVideosOperation_def settle_def Let_def
           resume_def split: option.splits list.splits reply.splits)

declare poll.simps [simp del]

text \<open>\<^verbatim>\<open>(operation.response as VeoResponse)?.generatedVideos?.[0]?.video?.uri\<close>.\<close>

definition video_uri :: "operation \<Rightarrow> js_string" where
  "video_uri opn =
     (case response opn of
        None \<Rightarrow> Undefined
      | Some r \<Rightarrow>
          (case generatedVideos r of
             None \<Rightarrow> Undefined
           | Some [] \<Rightarrow> Undefined
           | Some (v # _) \<Rightarrow> Str (uri (video v))))"

text \<open>The body of the \<^verbatim>\<open>try\<close> block of \<^verbatim>\<open>generateCleanVideo\<close> (lines 115-151).\<close>

definition generateCleanVideo_try ::
  "js_string \<Rightarrow> string \<Rightarrow> (string \<Rightarrow> 's \<Rightarrow> 's) option \<Rightarrow> (js_string, 's) io" where
  "generateCleanVideo_try startFrameBase64 prompt onProgress =
     bind (generateVideos (veo_request startFrameBase64 prompt)) (\<lambda>opn.
     bind (report onProgress ''Video generation started. This may take a moment...'') (\<lambda>_.
     bind (poll onProgress opn) (\<lambda>opn.
       (case op_error opn of
          Some m \<Rightarrow> throw (Error (Str (or_else m ''Video generation failed'')))
        | None \<Rightarrow>
            (let videoUri = video_uri opn in
             if \<not> truthy videoUri then throw (Error (Str ''No video URI returned''))
             else (\<lambda>w. ret (Str (template videoUri @ ''&key='' @ template (API_KEY w))) w))))))"

text \<open>The \<^verbatim>\<open>catch\<close> block of \<^verbatim>\<open>generateCleanVideo\<close> (lines 153-163).\<close>

definition message_includes :: "js_error \<Rightarrow> string \<Rightarrow> bool" where
  "message_includes e sub = (case error_message e of Str m \<Rightarrow> str_includes m sub | _ \<Rightarrow> False)"

definition generateCleanVideo_catch :: "js_error \<Rightarrow> (js_string, 's) io" where
  "generateCleanVideo_catch err =
     bind (emit (ConsoleError err)) (\<lambda>_.
     (\<lambda>w. if message_includes err ''Requested entity was not found'' \<and> aistudio w then
            bind openSelectKey
              (\<lambda>_. throw (Error (Str ''API Key session expired. Please try again.''))) w
          else throw err w))"

definition generateCleanVideo ::
  "js_string \<Rightarrow> string \<Rightarrow> (string \<Rightarrow> 's \<Rightarrow> 's) option \<Rightarrow> (js_string, 's) io" where
  "generateCleanVideo startFrameBase64 prompt onProgress =
     bind getAiClient (\<lambda>ai.
     bind (report onProgress ''Initializing generation model...'') (\<lambda>_.
     try_catch (generateCleanVideo_try startFrameBase64 prompt onProgress)
       generateCleanVideo_catch))"

section \<open>The uploader (components/VideoUploader)\<close>

text \<open>
  The pattern \<^verbatim>\<open>/\.(mp4|webm|mov)$/i\<close>: the input ends with a dot and one of the three
  extensions, ASCII letters compared without case.
\<close>

definition lower :: "char \<Rightarrow> char" where
  "lower c =
     (case map_of (zip ''ABCDEFGHIJKLMNOPQRSTUVWXYZ'' ''abcdefghijklmnopqrstuvwxyz'') c of
        Some d \<Rightarrow> d
      | None \<Rightarrow> c)"

definition ends_with_ci :: "string \<Rightarrow> string \<Rightarrow> bool" where
  "ends_with_ci s suffix =
     (length suffix \<le> length s \<and> map lower (drop (length s - length suffix) s) = suffix)"

definition video_link_match :: "string \<Rightarrow> bool" where
  "video_link_match s =
     (ends_with_ci s ''.mp4'' \<or> ends_with_ci s ''.webm'' \<or> ends_with_ci s ''.mov'')"

definition link_warning :: string where
  "link_warning = ''For this demo, please use a direct link to a video file (.mp4) or upload a file. Standard website URLs cannot be processed client-side.''"

text \<open>\<^verbatim>\<open>handleLinkSubmit\<close> (lines 94-112), as the events it causes for the input \<open>linkInput\<close>.\<close>

definition handleLinkSubmit :: "string \<Rightarrow> event list" where
  "handleLinkSubmit linkInput =
     PreventDefault #
     (if linkInput = [] then []
      else if video_link_match linkInput then
        [OnVideoSelected \<lparr>file_obj = None, url = Str linkInput, previewUrl = Str linkInput,
                          base64Data = Undefined, mimeType = Undefined\<rparr>]
      else [Alert link_warning])"

text \<open>
  The button that submits the form of the link (line 198):
  \<^verbatim>\<open>disabled={!linkInput || disabled}\<close>. While the input is empty the form cannot be
  submitted.
\<close>

definition submit_disabled :: "string \<Rightarrow> bool \<Rightarrow> bool" where
  "submit_disabled linkInput disabled = (linkInput = [] \<or> disabled)"

text \<open>
  Following the spec's words ("its suffix matches a small set of known video container
  extensions"): the link is some text, a dot, and an extension that is mp4, webm or mov
  up to the case of its letters. It is compared with \<open>video_link_match\<close> below.
\<close>

definition recognized_video_suffix :: "string \<Rightarrow> bool" where
  "recognized_video_suffix s =
     (\<exists>base ext. s = base @ CHR ''.'' # ext \<and> map lower ext \<in> {''mp4'', ''webm'', ''mov''})"

section \<open>The application (App)\<close>

text \<open>
  The video element behind \<^verbatim>\<open>videoRef\<close>, with the dimensions it has once its data has
  loaded, and whether the \<^verbatim>\<open>loadeddata\<close> event will fire. The canvas behind
  \<^verbatim>\<open>canvasRef\<close>: whether \<^verbatim>\<open>getContext('2d')\<close> gives a context, and the data URL
  that \<^verbatim>\<open>toDataURL('image/png')\<close> gives for a canvas of a width and height after the
  video has been drawn on it (a browser function, taken as a parameter).
\<close>

record video_element =
  readyState :: nat
  videoWidth :: nat
  videoHeight :: nat
  loadeddata_fires :: bool

record canvas_element =
  context2d :: bool
  toDataURL :: "nat \<Rightarrow> nat \<Rightarrow> string"

text \<open>
  The component's state. \<open>states_set\<close> records every state passed to
  \<^verbatim>\<open>setProcessingState\<close>, in order.
\<close>

record App =
  videoData :: "VideoData option"
  processingState :: ProcessingState
  resultVideoUrl :: js_string
  videoRef :: "video_element option"
  canvasRef :: "canvas_element option"
  states_set :: "ProcessingState list"

definition set_state :: "ProcessingState \<Rightarrow> App \<Rightarrow> App" where
  "set_state s a = a\<lparr>processingState := s, states_set := states_set a @ [s]\<rparr>"

definition idle_state :: ProcessingState where
  "idle_state = \<lparr>status = idle, message = [], progress = Some 0, error = None\<rparr>"

definition handleVideoSelected :: "VideoData \<Rightarrow> App \<Rightarrow> App" where
  "handleVideoSelected data a =
     set_state idle_state (a\<lparr>videoData := Some data, resultVideoUrl := Null\<rparr>)"

text \<open>The handler of the button "Change Video" (line 363): \<^verbatim>\<open>setVideoData(null)\<close>.\<close>

definition changeVideo :: "App \<Rightarrow> App" where
  "changeVideo a = a\<lparr>videoData := None\<rparr>"

text \<open>The handler of the button "Try Again" (lines 437-442).\<close>

definition tryAgain :: "App \<Rightarrow> App" where
  "tryAgain a = set_state idle_state a"

text \<open>
  The events of the page whose handlers set the state of the component, and what the
  handlers of a sequence of such events do to it. The page goes on handling its events
  while \<^verbatim>\<open>startProcessing\<close> is suspended: nothing in the code disables a control for
  the time of a run. (The fourth control that changes the state is the button that
  starts a run; a second run started while the first is suspended would be interleaved
  with it step by step, and is not described here.)
\<close>

datatype ui_event = VideoSelected VideoData | ChangeVideoClicked | TryAgainClicked

fun handle :: "ui_event \<Rightarrow> App \<Rightarrow> App" where
  "handle (VideoSelected data) = handleVideoSelected data"
| "handle ChangeVideoClicked = changeVideo"
| "handle TryAgainClicked = tryAgain"

definition handled :: "ui_event list \<Rightarrow> App \<Rightarrow> App" where
  "handled evs a = foldl (\<lambda>x ev. handle ev x) a evs"

text \<open>\<^verbatim>\<open>captureFirstFrame\<close> (lines 234-247).\<close>

definition captureFirstFrame :: "App \<Rightarrow> js_string" where
  "captureFirstFrame a =
     (case videoRef a of
        None \<Rightarrow> Null
      | Some vid \<Rightarrow>
          (case canvasRef a of
             None \<Rightarrow> Null
           | Some canvas \<Rightarrow>
               if \<not> context2d canvas then Null
               else
                 (let dataUrl = toDataURL canvas (videoWidth vid) (videoHeight vid)
                  in at_index (split CHR '','' dataUrl) 1)))"

definition setProcessingState :: "ProcessingState \<Rightarrow> (unit, App) io" where
  "setProcessingState s w = (Returned (), w\<lparr>caller := set_state s (caller w)\<rparr>)"

definition setResultVideoUrl :: "js_string \<Rightarrow> (unit, App) io" where
  "setResultVideoUrl u w = (Returned (), w\<lparr>caller := (caller w)\<lparr>resultVideoUrl := u\<rparr>\<rparr>)"

text \<open>The progress callback: \<^verbatim>\<open>(msg) => setProcessingState(prev => ({...prev, message: msg}))\<close>.\<close>

definition progress_message :: "string \<Rightarrow> App \<Rightarrow> App" where
  "progress_message msg a = set_state ((processingState a)\<lparr>message := msg\<rparr>) a"

text \<open>
  Waiting for the video's data (lines 262-266): when the element is not ready the run
  is suspended until \<^verbatim>\<open>loadeddata\<close> fires.
\<close>

definition await_loadeddata :: "(unit, App) io" where
  "await_loadeddata w =
     (case videoRef (caller w) of
        None \<Rightarrow> (Returned (), w)
      | Some vid \<Rightarrow>
          if readyState vid < 2 then
            (if loadeddata_fires vid then (Returned (), resume w) else (Pending, w))
          else (Returned (), w))"

text \<open>Step 1 of \<^verbatim>\<open>startProcessing\<close> (lines 259-269): the captured first frame.\<close>

definition startProcessing_capture :: "(string, App) io" where
  "startProcessing_capture =
     bind (setProcessingState
             \<lparr>status = analyzing, message = ''Analyzing video structure...'',
              progress = Some 10, error = None\<rparr>) (\<lambda>_.
     bind await_loadeddata (\<lambda>_.
     (\<lambda>w. case captureFirstFrame (caller w) of
            Str firstFrameBase64 \<Rightarrow>
              if firstFrameBase64 = [] then throw (Error (Str ''Could not capture video frame'')) w
              else ret firstFrameBase64 w
          | _ \<Rightarrow> throw (Error (Str ''Could not capture video frame'')) w)))"

text \<open>Step 2 (lines 274-278): the description.\<close>

definition startProcessing_describe :: "VideoData \<Rightarrow> string \<Rightarrow> (string, App) io" where
  "startProcessing_describe vd firstFrameBase64 =
     (let dataToAnalyze = or_else (base64Data vd) firstFrameBase64;
          mimeToAnalyze = or_else (mimeType vd) ''image/png''
      in bind (analyzeVideoContent dataToAnalyze mimeToAnalyze) (\<lambda>analysisPrompt.
         bind (emit (ConsoleLog analysisPrompt)) (\<lambda>_. ret analysisPrompt)))"

text \<open>Step 3 (lines 280-283): the clean frame.\<close>

definition startProcessing_clean :: "string \<Rightarrow> (js_string, App) io" where
  "startProcessing_clean firstFrameBase64 =
     bind (setProcessingState
             \<lparr>status = cleaning_frame, message = ''Reconstructing clean keyframes...'',
              progress = Some 40, error = None\<rparr>) (\<lambda>_.
     cleanFrame firstFrameBase64 ''image/png'')"

text \<open>Step 4 (lines 285-297): the video.\<close>

definition startProcessing_generate :: "js_string \<Rightarrow> string \<Rightarrow> (unit, App) io" where
  "startProcessing_generate cleanedFrameBase64 analysisPrompt =
     bind (setProcessingState
             \<lparr>status = generating, message = ''Generating logo-free video with Veo...'',
              progress = Some 60, error = None\<rparr>) (\<lambda>_.
     bind (generateCleanVideo cleanedFrameBase64 analysisPrompt (Some progress_message))
       (\<lambda>videoUrl.
          if truthy videoUrl then
            bind (setResultVideoUrl videoUrl) (\<lambda>_.
            setProcessingState
              \<lparr>status = completed, message = ''Restoration complete!'',
               progress = Some 100, error = None\<rparr>)
          else ret ()))"

text \<open>The \<^verbatim>\<open>catch\<close> block (lines 299-306).\<close>

definition startProcessing_catch :: "js_error \<Rightarrow> (unit, App) io" where
  "startProcessing_catch err =
     bind (emit (ConsoleError err)) (\<lambda>_.
     setProcessingState
       \<lparr>status = status.error, message = ''Processing failed'', progress = None,
        error = Some (or_else (error_message err) ''Unknown error occurred'')\<rparr>)"

definition startProcessing_try :: "VideoData \<Rightarrow> (unit, App) io" where
  "startProcessing_try vd =
     bind startProcessing_capture (\<lambda>firstFrameBase64.
     bind (startProcessing_describe vd firstFrameBase64) (\<lambda>analysisPrompt.
     bind (startProcessing_clean firstFrameBase64) (\<lambda>cleanedFrameBase64.
     startProcessing_generate cleanedFrameBase64 analysisPrompt)))"

text \<open>
  \<^verbatim>\<open>startProcessing\<close> (lines 249-307). The video record is the one of the render in
  which the run was started; the state of the component is read and written as it is at
  each step, after whatever the handlers have done to it during the suspensions.
\<close>

definition startProcessing :: "(unit, App) io" where
  "startProcessing w =
     (case videoData (caller w) of
        None \<Rightarrow> ret () w
      | Some vd \<Rightarrow>
          if \<not> truthy (previewUrl vd) then ret () w
          else if \<not> truthy (API_KEY w) \<and> \<not> aistudio w then
            bind (emit (Alert ''API Key environment missing.'')) (\<lambda>_. ret ()) w
          else try_catch (startProcessing_try vd) startProcessing_catch w)"

section \<open>Notions used in the statements\<close>


definition half_pass :: "(string \<Rightarrow> 's \<Rightarrow> 's) \<Rightarrow> 's world \<Rightarrow> 's world" where
  "half_pass cb w = resume (w\<lparr>caller := cb ''Rendering video frames...'' (caller w)\<rparr>)"

definition full_pass :: "(string \<Rightarrow> 's \<Rightarrow> 's) \<Rightarrow> 's world \<Rightarrow> 's world" where
  "full_pass cb w = resume (half_pass cb w)"


text \<open>The world after \<^verbatim>\<open>if (onProgress) onProgress(msg)\<close>.\<close>

definition reported :: "(string \<Rightarrow> 's \<Rightarrow> 's) option \<Rightarrow> string \<Rightarrow> 's world \<Rightarrow> 's world" where
  "reported onProgress msg w =
     (case onProgress of
        None \<Rightarrow> w
      | Some cb \<Rightarrow> w\<lparr>caller := cb msg (caller w), log := log w @ [OnProgress msg]\<rparr>)"

text \<open>The states that \<^verbatim>\<open>startProcessing\<close> sets, and the error of the key selection path.\<close>

definition analyzing_state :: ProcessingState where
  "analyzing_state = \<lparr>status = analyzing, message = ''Analyzing video structure...'',
     progress = Some 10, error = None\<rparr>"

definition cleaning_state :: ProcessingState where
  "cleaning_state = \<lparr>status = cleaning_frame, message = ''Reconstructing clean keyframes...'',
     progress = Some 40, error = None\<rparr>"

definition generating_state :: ProcessingState where
  "generating_state = \<lparr>status = generating, message = ''Generating logo-free video with Veo...'',
     progress = Some 60, error = None\<rparr>"

definition completed_state :: ProcessingState where
  "completed_state = \<lparr>status = completed, message = ''Restoration complete!'',
     progress = Some 100, error = None\<rparr>"

definition failed_state :: "js_error \<Rightarrow> ProcessingState" where
  "failed_state err = \<lparr>status = status.error, message = ''Processing failed'', progress = None,
     error = Some (or_else (error_message err) ''Unknown error occurred'')\<rparr>"

definition expired_error :: js_error where
  "expired_error = Error (Str ''API Key session expired. Please try again.'')"

text \<open>
  A computation that adds to the log only events that satisfy \<open>P\<close>; the remote calls
  of the clean-frame and generate stages; the world after the \<^verbatim>\<open>catch\<close> block of
  \<^verbatim>\<open>startProcessing\<close>.
\<close>

definition logs_only :: "(event \<Rightarrow> bool) \<Rightarrow> ('a, 's) io \<Rightarrow> bool" where
  "logs_only P m = (\<forall>w. \<exists>evs. log (snd (m w)) = log w @ evs \<and> list_all P evs)"

fun clean_or_generate_call :: "event \<Rightarrow> bool" where
  "clean_or_generate_call (GenerateContent r) =
     (instruction r = remove_instruction \<or> instruction r = describe_instruction)"
| "clean_or_generate_call (GenerateImages r) = True"
| "clean_or_generate_call (GenerateVideos r) = True"
| "clean_or_generate_call (GetVideosOperation opn) = True"
| "clean_or_generate_call ev = False"

fun generate_call :: "event \<Rightarrow> bool" where
  "generate_call (GenerateVideos r) = True"
| "generate_call (GetVideosOperation opn) = True"
| "generate_call ev = False"

definition failed_run :: "js_error \<Rightarrow> App world \<Rightarrow> App world" where
  "failed_run err w =
     w\<lparr>caller := set_state (failed_state err) (caller w), log := log w @ [ConsoleError err]\<rparr>"

text \<open>
  The relation of a state of the caller to what applications of the progress callback
  \<open>cb\<close> and of handlers that satisfy \<open>H\<close> make of it; a computation that changes the
  caller's state only in this way, provided that all handlers that are still to run
  satisfy \<open>H\<close>.
\<close>

inductive steps :: "(('s \<Rightarrow> 's) \<Rightarrow> bool) \<Rightarrow> (string \<Rightarrow> 's \<Rightarrow> 's) \<Rightarrow> 's \<Rightarrow> 's \<Rightarrow> bool"
  for H cb where
  steps_refl: "steps H cb a a"
| steps_report: "steps H cb a b \<Longrightarrow> steps H cb a (cb msg b)"
| steps_handler: "steps H cb a b \<Longrightarrow> H h \<Longrightarrow> steps H cb a (h b)"

definition caller_moves ::
  "(('s \<Rightarrow> 's) \<Rightarrow> bool) \<Rightarrow> (string \<Rightarrow> 's \<Rightarrow> 's) \<Rightarrow> ('a, 's) io \<Rightarrow> bool" where
  "caller_moves H cb m =
     (\<forall>w. list_all H (interleaved w) \<longrightarrow>
        steps H cb (caller w) (caller (snd (m w))) \<and> list_all H (interleaved (snd (m w))))"

text \<open>A handler that sets no state other than the idle state.\<close>

definition only_resets :: "(App \<Rightarrow> App) \<Rightarrow> bool" where
  "only_resets h = (\<forall>a. \<exists>ss. states_set (h a) = states_set a @ ss \<and> set ss \<subseteq> {idle_state})"

text \<open>The states set from \<open>a\<close> to \<open>b\<close> are new ones, none with the status "generating".\<close>

definition adds_no_generating :: "App \<Rightarrow> App \<Rightarrow> bool" where
  "adds_no_generating a b =
     (\<exists>ss. states_set b = states_set a @ ss \<and> generating \<notin> status ` set ss)"

text \<open>
  The value \<^verbatim>\<open>generatedImages[0].image.imageBytes\<close> of a response in which all three
  properties are present.
\<close>

definition bytes_of_first_image :: "images_response \<Rightarrow> js_string \<Rightarrow> bool" where
  "bytes_of_first_image r c =
     (case generatedImages r of
        Some (g # _) \<Rightarrow> (case image_obj g of Some img \<Rightarrow> imageBytes img = c | None \<Rightarrow> False)
      | _ \<Rightarrow> False)"

text \<open>The position of a status in the enumeration of \<^verbatim>\<open>ProcessingState\<close>.\<close>

fun status_rank :: "status \<Rightarrow> nat" where
  "status_rank idle = 0"
| "status_rank analyzing = 1"
| "status_rank cleaning_frame = 2"
| "status_rank generating = 3"
| "status_rank completed = 4"
| "status_rank status.error = 5"

section \<open>Example worlds\<close>

text \<open>The values at which the theorems below are instantiated.\<close>

definition rendering_op :: operation where
  "rendering_op = \<lparr>op_done = False, op_error = None, response = None\<rparr>"

definition finished_op :: operation where
  "finished_op =
     \<lparr>op_done = True, op_error = None,
      response = Some \<lparr>generatedVideos = Some [\<lparr>video = \<lparr>uri = ''https://videos.example/v1?alt=media'', expirationTime = None\<rparr>\<rparr>]\<rparr>\<rparr>"


definition sample_video :: video_element where
  "sample_video = \<lparr>readyState = 4, videoWidth = 1280, videoHeight = 720, loadeddata_fires = True\<rparr>"

definition audio_only_video :: video_element where
  "audio_only_video = \<lparr>readyState = 4, videoWidth = 0, videoHeight = 0, loadeddata_fires = True\<rparr>"

text \<open>A canvas as browsers implement it: an empty canvas gives the data URL "data:,".\<close>

definition sample_canvas :: canvas_element where
  "sample_canvas =
     \<lparr>context2d = True,
      toDataURL = (\<lambda>width height.
        if width = 0 \<or> height = 0 then ''data:,'' else ''data:image/png;base64,iVBORw0KGgo='')\<rparr>"

definition sample_upload :: VideoData where
  "sample_upload =
     \<lparr>file_obj = Some \<lparr>file_name = ''clip.mp4'', file_type = ''video/mp4''\<rparr>, url = Null,
      previewUrl = Str ''blob:https://app.example/1'', base64Data = Str ''AAAAIGZ0eXA='',
      mimeType = Str ''video/mp4''\<rparr>"

definition sample_app :: App where
  "sample_app =
     \<lparr>videoData = Some sample_upload, processingState = idle_state, resultVideoUrl = Null,
      videoRef = Some sample_video, canvasRef = Some sample_canvas, states_set = []\<rparr>"

definition audio_only_app :: App where
  "audio_only_app = sample_app\<lparr>videoRef := Some audio_only_video\<rparr>"

text \<open>
  A world in which the host offers key selection with a key selected, and every remote
  call succeeds; the video operation is done at the second status request. No handler
  runs during the run.
\<close>

definition sample_world :: "App world" where
  "sample_world =
     \<lparr>aistudio = True, API_KEY = Str ''k1'',
      hasSelectedApiKey_replies = [Resolve True, Resolve True, Resolve True],
      openSelectKey_replies = [Resolve ()],
      generateContent_replies =
        [Resolve \<lparr>resp_text = Str ''A red kite over dunes.''\<rparr>,
         Resolve \<lparr>resp_text = Str ''Done.''\<rparr>,
         Resolve \<lparr>resp_text = Str ''A kite, dunes, blue sky.''\<rparr>],
      generateImages_replies =
        [Resolve \<lparr>generatedImages =
           Some [\<lparr>image_obj = Some \<lparr>imageBytes = Str ''iVBORclean''\<rparr>\<rparr>]\<rparr>],
      generateVideos_replies = [Resolve rendering_op],
      getVideosOperation_replies = [Resolve rendering_op, Resolve finished_op],
      log = [], caller = sample_app, interleaved = []\<rparr>"

text \<open>The worlds between the steps of \<^verbatim>\<open>startProcessing\<close> started in \<open>w\<close>.\<close>

definition after_capture :: "App world \<Rightarrow> App world" where
  "after_capture w = snd (startProcessing_capture w)"

definition after_describe :: "VideoData \<Rightarrow> string \<Rightarrow> App world \<Rightarrow> App world" where
  "after_describe vd f w = snd (startProcessing_describe vd f (after_capture w))"

definition after_clean :: "VideoData \<Rightarrow> string \<Rightarrow> App world \<Rightarrow> App world" where
  "after_clean vd f w = snd (startProcessing_clean f (after_describe vd f w))"

definition at_generate :: "VideoData \<Rightarrow> string \<Rightarrow> App world \<Rightarrow> App world" where
  "at_generate vd f w =
     (after_clean vd f w)\<lparr>caller := set_state generating_state (caller (after_clean vd f w))\<rparr>"

text \<open>Variants of the sample world in which a remote call is rejected.\<close>

definition not_found_error :: js_error where
  "not_found_error = Error (Str ''Requested entity was not found.'')"

definition describe_not_found_world :: "App world" where
  "describe_not_found_world =
     sample_world\<lparr>generateContent_replies := [Reject not_found_error]\<rparr>"

definition veo_not_found_world :: "App world" where
  "veo_not_found_world =
     sample_world\<lparr>generateVideos_replies := [Reject not_found_error]\<rparr>"

definition veo_not_found_no_host_world :: "App world" where
  "veo_not_found_no_host_world = veo_not_found_world\<lparr>aistudio := False\<rparr>"

text \<open>Worlds for a call of \<^verbatim>\<open>cleanFrame\<close> alone.\<close>

definition clean_world :: "App world" where
  "clean_world =
     sample_world\<lparr>hasSelectedApiKey_replies := [Resolve True],
       generateContent_replies :=
         [Resolve \<lparr>resp_text = Str ''Done.''\<rparr>,
          Resolve \<lparr>resp_text = Str ''A kite, dunes, blue sky.''\<rparr>]\<rparr>"

definition overloaded_error :: js_error where
  "overloaded_error = Error (Str ''The model is overloaded.'')"

definition clean_world_first_rejected :: "App world" where
  "clean_world_first_rejected =
     sample_world\<lparr>hasSelectedApiKey_replies := [Resolve True],
       generateContent_replies :=
         [Reject overloaded_error,
          Resolve \<lparr>resp_text = Str ''A kite, dunes, blue sky.''\<rparr>]\<rparr>"

definition blank_error_world :: "App world" where
  "blank_error_world = sample_world\<lparr>generateContent_replies := [Reject (Error (Str []))]\<rparr>"

definition clean_rejected_world :: "App world" where
  "clean_rejected_world =
     sample_world\<lparr>generateContent_replies :=
       [Resolve \<lparr>resp_text = Str ''A red kite over dunes.''\<rparr>, Reject overloaded_error]\<rparr>"


text \<open>
  Variants in which the image model answers with an image that has no bytes, or empty
  bytes.
\<close>

definition no_bytes_world :: "App world" where
  "no_bytes_world =
     sample_world\<lparr>generateImages_replies :=
       [Resolve \<lparr>generatedImages = Some [\<lparr>image_obj = Some \<lparr>imageBytes = Undefined\<rparr>\<rparr>]\<rparr>]\<rparr>"

definition empty_bytes_world :: "App world" where
  "empty_bytes_world =
     sample_world\<lparr>generateImages_replies :=
       [Resolve \<lparr>generatedImages = Some [\<lparr>image_obj = Some \<lparr>imageBytes = Str []\<rparr>\<rparr>]\<rparr>]\<rparr>"

text \<open>
  A variant in which, while the run sleeps in the first pass of the polling loop (its
  ninth suspension), the user clicks "Change Video" and selects a video.
\<close>

definition reselect_script :: "ui_event list list" where
  "reselect_script =
     [[], [], [], [], [], [], [], [], [ChangeVideoClicked, VideoSelected sample_upload]]"

definition reselect_world :: "App world" where
  "reselect_world = sample_world\<lparr>interleaved := map handled reselect_script\<rparr>"

section \<open>Sequencing\<close>

lemma try_catch_Returned: "m w = (Returned x, w') \<Longrightarrow> try_catch m h w = (Returned x, w')"
  by (simp add: try_catch_def)

lemma try_catch_Threw: "m w = (Threw e, w') \<Longrightarrow> try_catch m h w = h e w'"
  by (simp add: try_catch_def)

section \<open>Resuming after a suspension\<close>

lemma resume_fields [simp]:
  "aistudio (resume w) = aistudio w"
  "API_KEY (resume w) = API_KEY w"
  "hasSelectedApiKey_replies (resume w) = hasSelectedApiKey_replies w"
  "openSelectKey_replies (resume w) = openSelectKey_replies w"
  "generateContent_replies (resume w) = generateContent_replies w"
  "generateImages_replies (resume w) = generateImages_replies w"
  "generateVideos_replies (resume w) = generateVideos_replies w"
  "getVideosOperation_replies (resume w) = getVideosOperation_replies w"
  "log (resume w) = log w"
  by (simp_all add: resume_def split: list.splits)

lemma resume_update [simp]:
  "resume (w\<lparr>hasSelectedApiKey_replies := r1\<rparr>) = (resume w)\<lparr>hasSelectedApiKey_replies := r1\<rparr>"
  "resume (w\<lparr>openSelectKey_replies := r2\<rparr>) = (resume w)\<lparr>openSelectKey_replies := r2\<rparr>"
  "resume (w\<lparr>generateContent_replies := r3\<rparr>) = (resume w)\<lparr>generateContent_replies := r3\<rparr>"
  "resume (w\<lparr>generateImages_replies := r4\<rparr>) = (resume w)\<lparr>generateImages_replies := r4\<rparr>"
  "resume (w\<lparr>generateVideos_replies := r5\<rparr>) = (resume w)\<lparr>generateVideos_replies := r5\<rparr>"
  "resume (w\<lparr>getVideosOperation_replies := r6\<rparr>) = (resume w)\<lparr>getVideosOperation_replies := r6\<rparr>"
  "resume (w\<lparr>log := l\<rparr>) = (resume w)\<lparr>log := l\<rparr>"
  by (simp_all add: resume_def split: list.splits)

lemma caller_update_inward [simp]:
  "w\<lparr>hasSelectedApiKey_replies := r1, caller := c\<rparr> = w\<lparr>caller := c, hasSelectedApiKey_replies := r1\<rparr>"
  "w\<lparr>openSelectKey_replies := r2, caller := c\<rparr> = w\<lparr>caller := c, openSelectKey_replies := r2\<rparr>"
  "w\<lparr>generateContent_replies := r3, caller := c\<rparr> = w\<lparr>caller := c, generateContent_replies := r3\<rparr>"
  "w\<lparr>generateImages_replies := r4, caller := c\<rparr> = w\<lparr>caller := c, generateImages_replies := r4\<rparr>"
  "w\<lparr>generateVideos_replies := r5, caller := c\<rparr> = w\<lparr>caller := c, generateVideos_replies := r5\<rparr>"
  "w\<lparr>getVideosOperation_replies := r6, caller := c\<rparr> = w\<lparr>caller := c, getVideosOperation_replies := r6\<rparr>"
  "w\<lparr>log := l, caller := c\<rparr> = w\<lparr>caller := c, log := l\<rparr>"
  by simp_all

lemma resume_quiet: "interleaved w = [] \<Longrightarrow> resume w = w"
  by (simp add: resume_def)

lemma resume_handlers:
  "interleaved w = h # hs \<Longrightarrow> resume w = w\<lparr>caller := h (caller w), interleaved := hs\<rparr>"
  by (simp add: resume_def)

lemma pair_fst: "fst x = a \<Longrightarrow> x = (a, snd x)"
  by (cases x) simp

section \<open>The polling loop\<close>

lemma full_pass_fields [simp]:
  "log (full_pass cb w) = log w"
  "getVideosOperation_replies (full_pass cb w) = getVideosOperation_replies w"
  "log (half_pass cb w) = log w"
  "getVideosOperation_replies (half_pass cb w) = getVideosOperation_replies w"
  by (simp_all add: full_pass_def half_pass_def)

lemma full_pass_update [simp]:
  "full_pass cb (w\<lparr>log := l\<rparr>) = (full_pass cb w)\<lparr>log := l\<rparr>"
  "full_pass cb (w\<lparr>getVideosOperation_replies := r\<rparr>)
     = (full_pass cb w)\<lparr>getVideosOperation_replies := r\<rparr>"
  "half_pass cb (w\<lparr>log := l\<rparr>) = (half_pass cb w)\<lparr>log := l\<rparr>"
  "half_pass cb (w\<lparr>getVideosOperation_replies := r\<rparr>)
     = (half_pass cb w)\<lparr>getVideosOperation_replies := r\<rparr>"
  by (simp_all add: full_pass_def half_pass_def)

lemma passes_fields [simp]:
  "log ((full_pass cb ^^ n) w) = log w"
  "getVideosOperation_replies ((full_pass cb ^^ n) w) = getVideosOperation_replies w"
  by (induction n) simp_all

lemma passes_update [simp]:
  "(full_pass cb ^^ n) (w\<lparr>log := l\<rparr>) = ((full_pass cb ^^ n) w)\<lparr>log := l\<rparr>"
  "(full_pass cb ^^ n) (w\<lparr>getVideosOperation_replies := r\<rparr>)
     = ((full_pass cb ^^ n) w)\<lparr>getVideosOperation_replies := r\<rparr>"
  by (induction n) simp_all















section \<open>The run of \<^verbatim>\<open>startProcessing\<close>, stage by stage\<close>

lemma startProcessing_catch_eq:
  "startProcessing_catch err w =
     (Returned (), w\<lparr>caller := set_state (failed_state err) (caller w), log := log w @ [ConsoleError err]\<rparr>)"
  by (simp add: startProcessing_catch_def bind_def emit_def setProcessingState_def failed_state_def)

lemma startProcessing_guarded:
  assumes "videoData (caller w) = Some vd" "truthy (previewUrl vd)" "truthy (API_KEY w) \<or> aistudio w"
  shows "startProcessing w = try_catch (startProcessing_try vd) startProcessing_catch w"
  using assms by (auto simp: startProcessing_def)

lemma try_at_generate:
  assumes "startProcessing_capture w = (Returned f, w1)"
    and "startProcessing_describe vd f w1 = (Returned p, w2)"
    and "startProcessing_clean f w2 = (Returned c, w3)"
  shows "startProcessing_try vd w = startProcessing_generate c p w3"
  using assms by (simp add: startProcessing_try_def bind_def)

lemma startProcessing_generate_eq:
  "startProcessing_generate c p w3 =
     bind (generateCleanVideo c p (Some progress_message))
       (\<lambda>videoUrl.
          if truthy videoUrl then
            bind (setResultVideoUrl videoUrl) (\<lambda>_. setProcessingState completed_state)
          else ret ()) (w3\<lparr>caller := set_state generating_state (caller w3)\<rparr>)"
  unfolding startProcessing_generate_def generating_state_def completed_state_def
  by (simp add: bind_def setProcessingState_def)

lemma run_generate_Threw:
  assumes g: "videoData (caller w) = Some vd" "truthy (previewUrl vd)" "truthy (API_KEY w) \<or> aistudio w"
    and st: "startProcessing_capture w = (Returned f, w1)"
      "startProcessing_describe vd f w1 = (Returned p, w2)"
      "startProcessing_clean f w2 = (Returned c, w3)"
    and gen: "generateCleanVideo c p (Some progress_message)
        (w3\<lparr>caller := set_state generating_state (caller w3)\<rparr>) = (Threw x, w4)"
  shows "startProcessing w =
     (Returned (), w4\<lparr>caller := set_state (failed_state x) (caller w4), log := log w4 @ [ConsoleError x]\<rparr>)"
proof -
  have "startProcessing_try vd w = (Threw x, w4)"
    unfolding try_at_generate [OF st] startProcessing_generate_eq
    using gen by (simp add: bind_def)
  then show ?thesis
    unfolding startProcessing_guarded [OF g]
    by (simp add: try_catch_Threw startProcessing_catch_eq)
qed

lemma run_generate_Returned:
  assumes g: "videoData (caller w) = Some vd" "truthy (previewUrl vd)" "truthy (API_KEY w) \<or> aistudio w"
    and st: "startProcessing_capture w = (Returned f, w1)"
      "startProcessing_describe vd f w1 = (Returned p, w2)"
      "startProcessing_clean f w2 = (Returned c, w3)"
    and gen: "generateCleanVideo c p (Some progress_message)
        (w3\<lparr>caller := set_state generating_state (caller w3)\<rparr>) = (Returned v, w4)"
    and v: "truthy v"
  shows "startProcessing w =
     (Returned (), w4\<lparr>caller := set_state completed_state ((caller w4)\<lparr>resultVideoUrl := v\<rparr>)\<rparr>)"
proof -
  have "startProcessing_try vd w =
     (Returned (), w4\<lparr>caller := set_state completed_state ((caller w4)\<lparr>resultVideoUrl := v\<rparr>)\<rparr>)"
    unfolding try_at_generate [OF st] startProcessing_generate_eq
    using gen v by (simp add: bind_def setResultVideoUrl_def setProcessingState_def)
  then show ?thesis
    unfolding startProcessing_guarded [OF g]
    by (simp add: try_catch_Returned)
qed

lemma getAiClient_without_host: "\<not> aistudio w \<Longrightarrow> getAiClient w = (Returned (), w)"
  by (simp add: getAiClient_def ret_def)

lemma generateCleanVideo_catch_rethrow:
  assumes "\<not> (message_includes err ''Requested entity was not found'' \<and> aistudio w)"
  shows "generateCleanVideo_catch err w = (Threw err, w\<lparr>log := log w @ [ConsoleError err]\<rparr>)"
  using assms by (auto simp: generateCleanVideo_catch_def bind_def emit_def throw_def)

lemma generateCleanVideo_catch_reselect:
  assumes "message_includes err ''Requested entity was not found''" "aistudio w"
    and "openSelectKey_replies w = Resolve () # rest"
  shows "generateCleanVideo_catch err w =
     (Threw expired_error,
      (resume w)\<lparr>log := log w @ [ConsoleError err, OpenSelectKey], openSelectKey_replies := rest\<rparr>)"
  using assms
  by (simp add: generateCleanVideo_catch_def bind_def emit_def throw_def openSelectKey_def
      settle_def expired_error_def)

lemma generateCleanVideo_try_rejected:
  assumes "generateVideos_replies w = Reject e # rest"
  shows "generateCleanVideo_try f p onProgress w =
     (Threw e,
      (resume w)\<lparr>log := log w @ [GenerateVideos (veo_request f p)], generateVideos_replies := rest\<rparr>)"
  using assms
  by (simp add: generateCleanVideo_try_def bind_def generateVideos_def settle_def)


section \<open>Unfolding the model\<close>

lemmas io_defs = bind_def ret_def throw_def try_catch_def emit_def settle_def sleep_def report_def
  resume_quiet resume_handlers
  hasSelectedApiKey_def openSelectKey_def generateContent_def generateImages_def
  generateVideos_def getVideosOperation_def getAiClient_def

lemmas service_defs = analyzeVideoContent_def cleanFrame_def first_image_bytes_def
  generateCleanVideo_def generateCleanVideo_try_def generateCleanVideo_catch_def
  message_includes_def video_uri_def

lemmas app_defs = startProcessing_def startProcessing_try_def startProcessing_capture_def
  startProcessing_describe_def startProcessing_clean_def startProcessing_generate_def
  startProcessing_catch_def setProcessingState_def setResultVideoUrl_def progress_message_def
  set_state_def await_loadeddata_def captureFirstFrame_def at_index_def

lemmas sample_defs = sample_world_def sample_app_def sample_upload_def sample_video_def
  sample_canvas_def rendering_op_def finished_op_def

lemmas stage_defs = after_capture_def after_describe_def after_clean_def at_generate_def

lemmas variant_defs = veo_not_found_no_host_world_def veo_not_found_world_def
  describe_not_found_world_def not_found_error_def blank_error_world_def
  clean_rejected_world_def overloaded_error_def

lemmas handler_defs = handled_def handleVideoSelected_def changeVideo_def tryAgain_def
  idle_state_def

lemma report_reported: "report onProgress msg w = (Returned (), reported onProgress msg w)"
  by (simp add: report_def reported_def split: option.splits)

lemma reported_fields [simp]:
  "aistudio (reported onProgress msg w) = aistudio w"
  "API_KEY (reported onProgress msg w) = API_KEY w"
  "hasSelectedApiKey_replies (reported onProgress msg w) = hasSelectedApiKey_replies w"
  "openSelectKey_replies (reported onProgress msg w) = openSelectKey_replies w"
  "generateContent_replies (reported onProgress msg w) = generateContent_replies w"
  "generateImages_replies (reported onProgress msg w) = generateImages_replies w"
  "generateVideos_replies (reported onProgress msg w) = generateVideos_replies w"
  "getVideosOperation_replies (reported onProgress msg w) = getVideosOperation_replies w"
  "interleaved (reported onProgress msg w) = interleaved w"
  by (simp_all add: reported_def split: option.splits)

lemma reported_Some [simp]:
  "log (reported (Some cb) msg w) = log w @ [OnProgress msg]"
  "caller (reported (Some cb) msg w) = cb msg (caller w)"
  by (simp_all add: reported_def)

lemma str_includes_nonempty: "str_includes s (c # cs) \<Longrightarrow> s \<noteq> []"
  by (cases s) simp_all

lemma expired_not_not_found:
  "\<not> str_includes ''API Key session expired. Please try again.'' ''Requested entity was not found''"
  by (simp add: starts_with_def)

lemma failed_state_message:
  "error_message e = Str m \<Longrightarrow> m \<noteq> [] \<Longrightarrow> error (failed_state e) = Some m"
  by (simp add: failed_state_def)

text \<open>The sample run, step by step.\<close>

lemma sample_stage1:
  "startProcessing_capture sample_world = (Returned ''iVBORw0KGgo='', after_capture sample_world)"
  by (simp add: stage_defs io_defs app_defs sample_defs)

lemma sample_stage2:
  "startProcessing_describe sample_upload ''iVBORw0KGgo='' (after_capture sample_world)
   = (Returned ''A red kite over dunes.'', after_describe sample_upload ''iVBORw0KGgo='' sample_world)"
  by (simp add: stage_defs io_defs service_defs app_defs sample_defs)

lemma sample_stage3:
  "startProcessing_clean ''iVBORw0KGgo='' (after_describe sample_upload ''iVBORw0KGgo='' sample_world)
   = (Returned (Str ''iVBORclean''), after_clean sample_upload ''iVBORw0KGgo='' sample_world)"
  by (simp add: stage_defs io_defs service_defs app_defs sample_defs)

lemma sample_guards:
  "videoData (caller sample_world) = Some sample_upload" "truthy (previewUrl sample_upload)"
  "truthy (API_KEY sample_world) \<or> aistudio sample_world"
  by (simp_all add: sample_defs)

lemma sample_generate:
  "generateCleanVideo (Str ''iVBORclean'') ''A red kite over dunes.'' (Some progress_message)
     (at_generate sample_upload ''iVBORw0KGgo='' sample_world)
   = (Returned (Str ''https://videos.example/v1?alt=media&key=k1''),
      snd (generateCleanVideo (Str ''iVBORclean'') ''A red kite over dunes.'' (Some progress_message)
        (at_generate sample_upload ''iVBORw0KGgo='' sample_world)))"
  by (rule pair_fst)
     (simp add: stage_defs io_defs service_defs app_defs sample_defs poll.simps generating_state_def)

section \<open>What a stage adds to the log\<close>

lemma logs_onlyI:
  "(\<And>w. \<exists>evs. log (snd (m w)) = log w @ evs \<and> list_all P evs) \<Longrightarrow> logs_only P m"
  by (simp add: logs_only_def)

lemma logs_onlyD:
  "logs_only P m \<Longrightarrow> \<exists>evs. log (snd (m w)) = log w @ evs \<and> list_all P evs"
  by (simp add: logs_only_def)

lemma logs_only_bind:
  assumes m: "logs_only P m" and k: "\<And>x. logs_only P (k x)"
  shows "logs_only P (bind m k)"
proof (rule logs_onlyI)
  fix w
  obtain r w1 where mw: "m w = (r, w1)" by (cases "m w")
  from logs_onlyD [OF m, of w] mw obtain e1 where e1: "log w1 = log w @ e1" "list_all P e1"
    by auto
  show "\<exists>evs. log (snd (bind m k w)) = log w @ evs \<and> list_all P evs"
  proof (cases r)
    case (Returned x)
    from logs_onlyD [OF k, of x w1] obtain e2
      where e2: "log (snd (k x w1)) = log w1 @ e2" "list_all P e2" by auto
    have "log (snd (bind m k w)) = log w @ (e1 @ e2)"
      using mw Returned e1 e2 by (simp add: bind_def)
    moreover have "list_all P (e1 @ e2)" using e1 e2 by simp
    ultimately show ?thesis by blast
  next
    case (Threw e)
    then show ?thesis using mw e1 by (auto simp: bind_def)
  next
    case Pending
    then show ?thesis using mw e1 by (auto simp: bind_def)
  qed
qed

lemma logs_only_silent:
  assumes "\<And>w. log (snd (m w)) = log w"
  shows "logs_only P m"
  by (rule logs_onlyI) (simp add: assms)

lemma logs_only_one:
  assumes "\<And>w. log (snd (m w)) = log w @ [ev]" "P ev"
  shows "logs_only P m"
  by (rule logs_onlyI) (simp add: assms)

lemma logs_only_ret: "logs_only P (ret x)"
  by (rule logs_only_silent) (simp add: ret_def)

lemma logs_only_throw: "logs_only P (throw e)"
  by (rule logs_only_silent) (simp add: throw_def)

lemma logs_only_emit: "P ev \<Longrightarrow> logs_only P (emit ev)"
  by (rule logs_only_one [where ev = ev]) (simp_all add: emit_def)

lemma logs_only_hasSelectedApiKey: "P HasSelectedApiKey \<Longrightarrow> logs_only P hasSelectedApiKey"
  by (rule logs_only_one [where ev = HasSelectedApiKey])
     (simp_all add: hasSelectedApiKey_def settle_def Let_def split: list.splits reply.splits)

lemma logs_only_openSelectKey: "P OpenSelectKey \<Longrightarrow> logs_only P openSelectKey"
  by (rule logs_only_one [where ev = OpenSelectKey])
     (simp_all add: openSelectKey_def settle_def Let_def split: list.splits reply.splits)

lemma logs_only_generateContent: "P (GenerateContent r) \<Longrightarrow> logs_only P (generateContent r)"
  by (rule logs_only_one [where ev = "GenerateContent r"])
     (simp_all add: generateContent_def settle_def Let_def split: list.splits reply.splits)

lemma logs_only_generateImages: "P (GenerateImages r) \<Longrightarrow> logs_only P (generateImages r)"
  by (rule logs_only_one [where ev = "GenerateImages r"])
     (simp_all add: generateImages_def settle_def Let_def split: list.splits reply.splits)

lemma logs_only_setProcessingState: "logs_only P (setProcessingState s)"
  by (rule logs_only_silent) (simp add: setProcessingState_def)

lemma logs_only_getAiClient:
  assumes "P HasSelectedApiKey" "P OpenSelectKey"
  shows "logs_only P getAiClient"
proof (rule logs_onlyI)
  fix w :: "'a world"
  have "logs_only P (bind hasSelectedApiKey
          (\<lambda>hasKey. if \<not> hasKey then bind openSelectKey (\<lambda>_. ret ()) else ret ())
          :: (unit, 'a) io)"
    by (intro logs_only_bind logs_only_hasSelectedApiKey assms)
       (auto intro: logs_only_bind logs_only_openSelectKey logs_only_ret assms)
  from logs_onlyD [OF this, of w]
  show "\<exists>evs. log (snd (getAiClient w)) = log w @ evs \<and> list_all P evs"
    by (auto simp: getAiClient_def ret_def)
qed

lemma logs_only_analyzeVideoContent:
  assumes "P HasSelectedApiKey" "P OpenSelectKey" "P (GenerateContent (analyze_request d m))"
  shows "logs_only P (analyzeVideoContent d m)"
  unfolding analyzeVideoContent_def
  by (intro logs_only_bind logs_only_getAiClient logs_only_generateContent logs_only_ret assms)

lemma logs_only_first_image_bytes: "logs_only P (first_image_bytes r)"
  by (rule logs_only_silent)
     (simp add: first_image_bytes_def throw_def ret_def split: option.splits list.splits)

lemma logs_only_cleanFrame:
  assumes "P HasSelectedApiKey" "P OpenSelectKey" "\<And>r. P (GenerateContent r)"
    "\<And>r. P (GenerateImages r)"
  shows "logs_only P (cleanFrame img mime)"
  unfolding cleanFrame_def Let_def
  by (intro logs_only_bind logs_only_getAiClient logs_only_generateContent
      logs_only_generateImages logs_only_first_image_bytes assms)

lemma analyze_instruction_distinct [simp]:
  "instruction (analyze_request d m) \<noteq> remove_instruction"
  "instruction (analyze_request d m) \<noteq> describe_instruction"
  by (simp_all add: analyze_request_def analyze_instruction_def remove_instruction_def
      describe_instruction_def)

lemma capture_log: "log (snd (startProcessing_capture w)) = log w"
  by (simp add: startProcessing_capture_def bind_def setProcessingState_def await_loadeddata_def
      throw_def ret_def split: option.splits js_string.splits)

lemma logs_only_describe:
  "logs_only (\<lambda>ev. \<not> clean_or_generate_call ev) (startProcessing_describe vd f)"
  unfolding startProcessing_describe_def Let_def
  by (intro logs_only_bind logs_only_analyzeVideoContent logs_only_emit logs_only_ret) simp_all

lemma logs_only_clean:
  "logs_only (\<lambda>ev. \<not> generate_call ev) (startProcessing_clean f)"
  unfolding startProcessing_clean_def
  by (intro logs_only_bind logs_only_cleanFrame logs_only_setProcessingState) simp_all

section \<open>What a stage does to the caller's state\<close>

lemma caller_movesI:
  assumes "\<And>w. list_all H (interleaved w) \<Longrightarrow>
     steps H cb (caller w) (caller (snd (m w))) \<and> list_all H (interleaved (snd (m w)))"
  shows "caller_moves H cb m"
  using assms by (simp add: caller_moves_def)

lemma caller_movesD:
  assumes "caller_moves H cb m" "list_all H (interleaved w)"
  shows "steps H cb (caller w) (caller (snd (m w))) \<and> list_all H (interleaved (snd (m w)))"
  using assms by (simp add: caller_moves_def)

lemma steps_trans:
  assumes ab: "steps H cb a b" and bc: "steps H cb b c"
  shows "steps H cb a c"
  using bc ab by (induction rule: steps.induct) (auto intro: steps.intros)

lemma resume_steps:
  assumes "list_all H (interleaved w)"
  shows "steps H cb (caller w) (caller (resume w)) \<and> list_all H (interleaved (resume w))"
proof (cases "interleaved w")
  case Nil
  then show ?thesis by (simp add: resume_def steps_refl)
next
  case (Cons h hs)
  with assms have "H h" "list_all H hs" by simp_all
  moreover have "steps H cb (caller w) (h (caller w))"
    by (rule steps_handler [OF steps_refl]) (rule \<open>H h\<close>)
  ultimately show ?thesis using Cons by (simp add: resume_def)
qed

lemma moves_still:
  assumes "\<And>w. caller (snd (m w)) = caller w" "\<And>w. interleaved (snd (m w)) = interleaved w"
  shows "caller_moves H cb m"
  by (rule caller_movesI) (simp add: assms steps_refl)

text \<open>An awaited call: the function is suspended, and resumed if the call is answered.\<close>

lemma moves_call:
  assumes "\<And>w. (caller (snd (m w)) = caller w \<and> interleaved (snd (m w)) = interleaved w)
     \<or> (caller (snd (m w)) = caller (resume w) \<and> interleaved (snd (m w)) = interleaved (resume w))"
  shows "caller_moves H cb m"
proof (rule caller_movesI)
  fix w :: "'a world"
  assume h: "list_all H (interleaved w)"
  from assms [of w] show "steps H cb (caller w) (caller (snd (m w)))
      \<and> list_all H (interleaved (snd (m w)))"
  proof
    assume "caller (snd (m w)) = caller w \<and> interleaved (snd (m w)) = interleaved w"
    then show ?thesis using h by (simp add: steps_refl)
  next
    assume "caller (snd (m w)) = caller (resume w)
        \<and> interleaved (snd (m w)) = interleaved (resume w)"
    then show ?thesis using resume_steps [OF h, of cb] by simp
  qed
qed

lemma moves_bind:
  assumes m: "caller_moves H cb m" and k: "\<And>x. caller_moves H cb (k x)"
  shows "caller_moves H cb (bind m k)"
proof (rule caller_movesI)
  fix w :: "'a world"
  assume h: "list_all H (interleaved w)"
  obtain r w1 where mw: "m w = (r, w1)" by (cases "m w")
  from caller_movesD [OF m h] mw
  have r1: "steps H cb (caller w) (caller w1)" and h1: "list_all H (interleaved w1)" by simp_all
  show "steps H cb (caller w) (caller (snd (bind m k w)))
      \<and> list_all H (interleaved (snd (bind m k w)))"
  proof (cases r)
    case (Returned x)
    have "caller_moves H cb (k x)" by (rule k)
    from caller_movesD [OF this h1]
    have r2: "steps H cb (caller w1) (caller (snd (k x w1)))"
      and h2: "list_all H (interleaved (snd (k x w1)))" by simp_all
    from r1 r2 have "steps H cb (caller w) (caller (snd (k x w1)))" by (rule steps_trans)
    then show ?thesis using mw Returned h2 by (simp add: bind_def)
  next
    case (Threw e)
    then show ?thesis using mw r1 h1 by (simp add: bind_def)
  next
    case Pending
    then show ?thesis using mw r1 h1 by (simp add: bind_def)
  qed
qed

lemma moves_try_catch:
  assumes m: "caller_moves H cb m" and k: "\<And>e. caller_moves H cb (k e)"
  shows "caller_moves H cb (try_catch m k)"
proof (rule caller_movesI)
  fix w :: "'a world"
  assume h: "list_all H (interleaved w)"
  obtain r w1 where mw: "m w = (r, w1)" by (cases "m w")
  from caller_movesD [OF m h] mw
  have r1: "steps H cb (caller w) (caller w1)" and h1: "list_all H (interleaved w1)" by simp_all
  show "steps H cb (caller w) (caller (snd (try_catch m k w)))
      \<and> list_all H (interleaved (snd (try_catch m k w)))"
  proof (cases r)
    case (Returned x)
    then show ?thesis using mw r1 h1 by (simp add: try_catch_def)
  next
    case (Threw e)
    have "caller_moves H cb (k e)" by (rule k)
    from caller_movesD [OF this h1]
    have r2: "steps H cb (caller w1) (caller (snd (k e w1)))"
      and h2: "list_all H (interleaved (snd (k e w1)))" by simp_all
    from r1 r2 have "steps H cb (caller w) (caller (snd (k e w1)))" by (rule steps_trans)
    then show ?thesis using mw Threw h2 by (simp add: try_catch_def)
  next
    case Pending
    then show ?thesis using mw r1 h1 by (simp add: try_catch_def)
  qed
qed

lemma moves_ret: "caller_moves H cb (ret x)"
  by (rule moves_still) (simp_all add: ret_def)

lemma moves_throw: "caller_moves H cb (throw e)"
  by (rule moves_still) (simp_all add: throw_def)

lemma moves_emit: "caller_moves H cb (emit ev)"
  by (rule moves_still) (simp_all add: emit_def)

lemma caller_resume_update [simp]:
  "caller (resume (w\<lparr>log := l\<rparr>)) = caller (resume w)"
  "interleaved (resume (w\<lparr>log := l\<rparr>)) = interleaved (resume w)"
  by (simp_all add: resume_def split: list.splits)

lemma moves_sleep: "caller_moves H cb (sleep n)"
  by (rule moves_call) (simp add: sleep_def bind_def emit_def)

lemma moves_hasSelectedApiKey: "caller_moves H cb hasSelectedApiKey"
  by (rule moves_call)
     (simp add: hasSelectedApiKey_def settle_def Let_def split: list.splits reply.splits)

lemma moves_openSelectKey: "caller_moves H cb openSelectKey"
  by (rule moves_call)
     (simp add: openSelectKey_def settle_def Let_def split: list.splits reply.splits)

lemma moves_generateContent: "caller_moves H cb (generateContent r)"
  by (rule moves_call)
     (simp add: generateContent_def settle_def Let_def split: list.splits reply.splits)

lemma moves_generateImages: "caller_moves H cb (generateImages r)"
  by (rule moves_call)
     (simp add: generateImages_def settle_def Let_def split: list.splits reply.splits)

lemma moves_generateVideos: "caller_moves H cb (generateVideos r)"
  by (rule moves_call)
     (simp add: generateVideos_def settle_def Let_def split: list.splits reply.splits)

lemma moves_getVideosOperation: "caller_moves H cb (getVideosOperation opn)"
  by (rule moves_call)
     (simp add: getVideosOperation_def settle_def Let_def split: list.splits reply.splits)

lemma moves_report_Some: "caller_moves H cb (report (Some cb) msg)"
  by (rule caller_movesI) (simp add: report_def steps_report [OF steps_refl])

lemma moves_report_None: "caller_moves H cb (report None msg)"
  by (rule moves_still) (simp_all add: report_def)

lemma moves_getAiClient: "caller_moves H cb getAiClient"
proof (rule caller_movesI)
  fix w :: "'a world"
  assume h: "list_all H (interleaved w)"
  have "caller_moves H cb (bind hasSelectedApiKey
          (\<lambda>hasKey. if \<not> hasKey then bind openSelectKey (\<lambda>_. ret ()) else ret ())
          :: (unit, 'a) io)"
    by (intro moves_bind moves_hasSelectedApiKey)
       (auto intro: moves_bind moves_openSelectKey moves_ret)
  from caller_movesD [OF this h]
  show "steps H cb (caller w) (caller (snd (getAiClient w)))
      \<and> list_all H (interleaved (snd (getAiClient w)))"
    using h by (auto simp: getAiClient_def ret_def steps_refl)
qed

lemma moves_analyzeVideoContent: "caller_moves H cb (analyzeVideoContent d m)"
  unfolding analyzeVideoContent_def
  by (intro moves_bind moves_getAiClient moves_generateContent moves_ret)

lemma moves_first_image_bytes: "caller_moves H cb (first_image_bytes r)"
  by (rule moves_still)
     (simp_all add: first_image_bytes_def throw_def ret_def split: option.splits list.splits)

lemma moves_cleanFrame: "caller_moves H cb (cleanFrame img mime)"
  unfolding cleanFrame_def Let_def
  by (intro moves_bind moves_getAiClient moves_generateContent moves_generateImages
      moves_first_image_bytes)

lemma moves_poll: "caller_moves H cb (poll (Some cb) opn)"
proof (rule caller_movesI)
  fix w :: "'a world"
  show "list_all H (interleaved w) \<Longrightarrow>
      steps H cb (caller w) (caller (snd (poll (Some cb) opn w)))
      \<and> list_all H (interleaved (snd (poll (Some cb) opn w)))"
  proof (induction "Some cb" opn w rule: poll.induct)
    case (1 opn w)
    note h = "1.prems"
    show ?case
    proof (cases "op_done opn")
      case True
      then show ?thesis using h by (simp add: poll.simps steps_refl)
    next
      case False
      let ?pass = "bind (report (Some cb) ''Rendering video frames...'')
                    (\<lambda>_. bind (sleep 5000) (\<lambda>_. getVideosOperation opn))"
      have mp: "caller_moves H cb ?pass"
        by (intro moves_bind moves_report_Some moves_sleep moves_getVideosOperation)
      obtain r w1 where pw: "?pass w = (r, w1)" by (cases "?pass w")
      from caller_movesD [OF mp h] pw
      have r1: "steps H cb (caller w) (caller w1)" and h1: "list_all H (interleaved w1)"
        by simp_all
      show ?thesis
      proof (cases r)
        case (Returned opn')
        from "1.hyps" [OF False pw [symmetric] Returned h1]
        have r2: "steps H cb (caller w1) (caller (snd (poll (Some cb) opn' w1)))"
          and h2: "list_all H (interleaved (snd (poll (Some cb) opn' w1)))" by simp_all
        from r1 r2 have "steps H cb (caller w) (caller (snd (poll (Some cb) opn' w1)))"
          by (rule steps_trans)
        then show ?thesis using False pw Returned h2 by (subst (1 2) poll.simps) simp
      next
        case (Threw e)
        then show ?thesis using False pw r1 h1 by (subst (1 2) poll.simps) simp
      next
        case Pending
        then show ?thesis using False pw r1 h1 by (subst (1 2) poll.simps) simp
      qed
    qed
  qed
qed

lemma moves_generateCleanVideo_try:
  "caller_moves H cb (generateCleanVideo_try f p (Some cb))"
  unfolding generateCleanVideo_try_def Let_def
  by (intro moves_bind moves_generateVideos moves_report_Some moves_poll)
     (auto intro!: moves_throw moves_still simp: ret_def split: option.splits)

lemma moves_generateCleanVideo_catch: "caller_moves H cb (generateCleanVideo_catch e)"
proof -
  let ?sel = "bind openSelectKey
      (\<lambda>_. throw (Error (Str ''API Key session expired. Please try again.'')))
      :: (js_string, 'a) io"
  let ?k = "\<lambda>w. if message_includes e ''Requested entity was not found'' \<and> aistudio w
      then ?sel w else throw e w"
  have "caller_moves H cb ?k"
  proof (rule caller_movesI)
    fix w :: "'a world"
    assume h: "list_all H (interleaved w)"
    have a: "caller_moves H cb ?sel"
      by (intro moves_bind moves_openSelectKey moves_throw)
    have b: "caller_moves H cb (throw e :: (js_string, 'a) io)" by (rule moves_throw)
    show "steps H cb (caller w) (caller (snd (?k w))) \<and> list_all H (interleaved (snd (?k w)))"
    proof (cases "message_includes e ''Requested entity was not found'' \<and> aistudio w")
      case True
      then show ?thesis using caller_movesD [OF a h] by simp
    next
      case False
      have eq: "?k w = throw e w" by (simp only: if_not_P [OF False])
      show ?thesis unfolding eq by (rule caller_movesD [OF b h])
    qed
  qed
  then show ?thesis
    unfolding generateCleanVideo_catch_def by (intro moves_bind moves_emit)
qed

lemma moves_generateCleanVideo:
  "caller_moves H cb (generateCleanVideo f p (Some cb))"
  unfolding generateCleanVideo_def
  by (intro moves_bind moves_getAiClient moves_report_Some moves_try_catch
      moves_generateCleanVideo_try moves_generateCleanVideo_catch)

section \<open>Properties of the uploader\<close>

lemma lower_dot: "lower c = CHR ''.'' \<longleftrightarrow> c = CHR ''.''"
  by (auto simp: lower_def split: option.splits if_splits)

lemma ends_with_ci_iff:
  "ends_with_ci s suffix \<longleftrightarrow> (\<exists>base t. s = base @ t \<and> map lower t = suffix)"
proof
  assume a: "ends_with_ci s suffix"
  have "s = take (length s - length suffix) s @ drop (length s - length suffix) s"
    by simp
  moreover from a have "map lower (drop (length s - length suffix) s) = suffix"
    unfolding ends_with_ci_def by (rule conjunct2)
  ultimately show "\<exists>base t. s = base @ t \<and> map lower t = suffix" by blast
next
  assume "\<exists>base t. s = base @ t \<and> map lower t = suffix"
  then obtain base t where bt: "s = base @ t" "map lower t = suffix" by blast
  have "ends_with_ci (base @ t) (map lower t)" by (simp add: ends_with_ci_def)
  then show "ends_with_ci s suffix" unfolding bt .
qed

lemma map_lower_dot_Cons:
  "map lower t = CHR ''.'' # e \<longleftrightarrow> (\<exists>ext. t = CHR ''.'' # ext \<and> map lower ext = e)"
  by (cases t) (auto simp: lower_dot)

lemma ends_with_dot_ext:
  "ends_with_ci s (CHR ''.'' # e) \<longleftrightarrow>
     (\<exists>base ext. s = base @ CHR ''.'' # ext \<and> map lower ext = e)"
  unfolding ends_with_ci_iff map_lower_dot_Cons by blast

lemma dot_ext_cases:
  "(ends_with_ci s (CHR ''.'' # a) \<or> ends_with_ci s (CHR ''.'' # b) \<or> ends_with_ci s (CHR ''.'' # c))
   \<longleftrightarrow> (\<exists>base ext. s = base @ CHR ''.'' # ext \<and> map lower ext \<in> {a, b, c})"
  unfolding ends_with_dot_ext by blast

text \<open>The pattern of the code accepts exactly the links with a recognized suffix.\<close>

lemma video_link_match_iff: "video_link_match s \<longleftrightarrow> recognized_video_suffix s"
  unfolding video_link_match_def recognized_video_suffix_def by (rule dot_ext_cases)

lemma not_match_empty: "\<not> video_link_match []"
  by (simp add: video_link_match_def ends_with_ci_def)

text \<open>
  C8: a pasted link is a non-empty input: while the input is empty the button that
  submits the form is disabled, and the handler itself returns at its first guard. For
  every pasted link without a recognized video suffix (.mp4, .webm, .mov, letters in any
  case) the uploader shows the warning and selects no video; for every link with such a
  suffix it selects a video record whose external URL and preview URL are the link and
  whose file is null.
\<close>

theorem handleLinkSubmit_links:
  "(linkInput \<noteq> [] \<and> \<not> recognized_video_suffix linkInput \<longrightarrow>
      handleLinkSubmit linkInput = [PreventDefault, Alert link_warning])
   \<and> (recognized_video_suffix linkInput \<longrightarrow>
      linkInput \<noteq> []
      \<and> (\<exists>d. handleLinkSubmit linkInput = [PreventDefault, OnVideoSelected d]
         \<and> url d = Str linkInput \<and> previewUrl d = Str linkInput \<and> file_obj d = None))
   \<and> (linkInput = [] \<longrightarrow>
      submit_disabled linkInput disabled \<and> handleLinkSubmit linkInput = [PreventDefault])"
proof -
  have "\<not> recognized_video_suffix []"
    using not_match_empty by (simp add: video_link_match_iff)
  then show ?thesis
    by (auto simp: handleLinkSubmit_def video_link_match_iff submit_disabled_def)
qed

theorem handleLinkSubmit_links_witness:
  "''https://example.com/watch?v=1'' \<noteq> []
   \<and> \<not> recognized_video_suffix ''https://example.com/watch?v=1''
   \<and> handleLinkSubmit ''https://example.com/watch?v=1'' = [PreventDefault, Alert link_warning]
   \<and> recognized_video_suffix ''https://cdn.example/clip.MP4''
   \<and> (\<exists>d. handleLinkSubmit ''https://cdn.example/clip.MP4'' = [PreventDefault, OnVideoSelected d]
         \<and> url d = Str ''https://cdn.example/clip.MP4''
         \<and> previewUrl d = Str ''https://cdn.example/clip.MP4'' \<and> file_obj d = None)
   \<and> submit_disabled [] False \<and> handleLinkSubmit [] = [PreventDefault]"
proof -
  have h0: "''https://example.com/watch?v=1'' \<noteq> []" by simp
  have h1: "\<not> recognized_video_suffix ''https://example.com/watch?v=1''"
    by (simp add: video_link_match_iff [symmetric] video_link_match_def ends_with_ci_def lower_def)
  have h2: "recognized_video_suffix ''https://cdn.example/clip.MP4''"
    by (simp add: video_link_match_iff [symmetric] video_link_match_def ends_with_ci_def lower_def)
  note t1 = handleLinkSubmit_links [of "''https://example.com/watch?v=1''", THEN conjunct1, rule_format]
  note t2 = handleLinkSubmit_links [of "''https://cdn.example/clip.MP4''", THEN conjunct2, THEN conjunct1,
      rule_format, THEN conjunct2]
  note t3 = handleLinkSubmit_links [of "[]" False, THEN conjunct2, THEN conjunct2, rule_format, OF refl]
  have c1: "handleLinkSubmit ''https://example.com/watch?v=1'' = [PreventDefault, Alert link_warning]"
    by (rule t1) (rule conjI [OF h0 h1])
  have c2: "\<exists>d. handleLinkSubmit ''https://cdn.example/clip.MP4'' = [PreventDefault, OnVideoSelected d]
         \<and> url d = Str ''https://cdn.example/clip.MP4''
         \<and> previewUrl d = Str ''https://cdn.example/clip.MP4'' \<and> file_obj d = None"
    by (rule t2) (rule h2)
  have c3: "submit_disabled [] False" by (rule t3 [THEN conjunct1])
  have c4: "handleLinkSubmit [] = [PreventDefault]" by (rule t3 [THEN conjunct2])
  show ?thesis by (intro conjI h0 h1 c1 h2 c2 c3 c4)
qed
section \<open>Frame capture\<close>

lemma truthy_at_index_not_Null: "at_index xs i \<noteq> Null"
  by (simp add: at_index_def)

lemma split_data_comma: "at_index (split CHR '','' ''data:,'') 1 = Str []"
  by (simp add: at_index_def)

text \<open>
  C2, as stated, fails: for a video element without decoded dimensions, with the canvas
  and its 2D context present, the function returns the empty string, not null. The code
  has no test of the dimensions.
\<close>

theorem captureFirstFrame_blank:
  "videoRef audio_only_app = Some audio_only_video
   \<and> videoWidth audio_only_video = 0 \<and> videoHeight audio_only_video = 0
   \<and> captureFirstFrame audio_only_app = Str []
   \<and> captureFirstFrame audio_only_app \<noteq> Null"
  by (simp add: captureFirstFrame_def audio_only_app_def sample_app_def audio_only_video_def
      sample_canvas_def at_index_def)

text \<open>
  C2 (amended): for every video element with zero decoded dimensions,
  \<^verbatim>\<open>captureFirstFrame\<close> returns null exactly when the canvas is missing or gives no 2D
  context; otherwise it returns the part of the canvas's data URL after the first comma,
  which for the data URL "data:," of an empty canvas is the empty string: a falsy value,
  never an image payload, which \<^verbatim>\<open>startProcessing\<close> turns into the failure "Could not
  capture video frame" (when the run has to wait for the video's data, provided that no
  handler runs during the wait), and the run ends in the failed state with that text.
\<close>

theorem captureFirstFrame_zero_dimensions:
  assumes "videoRef a = Some vid" "videoWidth vid = 0" "videoHeight vid = 0"
  shows "(captureFirstFrame a = Null \<longleftrightarrow>
            canvasRef a = None \<or> (\<exists>c. canvasRef a = Some c \<and> \<not> context2d c))
    \<and> (canvasRef a = Some cnv \<and> context2d cnv \<longrightarrow>
          captureFirstFrame a = at_index (split CHR '','' (toDataURL cnv 0 0)) 1)
    \<and> (canvasRef a = Some cnv \<and> context2d cnv \<and> toDataURL cnv 0 0 = ''data:,'' \<longrightarrow>
          captureFirstFrame a = Str [] \<and> \<not> truthy (captureFirstFrame a)
          \<and> (caller w = a
               \<and> (2 \<le> readyState vid \<or> loadeddata_fires vid \<and> interleaved w = []) \<longrightarrow>
               fst (startProcessing_capture w) = Threw (Error (Str ''Could not capture video frame''))
               \<and> (videoData a = Some vd \<and> truthy (previewUrl vd)
                    \<and> (truthy (API_KEY w) \<or> aistudio w) \<longrightarrow>
                  fst (startProcessing w) = Returned ()
                  \<and> processingState (caller (snd (startProcessing w)))
                      = failed_state (Error (Str ''Could not capture video frame''))
                  \<and> error (failed_state (Error (Str ''Could not capture video frame'')))
                      = Some ''Could not capture video frame'')))"
proof (intro conjI impI)
  show "captureFirstFrame a = Null \<longleftrightarrow>
            canvasRef a = None \<or> (\<exists>c. canvasRef a = Some c \<and> \<not> context2d c)"
    using assms
    by (auto simp: captureFirstFrame_def truthy_at_index_not_Null Let_def split: option.splits)
next
  assume "canvasRef a = Some cnv \<and> context2d cnv"
  then show "captureFirstFrame a = at_index (split CHR '','' (toDataURL cnv 0 0)) 1"
    using assms by (simp add: captureFirstFrame_def)
next
  assume c: "canvasRef a = Some cnv \<and> context2d cnv \<and> toDataURL cnv 0 0 = ''data:,''"
  then have cf: "captureFirstFrame a = Str []"
    using assms split_data_comma by (simp add: captureFirstFrame_def)
  show "captureFirstFrame a = Str []" by (rule cf)
  show "\<not> truthy (captureFirstFrame a)" by (simp add: cf)
  assume r: "caller w = a
      \<and> (2 \<le> readyState vid \<or> loadeddata_fires vid \<and> interleaved w = [])"
  let ?e = "Error (Str ''Could not capture video frame'')"
  have cap: "fst (startProcessing_capture w) = Threw ?e"
    using r assms cf
    by (auto simp: startProcessing_capture_def bind_def setProcessingState_def await_loadeddata_def
        throw_def set_state_def captureFirstFrame_def resume_def)
  show "fst (startProcessing_capture w) = Threw ?e" by (rule cap)
  assume g: "videoData a = Some vd \<and> truthy (previewUrl vd) \<and> (truthy (API_KEY w) \<or> aistudio w)"
  obtain w1 where cap': "startProcessing_capture w = (Threw ?e, w1)"
    using cap by (cases "startProcessing_capture w") simp
  have "startProcessing w = try_catch (startProcessing_try vd) startProcessing_catch w"
    using g r by (intro startProcessing_guarded) simp_all
  also have "\<dots> = startProcessing_catch ?e w1"
    using cap' by (simp add: try_catch_def startProcessing_try_def bind_def)
  finally have run: "startProcessing w
      = (Returned (), w1\<lparr>caller := set_state (failed_state ?e) (caller w1),
           log := log w1 @ [ConsoleError ?e]\<rparr>)"
    by (simp add: startProcessing_catch_eq)
  show "fst (startProcessing w) = Returned ()" by (simp add: run)
  show "processingState (caller (snd (startProcessing w))) = failed_state ?e"
    by (simp add: run set_state_def)
  show "error (failed_state ?e) = Some ''Could not capture video frame''"
    by (simp add: failed_state_def)
qed

theorem captureFirstFrame_zero_dimensions_witness:
  "videoRef audio_only_app = Some audio_only_video
   \<and> videoWidth audio_only_video = 0 \<and> videoHeight audio_only_video = 0
   \<and> canvasRef audio_only_app = Some sample_canvas \<and> context2d sample_canvas
   \<and> toDataURL sample_canvas 0 0 = ''data:,''
   \<and> caller (sample_world\<lparr>caller := audio_only_app\<rparr>) = audio_only_app
   \<and> 2 \<le> readyState audio_only_video
   \<and> videoData audio_only_app = Some sample_upload \<and> truthy (previewUrl sample_upload)
   \<and> aistudio (sample_world\<lparr>caller := audio_only_app\<rparr>)
   \<and> captureFirstFrame audio_only_app = Str []
   \<and> fst (startProcessing_capture (sample_world\<lparr>caller := audio_only_app\<rparr>))
       = Threw (Error (Str ''Could not capture video frame''))
   \<and> processingState (caller (snd (startProcessing (sample_world\<lparr>caller := audio_only_app\<rparr>))))
       = failed_state (Error (Str ''Could not capture video frame''))"
proof -
  let ?W = "sample_world\<lparr>caller := audio_only_app\<rparr>"
  have h1: "videoRef audio_only_app = Some audio_only_video"
    by (simp add: audio_only_app_def)
  have h2: "videoWidth audio_only_video = 0" and h3: "videoHeight audio_only_video = 0"
    and h7: "2 \<le> readyState audio_only_video"
    by (simp_all add: audio_only_video_def)
  have h4: "canvasRef audio_only_app = Some sample_canvas"
    by (simp add: audio_only_app_def sample_app_def)
  have h5: "context2d sample_canvas" and h6: "toDataURL sample_canvas 0 0 = ''data:,''"
    by (simp_all add: sample_canvas_def)
  have h8: "caller ?W = audio_only_app" by simp
  have h9: "videoData audio_only_app = Some sample_upload"
    by (simp add: audio_only_app_def sample_app_def)
  have h10: "truthy (previewUrl sample_upload)" by (simp add: sample_upload_def)
  have h11: "aistudio ?W" by (simp add: sample_world_def)
  note t = captureFirstFrame_zero_dimensions [OF h1 h2 h3, where cnv = sample_canvas
      and w = ?W and vd = sample_upload, THEN conjunct2, THEN conjunct2, rule_format,
      OF conjI [OF h4 conjI [OF h5 h6]]]
  have c1: "captureFirstFrame audio_only_app = Str []" by (rule t [THEN conjunct1])
  note u = t [THEN conjunct2, THEN conjunct2, rule_format, OF conjI [OF h8 disjI1 [OF h7]]]
  have c2: "fst (startProcessing_capture ?W) = Threw (Error (Str ''Could not capture video frame''))"
    by (rule u [THEN conjunct1])
  note v = u [THEN conjunct2, rule_format, OF conjI [OF h9 conjI [OF h10 disjI2 [OF h11]]]]
  have c3: "processingState (caller (snd (startProcessing ?W)))
       = failed_state (Error (Str ''Could not capture video frame''))"
    by (rule v [THEN conjunct2, THEN conjunct1])
  show ?thesis by (intro conjI h1 h2 h3 h4 h5 h6 h8 h7 h9 h10 h11 c1 c2 c3)
qed
section \<open>The generate stage and the key selection path\<close>

lemma bind_Returned_D:
  "bind m k w = (Returned y, w'') \<Longrightarrow> \<exists>x w'. m w = (Returned x, w') \<and> k x w' = (Returned y, w'')"
  by (auto simp: bind_def split: prod.splits outcome.splits)

lemma try_catch_Returned_D:
  "try_catch m h w = (Returned v, w') \<Longrightarrow>
     m w = (Returned v, w') \<or> (\<exists>e w1. m w = (Threw e, w1) \<and> h e w1 = (Returned v, w'))"
  by (auto simp: try_catch_def split: prod.splits outcome.splits)

lemma generateCleanVideo_catch_never_returns:
  "generateCleanVideo_catch err w \<noteq> (Returned v, w')"
  by (auto simp: generateCleanVideo_catch_def bind_def emit_def throw_def openSelectKey_def
      settle_def Let_def split: list.splits reply.splits)

lemma poll_Returned_done: "poll onProgress opn w = (Returned h, w') \<Longrightarrow> op_done h"
proof (induction onProgress opn w rule: poll.induct)
  case (1 onProgress opn w)
  show ?case
  proof (cases "op_done opn")
    case True
    with "1.prems" show ?thesis by (simp add: poll.simps)
  next
    case False
    let ?pass = "bind (report onProgress ''Rendering video frames...'')
                  (\<lambda>_. bind (sleep 5000) (\<lambda>_. getVideosOperation opn)) w"
    obtain r w1 where pw: "?pass = (r, w1)" by (cases ?pass)
    show ?thesis
    proof (cases r)
      case (Returned opn')
      with "1.prems" False pw have "poll onProgress opn' w1 = (Returned h, w')"
        by (subst (asm) poll.simps) simp
      with "1.IH" [OF False pw [symmetric] Returned] show ?thesis by simp
    next
      case (Threw e)
      with "1.prems" False pw show ?thesis by (subst (asm) poll.simps) simp
    next
      case Pending
      with "1.prems" False pw show ?thesis by (subst (asm) poll.simps) simp
    qed
  qed
qed

lemma generateCleanVideo_try_Returned_D:
  assumes "generateCleanVideo_try f p onProgress w = (Returned v, w')"
  shows "\<exists>opn u. op_done opn \<and> op_error opn = None \<and> video_uri opn = Str u \<and> u \<noteq> []
           \<and> v = Str (u @ ''&key='' @ template (API_KEY w'))"
proof -
  from assms obtain opn0 wa where "generateVideos (veo_request f p) w = (Returned opn0, wa)"
    and k1: "bind (report onProgress ''Video generation started. This may take a moment...'')
        (\<lambda>_. bind (poll onProgress opn0) (\<lambda>opn.
          (case op_error opn of
             Some m \<Rightarrow> throw (Error (Str (or_else m ''Video generation failed'')))
           | None \<Rightarrow>
               (let videoUri = video_uri opn in
                if \<not> truthy videoUri then throw (Error (Str ''No video URI returned''))
                else (\<lambda>w. ret (Str (template videoUri @ ''&key='' @ template (API_KEY w))) w))))) wa
        = (Returned v, w')"
    unfolding generateCleanVideo_try_def by (blast dest: bind_Returned_D)
  from k1 obtain wb where
    k2: "bind (poll onProgress opn0) (\<lambda>opn.
          (case op_error opn of
             Some m \<Rightarrow> throw (Error (Str (or_else m ''Video generation failed'')))
           | None \<Rightarrow>
               (let videoUri = video_uri opn in
                if \<not> truthy videoUri then throw (Error (Str ''No video URI returned''))
                else (\<lambda>w. ret (Str (template videoUri @ ''&key='' @ template (API_KEY w))) w)))) wb
        = (Returned v, w')"
    by (blast dest: bind_Returned_D)
  from k2 obtain opn wc where pl: "poll onProgress opn0 wb = (Returned opn, wc)"
    and k3: "(case op_error opn of
             Some m \<Rightarrow> throw (Error (Str (or_else m ''Video generation failed'')))
           | None \<Rightarrow>
               (let videoUri = video_uri opn in
                if \<not> truthy videoUri then throw (Error (Str ''No video URI returned''))
                else (\<lambda>w. ret (Str (template videoUri @ ''&key='' @ template (API_KEY w))) w))) wc
        = (Returned v, w')"
    by (blast dest: bind_Returned_D)
  have d: "op_done opn" using pl by (rule poll_Returned_done)
  from k3 have e: "op_error opn = None"
    by (cases "op_error opn") (simp_all add: throw_def)
  from k3 e have t: "truthy (video_uri opn)"
    and v: "v = Str (template (video_uri opn) @ ''&key='' @ template (API_KEY wc))" and w: "w' = wc"
    by (auto simp: Let_def throw_def ret_def split: if_splits)
  from t obtain u where u: "video_uri opn = Str u" "u \<noteq> []"
    by (cases "video_uri opn") simp_all
  show ?thesis using d e u v w by auto
qed

lemma generateCleanVideo_Returned_D:
  assumes gen: "generateCleanVideo f p onProgress wg = (Returned v, wg')"
  shows "\<exists>opn u. op_done opn \<and> op_error opn = None \<and> video_uri opn = Str u \<and> u \<noteq> []
           \<and> v = Str (u @ ''&key='' @ template (API_KEY wg'))"
proof -
  from gen obtain wa wb where
    tc: "try_catch (generateCleanVideo_try f p onProgress) generateCleanVideo_catch wb = (Returned v, wg')"
    unfolding generateCleanVideo_def by (blast dest: bind_Returned_D)
  then have "generateCleanVideo_try f p onProgress wb = (Returned v, wg')"
    using generateCleanVideo_catch_never_returns by (blast dest: try_catch_Returned_D)
  then show ?thesis by (rule generateCleanVideo_try_Returned_D)
qed

lemma generateCleanVideo_Returned_truthy:
  "generateCleanVideo f p onProgress wg = (Returned v, wg') \<Longrightarrow> truthy v"
  by (drule generateCleanVideo_Returned_D) auto

text \<open>
  C10: when the request for the video is rejected with a message that contains
  "Requested entity was not found" and the host offers no key selection,
  \<^verbatim>\<open>generateCleanVideo\<close> logs the error and throws it again unchanged, without any key
  selection (the world is the one resumed after the rejected request, with the two log
  entries added); the run then ends in the failed state whose error text is that message,
  not the message of an expired key session.
\<close>

theorem generateCleanVideo_not_found_without_host:
  assumes nohost: "\<not> aistudio wg"
    and rej: "generateVideos_replies wg = Reject e # rest"
    and msg: "error_message e = Str m" "str_includes m ''Requested entity was not found''"
  shows "generateCleanVideo f p onProgress wg =
      (Threw e,
       (resume (reported onProgress ''Initializing generation model...'' wg))
         \<lparr>log := log (reported onProgress ''Initializing generation model...'' wg)
                  @ [GenerateVideos (veo_request f p), ConsoleError e],
          generateVideos_replies := rest\<rparr>)
    \<and> (videoData (caller w) = Some vd \<and> truthy (previewUrl vd) \<and> truthy (API_KEY w)
         \<and> startProcessing_capture w = (Returned f0, w1)
         \<and> startProcessing_describe vd f0 w1 = (Returned p, w2)
         \<and> startProcessing_clean f0 w2 = (Returned f, w3)
         \<and> wg = w3\<lparr>caller := set_state generating_state (caller w3)\<rparr>
       \<longrightarrow> fst (startProcessing w) = Returned ()
         \<and> processingState (caller (snd (startProcessing w))) = failed_state e
         \<and> error (failed_state e) = Some m
         \<and> m \<noteq> ''API Key session expired. Please try again.''
         \<and> log (snd (startProcessing w)) =
             log w3 @ [OnProgress ''Initializing generation model...'',
                       GenerateVideos (veo_request f p), ConsoleError e, ConsoleError e])"
proof -
  have gen: "generateCleanVideo f p onProgress wg =
      (Threw e,
       (resume (reported onProgress ''Initializing generation model...'' wg))
         \<lparr>log := log (reported onProgress ''Initializing generation model...'' wg)
                  @ [GenerateVideos (veo_request f p), ConsoleError e],
          generateVideos_replies := rest\<rparr>)" for onProgress
  proof -
    let ?w1 = "reported onProgress ''Initializing generation model...'' wg"
    have nh: "\<not> aistudio ?w1" and rj: "generateVideos_replies ?w1 = Reject e # rest"
      using nohost rej by simp_all
    have "generateCleanVideo f p onProgress wg
        = try_catch (generateCleanVideo_try f p onProgress) generateCleanVideo_catch ?w1"
      by (simp add: generateCleanVideo_def bind_def getAiClient_without_host [OF nohost]
          report_reported)
    also have "\<dots> = generateCleanVideo_catch e
         ((resume ?w1)\<lparr>log := log ?w1 @ [GenerateVideos (veo_request f p)], generateVideos_replies := rest\<rparr>)"
      by (simp add: try_catch_def generateCleanVideo_try_rejected [OF rj])
    also have "\<dots> = (Threw e, (resume ?w1)\<lparr>log := log ?w1 @ [GenerateVideos (veo_request f p), ConsoleError e],
            generateVideos_replies := rest\<rparr>)"
      using nh by (simp add: generateCleanVideo_catch_rethrow)
    finally show ?thesis .
  qed
  have m_ne: "m \<noteq> []" using msg(2) by (rule str_includes_nonempty)
  have m_exp: "m \<noteq> ''API Key session expired. Please try again.''"
    using msg(2) expired_not_not_found by blast
  show ?thesis
  proof (intro conjI impI)
    show "generateCleanVideo f p onProgress wg =
      (Threw e,
       (resume (reported onProgress ''Initializing generation model...'' wg))
         \<lparr>log := log (reported onProgress ''Initializing generation model...'' wg)
                  @ [GenerateVideos (veo_request f p), ConsoleError e],
          generateVideos_replies := rest\<rparr>)"
      by (rule gen)
  next
    assume a: "videoData (caller w) = Some vd \<and> truthy (previewUrl vd) \<and> truthy (API_KEY w)
         \<and> startProcessing_capture w = (Returned f0, w1)
         \<and> startProcessing_describe vd f0 w1 = (Returned p, w2)
         \<and> startProcessing_clean f0 w2 = (Returned f, w3)
         \<and> wg = w3\<lparr>caller := set_state generating_state (caller w3)\<rparr>"
    let ?w4 = "(resume (reported (Some progress_message) ''Initializing generation model...'' wg))
         \<lparr>log := log (reported (Some progress_message) ''Initializing generation model...'' wg)
                  @ [GenerateVideos (veo_request f p), ConsoleError e],
          generateVideos_replies := rest\<rparr>"
    have g: "generateCleanVideo f p (Some progress_message)
        (w3\<lparr>caller := set_state generating_state (caller w3)\<rparr>) = (Threw e, ?w4)"
      using gen [of "Some progress_message"] a by simp
    from a have g1: "videoData (caller w) = Some vd" and g2: "truthy (previewUrl vd)"
      and g3: "truthy (API_KEY w) \<or> aistudio w"
      and s1: "startProcessing_capture w = (Returned f0, w1)"
      and s2: "startProcessing_describe vd f0 w1 = (Returned p, w2)"
      and s3: "startProcessing_clean f0 w2 = (Returned f, w3)"
      by simp_all
    have run: "startProcessing w =
       (Returned (), ?w4\<lparr>caller := set_state (failed_state e) (caller ?w4), log := log ?w4 @ [ConsoleError e]\<rparr>)"
      by (rule run_generate_Threw [OF g1 g2 g3 s1 s2 s3 g])
    show "fst (startProcessing w) = Returned ()" by (simp add: run)
    show "processingState (caller (snd (startProcessing w))) = failed_state e"
      by (simp add: run set_state_def)
    show "error (failed_state e) = Some m" by (rule failed_state_message [OF msg(1) m_ne])
    show "m \<noteq> ''API Key session expired. Please try again.''" by (rule m_exp)
    show "log (snd (startProcessing w)) =
             log w3 @ [OnProgress ''Initializing generation model...'',
                       GenerateVideos (veo_request f p), ConsoleError e, ConsoleError e]"
      using a by (simp add: run)
  qed
qed

theorem generateCleanVideo_not_found_without_host_witness:
  "\<not> aistudio (at_generate sample_upload ''iVBORw0KGgo='' veo_not_found_no_host_world)
   \<and> generateVideos_replies (at_generate sample_upload ''iVBORw0KGgo='' veo_not_found_no_host_world)
       = Reject not_found_error # []
   \<and> error_message not_found_error = Str ''Requested entity was not found.''
   \<and> str_includes ''Requested entity was not found.'' ''Requested entity was not found''
   \<and> videoData (caller veo_not_found_no_host_world) = Some sample_upload
   \<and> truthy (previewUrl sample_upload) \<and> truthy (API_KEY veo_not_found_no_host_world)
   \<and> startProcessing_capture veo_not_found_no_host_world
       = (Returned ''iVBORw0KGgo='', after_capture veo_not_found_no_host_world)
   \<and> startProcessing_describe sample_upload ''iVBORw0KGgo='' (after_capture veo_not_found_no_host_world)
       = (Returned ''A red kite over dunes.'', after_describe sample_upload ''iVBORw0KGgo='' veo_not_found_no_host_world)
   \<and> startProcessing_clean ''iVBORw0KGgo='' (after_describe sample_upload ''iVBORw0KGgo='' veo_not_found_no_host_world)
       = (Returned (Str ''iVBORclean''), after_clean sample_upload ''iVBORw0KGgo='' veo_not_found_no_host_world)
   \<and> fst (startProcessing veo_not_found_no_host_world) = Returned ()
   \<and> processingState (caller (snd (startProcessing veo_not_found_no_host_world)))
       = failed_state not_found_error
   \<and> error (failed_state not_found_error) = Some ''Requested entity was not found.''
   \<and> OpenSelectKey \<notin> set (log (snd (startProcessing veo_not_found_no_host_world)))"
proof -
  let ?W = veo_not_found_no_host_world
  let ?G = "at_generate sample_upload ''iVBORw0KGgo='' ?W"
  have h1: "\<not> aistudio ?G"
    by (simp add: stage_defs variant_defs io_defs service_defs app_defs sample_defs)
  have h2: "generateVideos_replies ?G = Reject not_found_error # []"
    by (simp add: stage_defs variant_defs io_defs service_defs app_defs sample_defs)
  have h3: "error_message not_found_error = Str ''Requested entity was not found.''"
    by (simp add: not_found_error_def)
  have h4: "str_includes ''Requested entity was not found.'' ''Requested entity was not found''"
    by (simp add: starts_with_def)
  have g1: "videoData (caller ?W) = Some sample_upload"
    by (simp add: variant_defs sample_defs)
  have g2: "truthy (previewUrl sample_upload)" by (simp add: sample_defs)
  have g3: "truthy (API_KEY ?W)" by (simp add: variant_defs sample_defs)
  have s1: "startProcessing_capture ?W = (Returned ''iVBORw0KGgo='', after_capture ?W)"
    by (simp add: stage_defs variant_defs io_defs service_defs app_defs sample_defs)
  have s2: "startProcessing_describe sample_upload ''iVBORw0KGgo='' (after_capture ?W)
       = (Returned ''A red kite over dunes.'', after_describe sample_upload ''iVBORw0KGgo='' ?W)"
    by (simp add: stage_defs variant_defs io_defs service_defs app_defs sample_defs)
  have s3: "startProcessing_clean ''iVBORw0KGgo='' (after_describe sample_upload ''iVBORw0KGgo='' ?W)
       = (Returned (Str ''iVBORclean''), after_clean sample_upload ''iVBORw0KGgo='' ?W)"
    by (simp add: stage_defs variant_defs io_defs service_defs app_defs sample_defs)
  have s4: "?G = (after_clean sample_upload ''iVBORw0KGgo='' ?W)
      \<lparr>caller := set_state generating_state (caller (after_clean sample_upload ''iVBORw0KGgo='' ?W))\<rparr>"
    by (simp add: at_generate_def)
  note t = generateCleanVideo_not_found_without_host [OF h1 h2 h3 h4,
      where w = ?W and vd = sample_upload and ?f0.0 = "''iVBORw0KGgo=''"
        and ?w1.0 = "after_capture ?W" and p = "''A red kite over dunes.''"
        and ?w2.0 = "after_describe sample_upload ''iVBORw0KGgo='' ?W" and f = "Str ''iVBORclean''"
        and ?w3.0 = "after_clean sample_upload ''iVBORw0KGgo='' ?W",
      THEN conjunct2, rule_format, OF conjI [OF g1 conjI [OF g2 conjI [OF g3 conjI [OF s1 conjI [OF s2 conjI [OF s3 s4]]]]]]]
  have c1: "fst (startProcessing ?W) = Returned ()" using t by blast
  have c2: "processingState (caller (snd (startProcessing ?W))) = failed_state not_found_error"
    using t by blast
  have c3: "error (failed_state not_found_error) = Some ''Requested entity was not found.''"
    using t by blast
  have "log (snd (startProcessing ?W)) =
      log (after_clean sample_upload ''iVBORw0KGgo='' ?W)
        @ [OnProgress ''Initializing generation model...'',
           GenerateVideos (veo_request (Str ''iVBORclean'') ''A red kite over dunes.''),
           ConsoleError not_found_error, ConsoleError not_found_error]"
    using t by blast
  then have c4: "OpenSelectKey \<notin> set (log (snd (startProcessing ?W)))"
    by (simp add: stage_defs variant_defs io_defs service_defs app_defs sample_defs)
  show ?thesis by (intro conjI h1 h2 h3 h4 g1 g2 g3 s1 s2 s3 c1 c2 c3 c4)
qed

lemma generateCleanVideo_returns:
  assumes ai: "getAiClient wg = (Returned (), wc)"
    and gv: "generateVideos_replies wc = Resolve opn # gr"
    and pl: "poll onProgress opn
        (reported onProgress ''Video generation started. This may take a moment...''
          ((resume (reported onProgress ''Initializing generation model...'' wc))
            \<lparr>log := log (reported onProgress ''Initializing generation model...'' wc)
                      @ [GenerateVideos (veo_request f p)],
              generateVideos_replies := gr\<rparr>)) = (Returned h, wp)"
    and ok: "op_error h = None" "video_uri h = Str u" "u \<noteq> []"
  shows "generateCleanVideo f p onProgress wg
     = (Returned (Str (u @ ''&key='' @ template (API_KEY wp))), wp)"
proof -
  let ?w1 = "reported onProgress ''Initializing generation model...'' wc"
  let ?w2 = "(resume ?w1)\<lparr>log := log ?w1 @ [GenerateVideos (veo_request f p)], generateVideos_replies := gr\<rparr>"
  have g: "generateVideos (veo_request f p) ?w1 = (Returned opn, ?w2)"
    using gv by (simp add: generateVideos_def settle_def)
  have "generateCleanVideo_try f p onProgress ?w1
      = (Returned (Str (u @ ''&key='' @ template (API_KEY wp))), wp)"
    unfolding generateCleanVideo_try_def
    using g pl ok by (simp add: bind_def report_reported throw_def ret_def)
  then show ?thesis
    unfolding generateCleanVideo_def
    using ai by (simp add: bind_def report_reported try_catch_def)
qed

text \<open>
  C9: whenever \<^verbatim>\<open>generateCleanVideo\<close> returns, the value is not null: it is the URI of
  the first generated video of a finished operation without error, followed by "&key="
  and the access key, a non-empty string. Hence when the generate step of a run
  returns, the test of the result succeeds: the result URL is stored and the run ends in
  the completed state with progress 100, whatever handlers have run meanwhile. And the
  function does return: when the client is obtained, the request for the video is
  accepted and the polling loop ends with a handle that has no error and has a URI, it
  returns that URI with the key.
\<close>

theorem generateCleanVideo_never_null:
  assumes gen: "generateCleanVideo f p onProgress wg = (Returned v, wg')"
  shows "v \<noteq> Null \<and> truthy v
    \<and> (\<exists>opn u. op_done opn \<and> op_error opn = None \<and> video_uri opn = Str u \<and> u \<noteq> []
           \<and> v = Str (u @ ''&key='' @ template (API_KEY wg')))
    \<and> (videoData (caller w) = Some vd \<and> truthy (previewUrl vd) \<and> (truthy (API_KEY w) \<or> aistudio w)
         \<and> startProcessing_capture w = (Returned f0, w1)
         \<and> startProcessing_describe vd f0 w1 = (Returned p, w2)
         \<and> startProcessing_clean f0 w2 = (Returned f, w3)
         \<and> wg = w3\<lparr>caller := set_state generating_state (caller w3)\<rparr>
         \<and> onProgress = Some progress_message
       \<longrightarrow> fst (startProcessing w) = Returned ()
         \<and> processingState (caller (snd (startProcessing w))) = completed_state
         \<and> status completed_state = completed \<and> progress completed_state = Some 100
         \<and> resultVideoUrl (caller (snd (startProcessing w))) = v)
    \<and> (getAiClient wa = (Returned (), wc)
         \<and> generateVideos_replies wc = Resolve opn # gr
         \<and> poll cb opn
              (reported cb ''Video generation started. This may take a moment...''
                ((resume (reported cb ''Initializing generation model...'' wc))
                  \<lparr>log := log (reported cb ''Initializing generation model...'' wc)
                            @ [GenerateVideos (veo_request fa pa)],
                    generateVideos_replies := gr\<rparr>)) = (Returned h, wp)
         \<and> op_error h = None \<and> video_uri h = Str u \<and> u \<noteq> []
       \<longrightarrow> generateCleanVideo fa pa cb wa
           = (Returned (Str (u @ ''&key='' @ template (API_KEY wp))), wp))"
proof -
  from gen have ex: "\<exists>opn u. op_done opn \<and> op_error opn = None \<and> video_uri opn = Str u \<and> u \<noteq> []
           \<and> v = Str (u @ ''&key='' @ template (API_KEY wg'))"
    by (rule generateCleanVideo_Returned_D)
  then have tv: "truthy v" and nn: "v \<noteq> Null" by auto
  show ?thesis
  proof (intro conjI impI)
    show "v \<noteq> Null" by (rule nn)
    show "truthy v" by (rule tv)
    show "\<exists>opn u. op_done opn \<and> op_error opn = None \<and> video_uri opn = Str u \<and> u \<noteq> []
           \<and> v = Str (u @ ''&key='' @ template (API_KEY wg'))" by (rule ex)
  next
    assume a: "videoData (caller w) = Some vd \<and> truthy (previewUrl vd) \<and> (truthy (API_KEY w) \<or> aistudio w)
         \<and> startProcessing_capture w = (Returned f0, w1)
         \<and> startProcessing_describe vd f0 w1 = (Returned p, w2)
         \<and> startProcessing_clean f0 w2 = (Returned f, w3)
         \<and> wg = w3\<lparr>caller := set_state generating_state (caller w3)\<rparr>
         \<and> onProgress = Some progress_message"
    then have g1: "videoData (caller w) = Some vd" and g2: "truthy (previewUrl vd)"
      and g3: "truthy (API_KEY w) \<or> aistudio w"
      and s1: "startProcessing_capture w = (Returned f0, w1)"
      and s2: "startProcessing_describe vd f0 w1 = (Returned p, w2)"
      and s3: "startProcessing_clean f0 w2 = (Returned f, w3)"
      by simp_all
    have g: "generateCleanVideo f p (Some progress_message)
        (w3\<lparr>caller := set_state generating_state (caller w3)\<rparr>) = (Returned v, wg')"
      using gen a by simp
    have run: "startProcessing w =
       (Returned (), wg'\<lparr>caller := set_state completed_state ((caller wg')\<lparr>resultVideoUrl := v\<rparr>)\<rparr>)"
      by (rule run_generate_Returned [OF g1 g2 g3 s1 s2 s3 g tv])
    show "fst (startProcessing w) = Returned ()" by (simp add: run)
    show "processingState (caller (snd (startProcessing w))) = completed_state"
      by (simp add: run set_state_def)
    show "status completed_state = completed" "progress completed_state = Some 100"
      by (simp_all add: completed_state_def)
    show "resultVideoUrl (caller (snd (startProcessing w))) = v"
      by (simp add: run set_state_def)
  next
    assume "getAiClient wa = (Returned (), wc)
         \<and> generateVideos_replies wc = Resolve opn # gr
         \<and> poll cb opn
              (reported cb ''Video generation started. This may take a moment...''
                ((resume (reported cb ''Initializing generation model...'' wc))
                  \<lparr>log := log (reported cb ''Initializing generation model...'' wc)
                            @ [GenerateVideos (veo_request fa pa)],
                    generateVideos_replies := gr\<rparr>)) = (Returned h, wp)
         \<and> op_error h = None \<and> video_uri h = Str u \<and> u \<noteq> []"
    then show "generateCleanVideo fa pa cb wa
           = (Returned (Str (u @ ''&key='' @ template (API_KEY wp))), wp)"
      using generateCleanVideo_returns by blast
  qed
qed

theorem generateCleanVideo_never_null_witness:
  "generateCleanVideo (Str ''iVBORclean'') ''A red kite over dunes.'' (Some progress_message)
     (at_generate sample_upload ''iVBORw0KGgo='' sample_world)
   = (Returned (Str ''https://videos.example/v1?alt=media&key=k1''),
      snd (generateCleanVideo (Str ''iVBORclean'') ''A red kite over dunes.'' (Some progress_message)
        (at_generate sample_upload ''iVBORw0KGgo='' sample_world)))
   \<and> videoData (caller sample_world) = Some sample_upload \<and> truthy (previewUrl sample_upload)
   \<and> startProcessing_capture sample_world = (Returned ''iVBORw0KGgo='', after_capture sample_world)
   \<and> startProcessing_describe sample_upload ''iVBORw0KGgo='' (after_capture sample_world)
       = (Returned ''A red kite over dunes.'', after_describe sample_upload ''iVBORw0KGgo='' sample_world)
   \<and> startProcessing_clean ''iVBORw0KGgo='' (after_describe sample_upload ''iVBORw0KGgo='' sample_world)
       = (Returned (Str ''iVBORclean''), after_clean sample_upload ''iVBORw0KGgo='' sample_world)
   \<and> Str ''https://videos.example/v1?alt=media&key=k1'' \<noteq> Null
   \<and> truthy (Str ''https://videos.example/v1?alt=media&key=k1'')
   \<and> fst (startProcessing sample_world) = Returned ()
   \<and> processingState (caller (snd (startProcessing sample_world))) = completed_state
   \<and> resultVideoUrl (caller (snd (startProcessing sample_world)))
       = Str ''https://videos.example/v1?alt=media&key=k1''
   \<and> fst (getAiClient (at_generate sample_upload ''iVBORw0KGgo='' sample_world)) = Returned ()
   \<and> generateVideos_replies (snd (getAiClient (at_generate sample_upload ''iVBORw0KGgo='' sample_world)))
       = Resolve rendering_op # []
   \<and> op_error finished_op = None
   \<and> video_uri finished_op = Str ''https://videos.example/v1?alt=media''
   \<and> fst (poll (Some progress_message) rendering_op
         (reported (Some progress_message) ''Video generation started. This may take a moment...''
           ((resume (reported (Some progress_message) ''Initializing generation model...''
               (snd (getAiClient (at_generate sample_upload ''iVBORw0KGgo='' sample_world)))))
             \<lparr>log := log (reported (Some progress_message) ''Initializing generation model...''
                   (snd (getAiClient (at_generate sample_upload ''iVBORw0KGgo='' sample_world))))
                 @ [GenerateVideos (veo_request (Str ''iVBORclean'') ''A red kite over dunes.'')],
               generateVideos_replies := []\<rparr>))) = Returned finished_op
   \<and> fst (generateCleanVideo (Str ''iVBORclean'') ''A red kite over dunes.'' (Some progress_message)
         (at_generate sample_upload ''iVBORw0KGgo='' sample_world))
       = Returned (Str (''https://videos.example/v1?alt=media'' @ ''&key='' @ template (API_KEY
           (snd (poll (Some progress_message) rendering_op
             (reported (Some progress_message) ''Video generation started. This may take a moment...''
               ((resume (reported (Some progress_message) ''Initializing generation model...''
                   (snd (getAiClient (at_generate sample_upload ''iVBORw0KGgo='' sample_world)))))
                 \<lparr>log := log (reported (Some progress_message) ''Initializing generation model...''
                       (snd (getAiClient (at_generate sample_upload ''iVBORw0KGgo='' sample_world))))
                     @ [GenerateVideos (veo_request (Str ''iVBORclean'') ''A red kite over dunes.'')],
                   generateVideos_replies := []\<rparr>)))))))"
proof -
  let ?G = "at_generate sample_upload ''iVBORw0KGgo='' sample_world"
  let ?wc = "snd (getAiClient ?G)"
  let ?X = "reported (Some progress_message) ''Video generation started. This may take a moment...''
                ((resume (reported (Some progress_message) ''Initializing generation model...'' ?wc))
                  \<lparr>log := log (reported (Some progress_message) ''Initializing generation model...'' ?wc)
                            @ [GenerateVideos (veo_request (Str ''iVBORclean'') ''A red kite over dunes.'')],
                    generateVideos_replies := []\<rparr>)"
  let ?wp = "snd (poll (Some progress_message) rendering_op ?X)"
  note defs = stage_defs io_defs service_defs app_defs sample_defs
  have r1': "fst (getAiClient ?G) = Returned ()" by (simp add: defs)
  have r1: "getAiClient ?G = (Returned (), ?wc)" using r1' by (rule pair_fst)
  have r2: "generateVideos_replies ?wc = Resolve rendering_op # []" by (simp add: defs)
  have r3': "fst (poll (Some progress_message) rendering_op ?X) = Returned finished_op"
    by (simp add: defs reported_def poll.simps generating_state_def)
  have r3: "poll (Some progress_message) rendering_op ?X = (Returned finished_op, ?wp)"
    using r3' by (rule pair_fst)
  have r4: "op_error finished_op = None"
    and r5: "video_uri finished_op = Str ''https://videos.example/v1?alt=media''"
    and r6: "''https://videos.example/v1?alt=media'' \<noteq> []"
    by (simp_all add: finished_op_def video_uri_def)
  note t = generateCleanVideo_never_null [OF sample_generate,
      where w = sample_world and vd = sample_upload and ?f0.0 = "''iVBORw0KGgo=''"
        and ?w1.0 = "after_capture sample_world"
        and ?w2.0 = "after_describe sample_upload ''iVBORw0KGgo='' sample_world"
        and ?w3.0 = "after_clean sample_upload ''iVBORw0KGgo='' sample_world"]
  have s4: "at_generate sample_upload ''iVBORw0KGgo='' sample_world
      = (after_clean sample_upload ''iVBORw0KGgo='' sample_world)
      \<lparr>caller := set_state generating_state (caller (after_clean sample_upload ''iVBORw0KGgo='' sample_world))\<rparr>"
    by (simp add: at_generate_def)
  note r = t [THEN conjunct2, THEN conjunct2, THEN conjunct2, THEN conjunct1, rule_format,
      OF conjI [OF sample_guards(1) conjI [OF sample_guards(2) conjI [OF sample_guards(3)
         conjI [OF sample_stage1 conjI [OF sample_stage2 conjI [OF sample_stage3 conjI [OF s4 refl]]]]]]]]
  have c1: "Str ''https://videos.example/v1?alt=media&key=k1'' \<noteq> Null"
    by (rule t [THEN conjunct1])
  have c2: "truthy (Str ''https://videos.example/v1?alt=media&key=k1'')"
    by (rule t [THEN conjunct2, THEN conjunct1])
  have c3: "fst (startProcessing sample_world) = Returned ()"
    by (rule r [THEN conjunct1])
  have c4: "processingState (caller (snd (startProcessing sample_world))) = completed_state"
    by (rule r [THEN conjunct2, THEN conjunct1])
  have c5: "resultVideoUrl (caller (snd (startProcessing sample_world)))
       = Str ''https://videos.example/v1?alt=media&key=k1''"
    by (rule r [THEN conjunct2, THEN conjunct2, THEN conjunct2, THEN conjunct2])
  note q = t [THEN conjunct2, THEN conjunct2, THEN conjunct2, THEN conjunct2, rule_format,
      where wa = ?G and wc = ?wc and opn = rendering_op and gr = "[]" and h = finished_op
        and wp = ?wp and u = "''https://videos.example/v1?alt=media''"
        and cb = "Some progress_message" and fa = "Str ''iVBORclean''"
        and pa = "''A red kite over dunes.''",
      OF conjI [OF r1 conjI [OF r2 conjI [OF r3 conjI [OF r4 conjI [OF r5 r6]]]]]]
  have c6: "fst (generateCleanVideo (Str ''iVBORclean'') ''A red kite over dunes.'' (Some progress_message) ?G)
       = Returned (Str (''https://videos.example/v1?alt=media'' @ ''&key='' @ template (API_KEY ?wp)))"
    by (rule arg_cong [where f = fst, OF q, unfolded fst_conv])
  show ?thesis
    by (intro conjI sample_generate sample_guards(1) sample_guards(2) sample_stage1 sample_stage2
        sample_stage3 c1 c2 c3 c4 c5 r1' r2 r4 r5 r3' c6)
qed

text \<open>
  C3 (amended): when an error whose message contains "Requested entity was not found"
  is raised inside the \<^verbatim>\<open>try\<close> block of \<^verbatim>\<open>generateCleanVideo\<close> (the request for the
  video, a status request, or the error of the finished operation), the host offers key
  selection and the selection call resolves, then the key selection is opened once and
  the error "API Key session expired. Please try again." is thrown in its place (the
  world is the one resumed after the key selection). The run then ends in the failed
  state with that text, and after the original error the log holds nothing but that
  error, the one key selection and the new error: the run is neither resumed nor
  retried.
\<close>

theorem credential_reselection_after_generate_error:
  assumes thrown: "generateCleanVideo_try f p onProgress wt = (Threw e, wt')"
    and msg: "error_message e = Str m" "str_includes m ''Requested entity was not found''"
    and host: "aistudio wt'"
    and sel: "openSelectKey_replies wt' = Resolve () # rest"
  shows "try_catch (generateCleanVideo_try f p onProgress) generateCleanVideo_catch wt
       = (Threw expired_error,
          (resume wt')\<lparr>log := log wt' @ [ConsoleError e, OpenSelectKey], openSelectKey_replies := rest\<rparr>)
    \<and> (videoData (caller w) = Some vd \<and> truthy (previewUrl vd) \<and> (truthy (API_KEY w) \<or> aistudio w)
         \<and> startProcessing_capture w = (Returned f0, w1)
         \<and> startProcessing_describe vd f0 w1 = (Returned p, w2)
         \<and> startProcessing_clean f0 w2 = (Returned f, w3)
         \<and> getAiClient (w3\<lparr>caller := set_state generating_state (caller w3)\<rparr>) = (Returned (), wc)
         \<and> wt = reported onProgress ''Initializing generation model...'' wc
         \<and> onProgress = Some progress_message
       \<longrightarrow> fst (startProcessing w) = Returned ()
         \<and> processingState (caller (snd (startProcessing w))) = failed_state expired_error
         \<and> error (failed_state expired_error) = Some ''API Key session expired. Please try again.''
         \<and> log (snd (startProcessing w)) =
             log wt' @ [ConsoleError e, OpenSelectKey, ConsoleError expired_error])"
proof -
  have inc: "message_includes e ''Requested entity was not found''"
    using msg by (simp add: message_includes_def)
  let ?wf = "(resume wt')\<lparr>log := log wt' @ [ConsoleError e, OpenSelectKey], openSelectKey_replies := rest\<rparr>"
  have tc: "try_catch (generateCleanVideo_try f p onProgress) generateCleanVideo_catch wt
       = (Threw expired_error, ?wf)"
    using thrown generateCleanVideo_catch_reselect [OF inc host sel]
    by (simp add: try_catch_def)
  show ?thesis
  proof (intro conjI impI)
    show "try_catch (generateCleanVideo_try f p onProgress) generateCleanVideo_catch wt
       = (Threw expired_error, ?wf)" by (rule tc)
  next
    assume a: "videoData (caller w) = Some vd \<and> truthy (previewUrl vd) \<and> (truthy (API_KEY w) \<or> aistudio w)
         \<and> startProcessing_capture w = (Returned f0, w1)
         \<and> startProcessing_describe vd f0 w1 = (Returned p, w2)
         \<and> startProcessing_clean f0 w2 = (Returned f, w3)
         \<and> getAiClient (w3\<lparr>caller := set_state generating_state (caller w3)\<rparr>) = (Returned (), wc)
         \<and> wt = reported onProgress ''Initializing generation model...'' wc
         \<and> onProgress = Some progress_message"
    then have g1: "videoData (caller w) = Some vd" and g2: "truthy (previewUrl vd)"
      and g3: "truthy (API_KEY w) \<or> aistudio w"
      and s1: "startProcessing_capture w = (Returned f0, w1)"
      and s2: "startProcessing_describe vd f0 w1 = (Returned p, w2)"
      and s3: "startProcessing_clean f0 w2 = (Returned f, w3)"
      and s4: "getAiClient (w3\<lparr>caller := set_state generating_state (caller w3)\<rparr>) = (Returned (), wc)"
      and s5: "wt = reported (Some progress_message) ''Initializing generation model...'' wc"
      and s6: "onProgress = Some progress_message"
      by simp_all
    have g: "generateCleanVideo f p (Some progress_message)
        (w3\<lparr>caller := set_state generating_state (caller w3)\<rparr>) = (Threw expired_error, ?wf)"
      using s4 tc s5 s6 by (simp add: generateCleanVideo_def bind_def report_reported)
    have run: "startProcessing w =
       (Returned (), ?wf\<lparr>caller := set_state (failed_state expired_error) (caller ?wf),
          log := log ?wf @ [ConsoleError expired_error]\<rparr>)"
      by (rule run_generate_Threw [OF g1 g2 g3 s1 s2 s3 g])
    show "fst (startProcessing w) = Returned ()" by (simp add: run)
    show "processingState (caller (snd (startProcessing w))) = failed_state expired_error"
      by (simp add: run set_state_def)
    show "error (failed_state expired_error) = Some ''API Key session expired. Please try again.''"
      by (simp add: failed_state_def expired_error_def)
    show "log (snd (startProcessing w)) =
             log wt' @ [ConsoleError e, OpenSelectKey, ConsoleError expired_error]"
      by (simp add: run)
  qed
qed

text \<open>
  C3, as stated for every remote error, fails: the same message from the describe call,
  with the host's key selection available, opens no key selection, and the run fails with
  the remote message itself. Only \<^verbatim>\<open>generateCleanVideo\<close> has the special case.
\<close>

theorem describe_not_found_no_reselection:
  "aistudio describe_not_found_world
   \<and> startProcessing_capture describe_not_found_world
       = (Returned ''iVBORw0KGgo='', after_capture describe_not_found_world)
   \<and> fst (startProcessing_describe sample_upload ''iVBORw0KGgo='' (after_capture describe_not_found_world))
       = Threw not_found_error
   \<and> error_message not_found_error = Str ''Requested entity was not found.''
   \<and> str_includes ''Requested entity was not found.'' ''Requested entity was not found''
   \<and> fst (startProcessing describe_not_found_world) = Returned ()
   \<and> error (processingState (caller (snd (startProcessing describe_not_found_world))))
       = Some ''Requested entity was not found.''
   \<and> OpenSelectKey \<notin> set (log (snd (startProcessing describe_not_found_world)))"
  by (simp add: stage_defs variant_defs io_defs service_defs app_defs sample_defs starts_with_def)

theorem credential_reselection_after_generate_error_witness:
  "generateCleanVideo_try (Str ''iVBORclean'') ''A red kite over dunes.'' (Some progress_message)
      (reported (Some progress_message) ''Initializing generation model...''
         (snd (getAiClient (at_generate sample_upload ''iVBORw0KGgo='' veo_not_found_world))))
    = (Threw not_found_error,
       snd (generateCleanVideo_try (Str ''iVBORclean'') ''A red kite over dunes.'' (Some progress_message)
         (reported (Some progress_message) ''Initializing generation model...''
           (snd (getAiClient (at_generate sample_upload ''iVBORw0KGgo='' veo_not_found_world))))))
   \<and> error_message not_found_error = Str ''Requested entity was not found.''
   \<and> str_includes ''Requested entity was not found.'' ''Requested entity was not found''
   \<and> aistudio veo_not_found_world
   \<and> videoData (caller veo_not_found_world) = Some sample_upload
   \<and> truthy (previewUrl sample_upload)
   \<and> startProcessing_capture veo_not_found_world
       = (Returned ''iVBORw0KGgo='', after_capture veo_not_found_world)
   \<and> startProcessing_describe sample_upload ''iVBORw0KGgo='' (after_capture veo_not_found_world)
       = (Returned ''A red kite over dunes.'', after_describe sample_upload ''iVBORw0KGgo='' veo_not_found_world)
   \<and> startProcessing_clean ''iVBORw0KGgo='' (after_describe sample_upload ''iVBORw0KGgo='' veo_not_found_world)
       = (Returned (Str ''iVBORclean''), after_clean sample_upload ''iVBORw0KGgo='' veo_not_found_world)
   \<and> fst (startProcessing veo_not_found_world) = Returned ()
   \<and> processingState (caller (snd (startProcessing veo_not_found_world))) = failed_state expired_error
   \<and> error (failed_state expired_error) = Some ''API Key session expired. Please try again.''
   \<and> filter (\<lambda>ev. ev = OpenSelectKey) (log (snd (startProcessing veo_not_found_world)))
       = [OpenSelectKey]"
proof -
  let ?W = veo_not_found_world
  let ?G = "at_generate sample_upload ''iVBORw0KGgo='' ?W"
  let ?wc = "snd (getAiClient ?G)"
  let ?wt = "reported (Some progress_message) ''Initializing generation model...'' ?wc"
  let ?wt' = "snd (generateCleanVideo_try (Str ''iVBORclean'') ''A red kite over dunes.''
      (Some progress_message) ?wt)"
  have h1: "generateCleanVideo_try (Str ''iVBORclean'') ''A red kite over dunes.'' (Some progress_message) ?wt
      = (Threw not_found_error, ?wt')"
    by (simp add: stage_defs variant_defs io_defs service_defs app_defs sample_defs reported_def)
  have h2: "error_message not_found_error = Str ''Requested entity was not found.''"
    by (simp add: not_found_error_def)
  have h3: "str_includes ''Requested entity was not found.'' ''Requested entity was not found''"
    by (simp add: starts_with_def)
  have h4: "aistudio ?wt'"
    by (simp add: stage_defs variant_defs io_defs service_defs app_defs sample_defs reported_def)
  have h5: "openSelectKey_replies ?wt' = Resolve () # []"
    by (simp add: stage_defs variant_defs io_defs service_defs app_defs sample_defs reported_def)
  have h6: "aistudio ?W" by (simp add: variant_defs sample_defs)
  have g1: "videoData (caller ?W) = Some sample_upload"
    by (simp add: variant_defs sample_defs)
  have g2: "truthy (previewUrl sample_upload)" by (simp add: sample_defs)
  have g3: "truthy (API_KEY ?W) \<or> aistudio ?W" by (simp add: variant_defs sample_defs)
  have s1: "startProcessing_capture ?W = (Returned ''iVBORw0KGgo='', after_capture ?W)"
    by (simp add: stage_defs variant_defs io_defs service_defs app_defs sample_defs)
  have s2: "startProcessing_describe sample_upload ''iVBORw0KGgo='' (after_capture ?W)
       = (Returned ''A red kite over dunes.'', after_describe sample_upload ''iVBORw0KGgo='' ?W)"
    by (simp add: stage_defs variant_defs io_defs service_defs app_defs sample_defs)
  have s3: "startProcessing_clean ''iVBORw0KGgo='' (after_describe sample_upload ''iVBORw0KGgo='' ?W)
       = (Returned (Str ''iVBORclean''), after_clean sample_upload ''iVBORw0KGgo='' ?W)"
    by (simp add: stage_defs variant_defs io_defs service_defs app_defs sample_defs)
  have s4: "getAiClient ((after_clean sample_upload ''iVBORw0KGgo='' ?W)
      \<lparr>caller := set_state generating_state (caller (after_clean sample_upload ''iVBORw0KGgo='' ?W))\<rparr>)
      = (Returned (), ?wc)"
    by (simp add: stage_defs variant_defs io_defs service_defs app_defs sample_defs)
  note t = credential_reselection_after_generate_error [OF h1 h2 h3 h4 h5,
      where w = ?W and vd = sample_upload and ?f0.0 = "''iVBORw0KGgo=''"
        and ?w1.0 = "after_capture ?W"
        and ?w2.0 = "after_describe sample_upload ''iVBORw0KGgo='' ?W"
        and ?w3.0 = "after_clean sample_upload ''iVBORw0KGgo='' ?W" and wc = ?wc,
      THEN conjunct2, rule_format,
      OF conjI [OF g1 conjI [OF g2 conjI [OF g3 conjI [OF s1 conjI [OF s2 conjI [OF s3
         conjI [OF s4 conjI [OF refl refl]]]]]]]]]
  have c1: "fst (startProcessing ?W) = Returned ()" using t by blast
  have c2: "processingState (caller (snd (startProcessing ?W))) = failed_state expired_error"
    using t by blast
  have c3: "error (failed_state expired_error) = Some ''API Key session expired. Please try again.''"
    using t by blast
  have "log (snd (startProcessing ?W)) =
      log ?wt' @ [ConsoleError not_found_error, OpenSelectKey, ConsoleError expired_error]"
    using t by blast
  then have c4: "filter (\<lambda>ev. ev = OpenSelectKey) (log (snd (startProcessing ?W))) = [OpenSelectKey]"
    by (simp add: stage_defs variant_defs io_defs service_defs app_defs sample_defs reported_def)
  show ?thesis by (intro conjI h1 h2 h3 h6 g1 g2 s1 s2 s3 c1 c2 c3 c4)
qed

section \<open>The clean-frame stage\<close>

text \<open>
  C5: \<^verbatim>\<open>cleanFrame\<close> evaluated. When every call succeeds it issues three remote
  requests, not two: first a request to the image model to remove the watermark, whose
  response is never read, then the request for the description, then the request for the
  image, whose bytes it returns. When that first request is rejected the function throws,
  before the two steps that build the frame have been attempted.
\<close>

theorem cleanFrame_three_requests:
  "cleanFrame ''iVBORw0KGgo='' ''image/png'' clean_world
     = (Returned (Str ''iVBORclean''),
        clean_world\<lparr>log := [HasSelectedApiKey,
             GenerateContent (remove_request ''iVBORw0KGgo='' ''image/png''),
             GenerateContent (describe_request ''iVBORw0KGgo='' ''image/png''),
             GenerateImages (imagen_request ''A kite, dunes, blue sky.'')],
           generateImages_replies := [], generateContent_replies := [],
           hasSelectedApiKey_replies := []\<rparr>)
   \<and> cleanFrame ''iVBORw0KGgo='' ''image/png'' clean_world_first_rejected
     = (Threw overloaded_error,
        clean_world_first_rejected\<lparr>log := [HasSelectedApiKey,
             GenerateContent (remove_request ''iVBORw0KGgo='' ''image/png'')],
           generateContent_replies := [Resolve \<lparr>resp_text = Str ''A kite, dunes, blue sky.''\<rparr>],
           hasSelectedApiKey_replies := []\<rparr>)"
  by (simp add: clean_world_def clean_world_first_rejected_def io_defs service_defs sample_defs)

section \<open>Failure of a stage\<close>

lemma run_capture_done:
  assumes g: "videoData (caller w) = Some vd" "truthy (previewUrl vd)" "truthy (API_KEY w) \<or> aistudio w"
    and cap: "startProcessing_capture w = (Returned f, w1)"
  shows "startProcessing w =
     try_catch (bind (startProcessing_describe vd f) (\<lambda>analysisPrompt.
       bind (startProcessing_clean f) (\<lambda>cleanedFrameBase64.
         startProcessing_generate cleanedFrameBase64 analysisPrompt))) startProcessing_catch w1"
  unfolding startProcessing_guarded [OF g] startProcessing_try_def
  using cap by (simp add: try_catch_def bind_def)

lemma failed_run_eq: "startProcessing_catch e w = (Returned (), failed_run e w)"
  by (simp add: startProcessing_catch_eq failed_run_def)

lemma not_clean_or_generate_imp: "\<not> clean_or_generate_call ev \<Longrightarrow> \<not> generate_call ev"
  by (cases ev) simp_all

lemma list_all_mono: "list_all P xs \<Longrightarrow> (\<And>x. P x \<Longrightarrow> Q x) \<Longrightarrow> list_all Q xs"
  by (induction xs) auto

text \<open>
  C4 (amended): in a run whose frame was captured, an error thrown by the describe, the
  clean-frame or the generate stage ends the run at once: \<^verbatim>\<open>startProcessing\<close> returns
  with the world of the moment of the failure, changed only by its \<^verbatim>\<open>catch\<close> block,
  which logs the error and sets the failed state. So nothing is retried and no later stage
  is attempted; after a failure of the describe stage the log of the run holds no call of
  the clean-frame or generate stage, after a failure of the clean-frame stage no call of
  the generate stage. The failure text is the message of the error, unchanged, when that
  message is not empty, and "Unknown error occurred" when it is empty or missing.
\<close>

theorem stage_failure_ends_run:
  assumes g: "videoData (caller w) = Some vd" "truthy (previewUrl vd)" "truthy (API_KEY w) \<or> aistudio w"
    and cap: "startProcessing_capture w = (Returned f, w1)"
  shows
   "(startProcessing_describe vd f w1 = (Threw e, w2) \<longrightarrow>
        startProcessing w = (Returned (), failed_run e w2)
        \<and> (\<exists>evs. log w2 = log w @ evs \<and> list_all (\<lambda>ev. \<not> clean_or_generate_call ev) evs))
    \<and> (startProcessing_describe vd f w1 = (Returned p, w2)
        \<and> startProcessing_clean f w2 = (Threw e, w3) \<longrightarrow>
        startProcessing w = (Returned (), failed_run e w3)
        \<and> (\<exists>evs. log w3 = log w @ evs \<and> list_all (\<lambda>ev. \<not> generate_call ev) evs))
    \<and> (startProcessing_describe vd f w1 = (Returned p, w2)
        \<and> startProcessing_clean f w2 = (Returned c, w3)
        \<and> generateCleanVideo c p (Some progress_message)
             (w3\<lparr>caller := set_state generating_state (caller w3)\<rparr>) = (Threw e, w4) \<longrightarrow>
        startProcessing w = (Returned (), failed_run e w4))
    \<and> processingState (caller (failed_run e w')) = failed_state e
    \<and> log (failed_run e w') = log w' @ [ConsoleError e]
    \<and> status (failed_state e) = status.error
    \<and> (error_message e = Str m \<and> m \<noteq> [] \<longrightarrow> error (failed_state e) = Some m)
    \<and> (\<not> truthy (error_message e) \<longrightarrow> error (failed_state e) = Some ''Unknown error occurred'')"
proof (intro conjI impI)
  note run = run_capture_done [OF g cap]
  have l1: "log w1 = log w" using capture_log [of w] cap by simp
  {
    assume d: "startProcessing_describe vd f w1 = (Threw e, w2)"
    show "startProcessing w = (Returned (), failed_run e w2)"
      unfolding run using d by (simp add: try_catch_def bind_def failed_run_eq)
    from logs_onlyD [OF logs_only_describe, of vd f w1] d l1
    show "\<exists>evs. log w2 = log w @ evs \<and> list_all (\<lambda>ev. \<not> clean_or_generate_call ev) evs"
      by simp
  }
  {
    assume a: "startProcessing_describe vd f w1 = (Returned p, w2)
        \<and> startProcessing_clean f w2 = (Threw e, w3)"
    then show "startProcessing w = (Returned (), failed_run e w3)"
      unfolding run by (simp add: try_catch_def bind_def failed_run_eq)
    from logs_onlyD [OF logs_only_describe, of vd f w1] a l1
    obtain e1 where e1: "log w2 = log w @ e1" "list_all (\<lambda>ev. \<not> clean_or_generate_call ev) e1"
      by auto
    from logs_onlyD [OF logs_only_clean, of f w2] a
    obtain e2 where e2: "log w3 = log w2 @ e2" "list_all (\<lambda>ev. \<not> generate_call ev) e2"
      by auto
    have "list_all (\<lambda>ev. \<not> generate_call ev) e1"
      by (rule list_all_mono [OF e1(2)]) (rule not_clean_or_generate_imp)
    then have "log w3 = log w @ (e1 @ e2) \<and> list_all (\<lambda>ev. \<not> generate_call ev) (e1 @ e2)"
      using e1 e2 by simp
    then show "\<exists>evs. log w3 = log w @ evs \<and> list_all (\<lambda>ev. \<not> generate_call ev) evs"
      by blast
  }
  {
    assume a: "startProcessing_describe vd f w1 = (Returned p, w2)
        \<and> startProcessing_clean f w2 = (Returned c, w3)
        \<and> generateCleanVideo c p (Some progress_message)
             (w3\<lparr>caller := set_state generating_state (caller w3)\<rparr>) = (Threw e, w4)"
    then have s2: "startProcessing_describe vd f w1 = (Returned p, w2)"
      and s3: "startProcessing_clean f w2 = (Returned c, w3)"
      and s4: "generateCleanVideo c p (Some progress_message)
             (w3\<lparr>caller := set_state generating_state (caller w3)\<rparr>) = (Threw e, w4)"
      by simp_all
    show "startProcessing w = (Returned (), failed_run e w4)"
      using run_generate_Threw [OF g cap s2 s3 s4] by (simp add: failed_run_def)
  }
  show "processingState (caller (failed_run e w')) = failed_state e"
    by (simp add: failed_run_def set_state_def)
  show "log (failed_run e w') = log w' @ [ConsoleError e]"
    by (simp add: failed_run_def)
  show "status (failed_state e) = status.error" by (simp add: failed_state_def)
  {
    assume "error_message e = Str m \<and> m \<noteq> []"
    then show "error (failed_state e) = Some m" by (simp add: failed_state_def)
  }
  {
    assume "\<not> truthy (error_message e)"
    then show "error (failed_state e) = Some ''Unknown error occurred''"
      by (cases "error_message e") (simp_all add: failed_state_def)
  }
qed

text \<open>
  C4, as stated for every error, fails for an error with an empty message: the run's
  failure text is then "Unknown error occurred", not the (empty) message.
\<close>

theorem blank_error_message_replaced:
  "startProcessing_capture blank_error_world
       = (Returned ''iVBORw0KGgo='', after_capture blank_error_world)
   \<and> fst (startProcessing_describe sample_upload ''iVBORw0KGgo='' (after_capture blank_error_world))
       = Threw (Error (Str []))
   \<and> error_message (Error (Str [])) = Str []
   \<and> fst (startProcessing blank_error_world) = Returned ()
   \<and> error (processingState (caller (snd (startProcessing blank_error_world))))
       = Some ''Unknown error occurred''
   \<and> error (processingState (caller (snd (startProcessing blank_error_world)))) \<noteq> Some []"
  by (simp add: stage_defs variant_defs io_defs service_defs app_defs sample_defs)

theorem stage_failure_ends_run_witness:
  "videoData (caller describe_not_found_world) = Some sample_upload
   \<and> truthy (previewUrl sample_upload)
   \<and> aistudio describe_not_found_world
   \<and> startProcessing_capture describe_not_found_world
       = (Returned ''iVBORw0KGgo='', after_capture describe_not_found_world)
   \<and> startProcessing_describe sample_upload ''iVBORw0KGgo='' (after_capture describe_not_found_world)
       = (Threw not_found_error, after_describe sample_upload ''iVBORw0KGgo='' describe_not_found_world)
   \<and> startProcessing describe_not_found_world
       = (Returned (), failed_run not_found_error
            (after_describe sample_upload ''iVBORw0KGgo='' describe_not_found_world))
   \<and> error_message not_found_error = Str ''Requested entity was not found.''
   \<and> error (failed_state not_found_error) = Some ''Requested entity was not found.''
   \<and> startProcessing_describe sample_upload ''iVBORw0KGgo='' (after_capture clean_rejected_world)
       = (Returned ''A red kite over dunes.'', after_describe sample_upload ''iVBORw0KGgo='' clean_rejected_world)
   \<and> startProcessing_clean ''iVBORw0KGgo='' (after_describe sample_upload ''iVBORw0KGgo='' clean_rejected_world)
       = (Threw overloaded_error, after_clean sample_upload ''iVBORw0KGgo='' clean_rejected_world)
   \<and> startProcessing clean_rejected_world
       = (Returned (), failed_run overloaded_error
            (after_clean sample_upload ''iVBORw0KGgo='' clean_rejected_world))
   \<and> generateCleanVideo (Str ''iVBORclean'') ''A red kite over dunes.'' (Some progress_message)
         (at_generate sample_upload ''iVBORw0KGgo='' veo_not_found_no_host_world)
       = (Threw not_found_error,
          snd (generateCleanVideo (Str ''iVBORclean'') ''A red kite over dunes.'' (Some progress_message)
            (at_generate sample_upload ''iVBORw0KGgo='' veo_not_found_no_host_world)))
   \<and> startProcessing veo_not_found_no_host_world
       = (Returned (), failed_run not_found_error
            (snd (generateCleanVideo (Str ''iVBORclean'') ''A red kite over dunes.'' (Some progress_message)
              (at_generate sample_upload ''iVBORw0KGgo='' veo_not_found_no_host_world))))"
proof -
  let ?A = describe_not_found_world
  let ?B = clean_rejected_world
  let ?C = veo_not_found_no_host_world
  note defs = stage_defs variant_defs io_defs service_defs app_defs sample_defs
  have gA: "videoData (caller ?A) = Some sample_upload" "truthy (previewUrl sample_upload)"
    "truthy (API_KEY ?A) \<or> aistudio ?A" "aistudio ?A"
    by (simp_all add: variant_defs sample_defs)
  have gB: "videoData (caller ?B) = Some sample_upload" "truthy (API_KEY ?B) \<or> aistudio ?B"
    by (simp_all add: variant_defs sample_defs)
  have gC: "videoData (caller ?C) = Some sample_upload" "truthy (API_KEY ?C) \<or> aistudio ?C"
    by (simp_all add: variant_defs sample_defs)
  have cA: "startProcessing_capture ?A = (Returned ''iVBORw0KGgo='', after_capture ?A)"
    by (simp add: defs)
  have cB: "startProcessing_capture ?B = (Returned ''iVBORw0KGgo='', after_capture ?B)"
    by (simp add: defs)
  have cC: "startProcessing_capture ?C = (Returned ''iVBORw0KGgo='', after_capture ?C)"
    by (simp add: defs)
  have dA: "startProcessing_describe sample_upload ''iVBORw0KGgo='' (after_capture ?A)
       = (Threw not_found_error, after_describe sample_upload ''iVBORw0KGgo='' ?A)"
    by (simp add: defs)
  have dB: "startProcessing_describe sample_upload ''iVBORw0KGgo='' (after_capture ?B)
       = (Returned ''A red kite over dunes.'', after_describe sample_upload ''iVBORw0KGgo='' ?B)"
    by (simp add: defs)
  have dC: "startProcessing_describe sample_upload ''iVBORw0KGgo='' (after_capture ?C)
       = (Returned ''A red kite over dunes.'', after_describe sample_upload ''iVBORw0KGgo='' ?C)"
    by (simp add: defs)
  have kB: "startProcessing_clean ''iVBORw0KGgo='' (after_describe sample_upload ''iVBORw0KGgo='' ?B)
       = (Threw overloaded_error, after_clean sample_upload ''iVBORw0KGgo='' ?B)"
    by (simp add: defs)
  have kC: "startProcessing_clean ''iVBORw0KGgo='' (after_describe sample_upload ''iVBORw0KGgo='' ?C)
       = (Returned (Str ''iVBORclean''), after_clean sample_upload ''iVBORw0KGgo='' ?C)"
    by (simp add: defs)
  have vC: "generateCleanVideo (Str ''iVBORclean'') ''A red kite over dunes.'' (Some progress_message)
         ((after_clean sample_upload ''iVBORw0KGgo='' ?C)
            \<lparr>caller := set_state generating_state (caller (after_clean sample_upload ''iVBORw0KGgo='' ?C))\<rparr>)
       = (Threw not_found_error,
          snd (generateCleanVideo (Str ''iVBORclean'') ''A red kite over dunes.'' (Some progress_message)
            (at_generate sample_upload ''iVBORw0KGgo='' ?C)))"
    by (simp add: defs generating_state_def starts_with_def)
  have m: "error_message not_found_error = Str ''Requested entity was not found.''"
    by (simp add: not_found_error_def)
  note tA = stage_failure_ends_run [OF gA(1) gA(2) gA(3) cA, where e = not_found_error
      and ?w2.0 = "after_describe sample_upload ''iVBORw0KGgo='' ?A"
      and m = "''Requested entity was not found.''"]
  note tB = stage_failure_ends_run [OF gB(1) gA(2) gB(2) cB, where e = overloaded_error
      and p = "''A red kite over dunes.''"
      and ?w2.0 = "after_describe sample_upload ''iVBORw0KGgo='' ?B"
      and ?w3.0 = "after_clean sample_upload ''iVBORw0KGgo='' ?B"]
  note tC = stage_failure_ends_run [OF gC(1) gA(2) gC(2) cC, where e = not_found_error
      and p = "''A red kite over dunes.''" and c = "Str ''iVBORclean''"
      and ?w2.0 = "after_describe sample_upload ''iVBORw0KGgo='' ?C"
      and ?w3.0 = "after_clean sample_upload ''iVBORw0KGgo='' ?C"
      and ?w4.0 = "snd (generateCleanVideo (Str ''iVBORclean'') ''A red kite over dunes.'' (Some progress_message)
            (at_generate sample_upload ''iVBORw0KGgo='' ?C))"]
  have rA: "startProcessing ?A
       = (Returned (), failed_run not_found_error (after_describe sample_upload ''iVBORw0KGgo='' ?A))"
    using tA dA by blast
  have eA: "error (failed_state not_found_error) = Some ''Requested entity was not found.''"
    using tA m by blast
  have rB: "startProcessing ?B
       = (Returned (), failed_run overloaded_error (after_clean sample_upload ''iVBORw0KGgo='' ?B))"
    using tB dB kB by blast
  have rC: "startProcessing ?C
       = (Returned (), failed_run not_found_error
            (snd (generateCleanVideo (Str ''iVBORclean'') ''A red kite over dunes.'' (Some progress_message)
              (at_generate sample_upload ''iVBORw0KGgo='' ?C))))"
    using tC dC kC vC by blast
  have vC': "generateCleanVideo (Str ''iVBORclean'') ''A red kite over dunes.'' (Some progress_message)
         (at_generate sample_upload ''iVBORw0KGgo='' ?C)
       = (Threw not_found_error,
          snd (generateCleanVideo (Str ''iVBORclean'') ''A red kite over dunes.'' (Some progress_message)
            (at_generate sample_upload ''iVBORw0KGgo='' ?C)))"
    using vC by (simp add: at_generate_def)
  show ?thesis
    by (intro conjI gA(1) gA(2) gA(4) cA dA rA m eA dB kB rB vC' rC)
qed

section \<open>The states a run sets\<close>

subsection \<open>Runs during which no handler runs\<close>

lemma quiet_iff: "list_all (\<lambda>h. False) hs \<longleftrightarrow> hs = []"
  by (cases hs) simp_all

lemma steps_quiet:
  assumes "steps (\<lambda>h. False) cb a b"
  shows "\<exists>msgs. b = foldl (\<lambda>x msg. cb msg x) a msgs"
  using assms
proof (induction rule: steps.induct)
  case (steps_refl a)
  show ?case by (rule exI [of _ "[]"]) simp
next
  case (steps_report a b msg)
  then obtain msgs where "b = foldl (\<lambda>x msg. cb msg x) a msgs" by blast
  then have "cb msg b = foldl (\<lambda>x msg. cb msg x) a (msgs @ [msg])" by simp
  then show ?case by blast
next
  case (steps_handler a b h)
  then show ?case by simp
qed

lemma moves_quiet:
  assumes m: "caller_moves (\<lambda>h. False) cb m" and q: "interleaved w = []"
  shows "\<exists>msgs. caller (snd (m w)) = foldl (\<lambda>x msg. cb msg x) (caller w) msgs"
    and "interleaved (snd (m w)) = []"
proof -
  have "list_all (\<lambda>h. False) (interleaved w)" using q by simp
  from caller_movesD [OF m this]
  have s: "steps (\<lambda>h. False) cb (caller w) (caller (snd (m w)))"
    and l: "list_all (\<lambda>h. False) (interleaved (snd (m w)))" by simp_all
  from s show "\<exists>msgs. caller (snd (m w)) = foldl (\<lambda>x msg. cb msg x) (caller w) msgs"
    by (rule steps_quiet)
  from l show "interleaved (snd (m w)) = []" by (simp add: quiet_iff)
qed

lemma foldl_nothing: "foldl (\<lambda>x msg. x) a msgs = a"
  by (induction msgs) simp_all

lemma moves_quiet_still:
  assumes m: "caller_moves (\<lambda>h. False) (\<lambda>msg a. a) m" and q: "interleaved w = []"
  shows "caller (snd (m w)) = caller w" and "interleaved (snd (m w)) = []"
  using moves_quiet [OF m q] by (auto simp: foldl_nothing)

lemma capture_world:
  "snd (startProcessing_capture w) = w\<lparr>caller := set_state analyzing_state (caller w)\<rparr>
   \<or> snd (startProcessing_capture w)
       = resume (w\<lparr>caller := set_state analyzing_state (caller w)\<rparr>)"
  by (simp add: startProcessing_capture_def bind_def setProcessingState_def await_loadeddata_def
      throw_def ret_def analyzing_state_def split: option.splits js_string.splits)

lemma capture_caller:
  assumes "interleaved w = []"
  shows "caller (snd (startProcessing_capture w)) = set_state analyzing_state (caller w)"
    and "interleaved (snd (startProcessing_capture w)) = []"
proof -
  have "resume (w\<lparr>caller := set_state analyzing_state (caller w)\<rparr>)
      = w\<lparr>caller := set_state analyzing_state (caller w)\<rparr>"
    using assms by (simp add: resume_def)
  with capture_world [of w]
  have "snd (startProcessing_capture w) = w\<lparr>caller := set_state analyzing_state (caller w)\<rparr>"
    by auto
  then show "caller (snd (startProcessing_capture w)) = set_state analyzing_state (caller w)"
    and "interleaved (snd (startProcessing_capture w)) = []"
    using assms by simp_all
qed

lemma moves_describe: "caller_moves H cb (startProcessing_describe vd f)"
  unfolding startProcessing_describe_def Let_def
  by (intro moves_bind moves_analyzeVideoContent moves_emit moves_ret)

lemma describe_caller:
  assumes "interleaved w = []"
  shows "caller (snd (startProcessing_describe vd f w)) = caller w"
    and "interleaved (snd (startProcessing_describe vd f w)) = []"
  using moves_quiet_still [OF moves_describe assms] by simp_all

lemma or_else_nonempty: "d \<noteq> [] \<Longrightarrow> or_else v d \<noteq> []"
  by (cases v) auto

lemma describe_nonempty: "startProcessing_describe vd f w = (Returned p, w') \<Longrightarrow> p \<noteq> []"
  by (auto simp: startProcessing_describe_def analyzeVideoContent_def bind_def ret_def emit_def
      Let_def or_else_nonempty split: prod.splits outcome.splits)

lemma clean_eq:
  "startProcessing_clean f w
     = cleanFrame f ''image/png'' (w\<lparr>caller := set_state cleaning_state (caller w)\<rparr>)"
  unfolding startProcessing_clean_def cleaning_state_def
  by (simp add: bind_def setProcessingState_def)

lemma clean_caller:
  assumes "interleaved w = []"
  shows "caller (snd (startProcessing_clean f w)) = set_state cleaning_state (caller w)"
    and "interleaved (snd (startProcessing_clean f w)) = []"
proof -
  let ?w = "w\<lparr>caller := set_state cleaning_state (caller w)\<rparr>"
  have q: "interleaved ?w = []" using assms by simp
  from moves_quiet_still [OF moves_cleanFrame q, of f "''image/png''"]
  show "caller (snd (startProcessing_clean f w)) = set_state cleaning_state (caller w)"
    and "interleaved (snd (startProcessing_clean f w)) = []"
    by (simp_all add: clean_eq)
qed

lemma foldl_progress_message:
  "states_set (foldl (\<lambda>x msg. progress_message msg x) a msgs)
     = states_set a @ map (\<lambda>msg. (processingState a)\<lparr>message := msg\<rparr>) msgs
   \<and> resultVideoUrl (foldl (\<lambda>x msg. progress_message msg x) a msgs) = resultVideoUrl a"
proof (induction msgs arbitrary: a)
  case Nil
  show ?case by simp
next
  case (Cons m ms)
  have "states_set (progress_message m a) = states_set a @ [(processingState a)\<lparr>message := m\<rparr>]"
    and "processingState (progress_message m a) = (processingState a)\<lparr>message := m\<rparr>"
    and "resultVideoUrl (progress_message m a) = resultVideoUrl a"
    by (simp_all add: progress_message_def set_state_def)
  with Cons.IH [of "progress_message m a"] show ?case by simp
qed

lemma generate_caller:
  assumes "interleaved w = []"
  shows "\<exists>msgs. states_set (caller (snd (generateCleanVideo c p (Some progress_message) w)))
     = states_set (caller w) @ map (\<lambda>msg. (processingState (caller w))\<lparr>message := msg\<rparr>) msgs
   \<and> resultVideoUrl (caller (snd (generateCleanVideo c p (Some progress_message) w)))
     = resultVideoUrl (caller w)"
proof -
  from moves_quiet(1) [OF moves_generateCleanVideo assms, of c p]
  obtain msgs where "caller (snd (generateCleanVideo c p (Some progress_message) w))
      = foldl (\<lambda>x msg. progress_message msg x) (caller w) msgs"
    by blast
  with foldl_progress_message [of "caller w" msgs] show ?thesis by auto
qed

text \<open>The states set by the generate step, whatever its outcome.\<close>

lemma generate_step_states:
  assumes "try_catch (startProcessing_generate c p) startProcessing_catch w3 = (r, w')"
    and q: "interleaved w3 = []"
  shows "\<exists>msgs tail. states_set (caller w')
      = states_set (caller w3) @ generating_state
          # map (\<lambda>msg. generating_state\<lparr>message := msg\<rparr>) msgs @ tail
      \<and> (tail = [] \<or> tail = [completed_state] \<or> (\<exists>e. tail = [failed_state e]))"
proof -
  let ?wg = "w3\<lparr>caller := set_state generating_state (caller w3)\<rparr>"
  let ?g = "generateCleanVideo c p (Some progress_message) ?wg"
  obtain rg w4 where g: "?g = (rg, w4)" by (cases ?g)
  have qg: "interleaved ?wg = []" using q by simp
  from generate_caller [OF qg, of c p] g obtain msgs where
    st: "states_set (caller w4) = states_set (caller w3) @ generating_state
          # map (\<lambda>msg. generating_state\<lparr>message := msg\<rparr>) msgs"
    by (auto simp: set_state_def)
  show ?thesis
  proof (cases rg)
    case (Returned v)
    with g have tv: "truthy v" by (auto dest: generateCleanVideo_Returned_truthy)
    have "try_catch (startProcessing_generate c p) startProcessing_catch w3
        = (Returned (), w4\<lparr>caller := set_state completed_state ((caller w4)\<lparr>resultVideoUrl := v\<rparr>)\<rparr>)"
      unfolding startProcessing_generate_eq using g Returned tv
      by (simp add: try_catch_def bind_def setResultVideoUrl_def setProcessingState_def)
    with assms st have "states_set (caller w')
      = states_set (caller w3) @ generating_state
          # map (\<lambda>msg. generating_state\<lparr>message := msg\<rparr>) msgs @ [completed_state]"
      by (auto simp: set_state_def)
    then show ?thesis by blast
  next
    case (Threw e)
    have "try_catch (startProcessing_generate c p) startProcessing_catch w3
        = (Returned (), failed_run e w4)"
      unfolding startProcessing_generate_eq using g Threw
      by (simp add: try_catch_def bind_def failed_run_eq)
    with assms st have "states_set (caller w')
      = states_set (caller w3) @ generating_state
          # map (\<lambda>msg. generating_state\<lparr>message := msg\<rparr>) msgs @ [failed_state e]"
      by (auto simp: set_state_def failed_run_def)
    then show ?thesis by blast
  next
    case Pending
    have "try_catch (startProcessing_generate c p) startProcessing_catch w3 = (Pending, w4)"
      unfolding startProcessing_generate_eq using g Pending
      by (simp add: try_catch_def bind_def)
    with assms st have "states_set (caller w')
      = states_set (caller w3) @ generating_state
          # map (\<lambda>msg. generating_state\<lparr>message := msg\<rparr>) msgs @ []"
      by auto
    then show ?thesis by blast
  qed
qed

lemma rank_states [simp]:
  "status_rank (status analyzing_state) = 1" "status_rank (status cleaning_state) = 2"
  "status_rank (status generating_state) = 3" "status_rank (status completed_state) = 4"
  "status_rank (status (failed_state e)) = 5"
  "status analyzing_state = analyzing" "status cleaning_state = cleaning_frame"
  "status generating_state = generating" "status completed_state = completed"
  "status (failed_state e) = status.error" "status idle_state = idle"
  by (simp_all add: analyzing_state_def cleaning_state_def generating_state_def
      completed_state_def failed_state_def idle_state_def)

lemma sorted_map_const: "sorted (map (\<lambda>x. (c::'a::linorder)) xs)"
  by (induction xs) auto

text \<open>The states set by a run during which no handler runs, whatever its outcome.\<close>

lemma run_states:
  assumes run: "startProcessing w = (r, w')" and q: "interleaved w = []"
  shows "\<exists>new. states_set (caller w') = states_set (caller w) @ new
     \<and> sorted (map (\<lambda>s. status_rank (status s)) new)
     \<and> idle \<notin> status ` set new"
proof (cases "\<exists>vd. videoData (caller w) = Some vd \<and> truthy (previewUrl vd)
    \<and> (truthy (API_KEY w) \<or> aistudio w)")
  case False
  then have "caller (snd (startProcessing w)) = caller w"
    by (auto simp: startProcessing_def ret_def bind_def emit_def split: option.splits)
  with run have "states_set (caller w') = states_set (caller w) @ []" by simp
  then show ?thesis by (intro exI [of _ "[]"]) simp
next
  case True
  then obtain vd where g: "videoData (caller w) = Some vd" "truthy (previewUrl vd)"
    "truthy (API_KEY w) \<or> aistudio w" by blast
  note guarded = startProcessing_guarded [OF g]
  obtain rc w1 where cap: "startProcessing_capture w = (rc, w1)"
    by (cases "startProcessing_capture w")
  from capture_caller [OF q] cap
  have s1: "states_set (caller w1) = states_set (caller w) @ [analyzing_state]"
    and q1: "interleaved w1 = []"
    by (simp_all add: set_state_def)
  show ?thesis
  proof (cases rc)
    case Pending
    with run cap have "w' = w1"
      unfolding guarded startProcessing_try_def by (simp add: try_catch_def bind_def)
    with s1 show ?thesis by (intro exI [of _ "[analyzing_state]"]) simp
  next
    case (Threw e)
    with run cap have "w' = failed_run e w1"
      unfolding guarded startProcessing_try_def
      by (simp add: try_catch_def bind_def failed_run_eq)
    with s1 have "states_set (caller w') = states_set (caller w) @ [analyzing_state, failed_state e]"
      by (simp add: failed_run_def set_state_def)
    then show ?thesis by (intro exI [of _ "[analyzing_state, failed_state e]"]) simp
  next
    case (Returned f)
    with cap have cap': "startProcessing_capture w = (Returned f, w1)" by simp
    note run1 = run_capture_done [OF g cap']
    obtain rd w2 where des: "startProcessing_describe vd f w1 = (rd, w2)"
      by (cases "startProcessing_describe vd f w1")
    from describe_caller [OF q1, of vd f] des s1
    have s2: "states_set (caller w2) = states_set (caller w) @ [analyzing_state]"
      and q2: "interleaved w2 = []" by simp_all
    show ?thesis
    proof (cases rd)
      case Pending
      with run des have "w' = w2" unfolding run1 by (simp add: try_catch_def bind_def)
      with s2 show ?thesis by (intro exI [of _ "[analyzing_state]"]) simp
    next
      case (Threw e)
      with run des have "w' = failed_run e w2"
        unfolding run1 by (simp add: try_catch_def bind_def failed_run_eq)
      with s2 have "states_set (caller w') = states_set (caller w) @ [analyzing_state, failed_state e]"
        by (simp add: failed_run_def set_state_def)
      then show ?thesis by (intro exI [of _ "[analyzing_state, failed_state e]"]) simp
    next
      case (Returned p)
      with des have des': "startProcessing_describe vd f w1 = (Returned p, w2)" by simp
      obtain rk w3 where cl: "startProcessing_clean f w2 = (rk, w3)"
        by (cases "startProcessing_clean f w2")
      from clean_caller [OF q2, of f] cl s2
      have s3: "states_set (caller w3) = states_set (caller w) @ [analyzing_state, cleaning_state]"
        and q3: "interleaved w3 = []"
        by (simp_all add: set_state_def)
      show ?thesis
      proof (cases rk)
        case Pending
        with run des' cl have "w' = w3" unfolding run1 by (simp add: try_catch_def bind_def)
        with s3 show ?thesis by (intro exI [of _ "[analyzing_state, cleaning_state]"]) simp
      next
        case (Threw e)
        with run des' cl have "w' = failed_run e w3"
          unfolding run1 by (simp add: try_catch_def bind_def failed_run_eq)
        with s3 have "states_set (caller w')
            = states_set (caller w) @ [analyzing_state, cleaning_state, failed_state e]"
          by (simp add: failed_run_def set_state_def)
        then show ?thesis
          by (intro exI [of _ "[analyzing_state, cleaning_state, failed_state e]"]) simp
      next
        case (Returned c)
        with cl have cl': "startProcessing_clean f w2 = (Returned c, w3)" by simp
        have "startProcessing w = try_catch (startProcessing_generate c p) startProcessing_catch w3"
          unfolding run1 using des' cl' by (simp add: try_catch_def bind_def)
        with run have "try_catch (startProcessing_generate c p) startProcessing_catch w3 = (r, w')"
          by simp
        from generate_step_states [OF this q3] s3 obtain msgs tail where
          st: "states_set (caller w') = states_set (caller w)
              @ ([analyzing_state, cleaning_state, generating_state]
                  @ map (\<lambda>msg. generating_state\<lparr>message := msg\<rparr>) msgs @ tail)"
          and tl: "tail = [] \<or> tail = [completed_state] \<or> (\<exists>e. tail = [failed_state e])"
          by auto
        have srt: "sorted (map (\<lambda>s. status_rank (status s))
            ([analyzing_state, cleaning_state, generating_state]
                  @ map (\<lambda>msg. generating_state\<lparr>message := msg\<rparr>) msgs @ tail))"
          using tl by (auto simp: sorted_append o_def sorted_map_const)
        have nid: "idle \<notin> status ` set ([analyzing_state, cleaning_state, generating_state]
                  @ map (\<lambda>msg. generating_state\<lparr>message := msg\<rparr>) msgs @ tail)"
          using tl by auto
        with st srt show ?thesis by blast
      qed
    qed
  qed
qed

lemma remdups_adj_generating:
  "remdups_adj (generating # map (\<lambda>msg. generating) msgs @ [completed]) = [generating, completed]"
  by (induction msgs) simp_all

lemma success_states:
  assumes g: "videoData (caller w) = Some vd" "truthy (previewUrl vd)" "truthy (API_KEY w) \<or> aistudio w"
    and q: "interleaved w = []"
    and st: "startProcessing_capture w = (Returned f, w1)"
      "startProcessing_describe vd f w1 = (Returned p, w2)"
      "startProcessing_clean f w2 = (Returned c, w3)"
    and gen: "generateCleanVideo c p (Some progress_message)
        (w3\<lparr>caller := set_state generating_state (caller w3)\<rparr>) = (Returned v, w4)"
  shows "\<exists>msgs. states_set (caller (snd (startProcessing w)))
       = states_set (caller w) @ [analyzing_state, cleaning_state, generating_state]
           @ map (\<lambda>msg. generating_state\<lparr>message := msg\<rparr>) msgs @ [completed_state]"
proof -
  have tv: "truthy v" using gen by (rule generateCleanVideo_Returned_truthy)
  note run = run_generate_Returned [OF g st gen tv]
  from capture_caller [OF q] st(1)
  have s1: "states_set (caller w1) = states_set (caller w) @ [analyzing_state]"
    and q1: "interleaved w1 = []"
    by (simp_all add: set_state_def)
  from describe_caller [OF q1, of vd f] st(2) s1
  have s2: "states_set (caller w2) = states_set (caller w) @ [analyzing_state]"
    and q2: "interleaved w2 = []" by simp_all
  from clean_caller [OF q2, of f] st(3) s2
  have s3: "states_set (caller w3) = states_set (caller w) @ [analyzing_state, cleaning_state]"
    and q3: "interleaved w3 = []"
    by (simp_all add: set_state_def)
  have qg: "interleaved (w3\<lparr>caller := set_state generating_state (caller w3)\<rparr>) = []"
    using q3 by simp
  from generate_caller [OF qg, of c p] gen s3
  obtain msgs where "states_set (caller w4)
      = states_set (caller w) @ [analyzing_state, cleaning_state, generating_state]
           @ map (\<lambda>msg. generating_state\<lparr>message := msg\<rparr>) msgs"
    by (auto simp: set_state_def)
  then have "states_set (caller (snd (startProcessing w)))
       = states_set (caller w) @ [analyzing_state, cleaning_state, generating_state]
           @ map (\<lambda>msg. generating_state\<lparr>message := msg\<rparr>) msgs @ [completed_state]"
    by (simp add: run set_state_def)
  then show ?thesis by blast
qed

subsection \<open>Runs during which handlers of the page run\<close>

lemma adds_trans:
  assumes "adds_no_generating a b" "adds_no_generating b c"
  shows "adds_no_generating a c"
proof -
  from assms obtain s1 s2 where "states_set b = states_set a @ s1" "generating \<notin> status ` set s1"
    "states_set c = states_set b @ s2" "generating \<notin> status ` set s2"
    unfolding adds_no_generating_def by blast
  then have "states_set c = states_set a @ (s1 @ s2) \<and> generating \<notin> status ` set (s1 @ s2)"
    by auto
  then show ?thesis unfolding adds_no_generating_def by blast
qed

lemma adds_set_state:
  assumes "status s \<noteq> generating"
  shows "adds_no_generating a (set_state s a)"
  unfolding adds_no_generating_def
  by (rule exI [of _ "[s]"]) (simp add: set_state_def assms [symmetric])

lemma steps_resets:
  assumes "steps only_resets (\<lambda>msg a. a) a b"
  shows "\<exists>ss. states_set b = states_set a @ ss \<and> set ss \<subseteq> {idle_state}"
  using assms
proof (induction rule: steps.induct)
  case (steps_refl a)
  show ?case by (rule exI [of _ "[]"]) simp
next
  case (steps_report a b msg)
  then show ?case by simp
next
  case (steps_handler a b h)
  then obtain s1 where s1: "states_set b = states_set a @ s1" "set s1 \<subseteq> {idle_state}" by blast
  from steps_handler.hyps(2) obtain s2 where
    s2: "states_set (h b) = states_set b @ s2" "set s2 \<subseteq> {idle_state}"
    unfolding only_resets_def by blast
  from s1 s2 have "states_set (h b) = states_set a @ (s1 @ s2) \<and> set (s1 @ s2) \<subseteq> {idle_state}"
    by simp
  then show ?case by blast
qed

lemma steps_adds:
  assumes "steps only_resets (\<lambda>msg a. a) a b"
  shows "adds_no_generating a b"
proof -
  from steps_resets [OF assms] obtain ss where
    ss: "states_set b = states_set a @ ss" "set ss \<subseteq> {idle_state}" by blast
  have "generating \<notin> status ` set ss"
  proof
    assume "generating \<in> status ` set ss"
    then obtain s where "s \<in> set ss" "status s = generating" by auto
    with ss(2) have "status idle_state = generating" by auto
    then show False by simp
  qed
  with ss(1) show ?thesis unfolding adds_no_generating_def by blast
qed

lemma moves_adds:
  assumes m: "caller_moves only_resets (\<lambda>msg a. a) m"
    and h: "list_all only_resets (interleaved w)"
  shows "adds_no_generating (caller w) (caller (snd (m w)))"
    and "list_all only_resets (interleaved (snd (m w)))"
  using caller_movesD [OF m h] by (simp_all add: steps_adds)

lemma handle_resets: "only_resets (handle ev)"
proof (cases ev)
  case (VideoSelected d)
  have "\<exists>ss. states_set (handleVideoSelected d a) = states_set a @ ss \<and> set ss \<subseteq> {idle_state}"
    for a
    by (rule exI [of _ "[idle_state]"]) (simp add: handleVideoSelected_def set_state_def)
  then show ?thesis using VideoSelected by (simp add: only_resets_def)
next
  case ChangeVideoClicked
  have "\<exists>ss. states_set (changeVideo a) = states_set a @ ss \<and> set ss \<subseteq> {idle_state}" for a
    by (rule exI [of _ "[]"]) (simp add: changeVideo_def)
  then show ?thesis using ChangeVideoClicked by (simp add: only_resets_def)
next
  case TryAgainClicked
  have "\<exists>ss. states_set (tryAgain a) = states_set a @ ss \<and> set ss \<subseteq> {idle_state}" for a
    by (rule exI [of _ "[idle_state]"]) (simp add: tryAgain_def set_state_def)
  then show ?thesis using TryAgainClicked by (simp add: only_resets_def)
qed

lemma handled_resets: "only_resets (handled evs)"
proof (induction evs rule: rev_induct)
  case Nil
  have "\<exists>ss. states_set (handled [] a) = states_set a @ ss \<and> set ss \<subseteq> {idle_state}" for a
    by (rule exI [of _ "[]"]) (simp add: handled_def)
  then show ?case by (simp add: only_resets_def)
next
  case (snoc ev evs)
  have "\<exists>ss. states_set (handled (evs @ [ev]) a) = states_set a @ ss \<and> set ss \<subseteq> {idle_state}"
    for a
  proof -
    from snoc.IH obtain s1 where
      s1: "states_set (handled evs a) = states_set a @ s1" "set s1 \<subseteq> {idle_state}"
      unfolding only_resets_def by blast
    from handle_resets [of ev] obtain s2 where
      s2: "states_set (handle ev (handled evs a)) = states_set (handled evs a) @ s2"
        "set s2 \<subseteq> {idle_state}"
      unfolding only_resets_def by blast
    have "handled (evs @ [ev]) a = handle ev (handled evs a)" by (simp add: handled_def)
    with s1 s2 have "states_set (handled (evs @ [ev]) a) = states_set a @ (s1 @ s2)
        \<and> set (s1 @ s2) \<subseteq> {idle_state}" by simp
    then show ?thesis by blast
  qed
  then show ?case by (simp add: only_resets_def)
qed

lemma script_resets: "list_all only_resets (map handled script)"
  by (induction script) (simp_all add: handled_resets)

lemma capture_adds:
  assumes h: "list_all only_resets (interleaved w)"
  shows "adds_no_generating (caller w) (caller (snd (startProcessing_capture w)))"
    and "list_all only_resets (interleaved (snd (startProcessing_capture w)))"
proof -
  let ?wa = "w\<lparr>caller := set_state analyzing_state (caller w)\<rparr>"
  have ha: "list_all only_resets (interleaved ?wa)" using h by simp
  have a1: "adds_no_generating (caller w) (caller ?wa)"
    using adds_set_state [of analyzing_state "caller w"] by simp
  from resume_steps [OF ha, of "\<lambda>msg a. a"]
  have a2: "adds_no_generating (caller ?wa) (caller (resume ?wa))"
    and h2: "list_all only_resets (interleaved (resume ?wa))"
    by (simp_all add: steps_adds)
  from a1 a2 have a3: "adds_no_generating (caller w) (caller (resume ?wa))" by (rule adds_trans)
  from capture_world [of w]
  show "adds_no_generating (caller w) (caller (snd (startProcessing_capture w)))"
    using a1 a3 by auto
  from capture_world [of w]
  show "list_all only_resets (interleaved (snd (startProcessing_capture w)))"
    using ha h2 by auto
qed

lemma clean_adds:
  assumes h: "list_all only_resets (interleaved w)"
  shows "adds_no_generating (caller w) (caller (snd (startProcessing_clean f w)))"
    and "list_all only_resets (interleaved (snd (startProcessing_clean f w)))"
proof -
  let ?wa = "w\<lparr>caller := set_state cleaning_state (caller w)\<rparr>"
  have ha: "list_all only_resets (interleaved ?wa)" using h by simp
  have a1: "adds_no_generating (caller w) (caller ?wa)"
    using adds_set_state [of cleaning_state "caller w"] by simp
  from moves_adds [OF moves_cleanFrame ha, of f "''image/png''"]
  have a2: "adds_no_generating (caller ?wa) (caller (snd (startProcessing_clean f w)))"
    and h2: "list_all only_resets (interleaved (snd (startProcessing_clean f w)))"
    by (simp_all add: clean_eq)
  from a1 a2 show "adds_no_generating (caller w) (caller (snd (startProcessing_clean f w)))"
    by (rule adds_trans)
  show "list_all only_resets (interleaved (snd (startProcessing_clean f w)))" by (rule h2)
qed

lemma failed_adds: "adds_no_generating (caller w) (caller (failed_run e w))"
  using adds_set_state [of "failed_state e" "caller w"] by (simp add: failed_run_def)

lemma adds_new:
  assumes "adds_no_generating a b" "states_set b = states_set a @ new"
  shows "generating \<notin> status ` set new"
  using assms unfolding adds_no_generating_def by auto

text \<open>What \<^verbatim>\<open>cleanFrame\<close> returns.\<close>

lemma getAiClient_keeps_images:
  "generateImages_replies (snd (getAiClient w)) = generateImages_replies w"
  by (simp add: getAiClient_def bind_def ret_def hasSelectedApiKey_def openSelectKey_def
      settle_def Let_def split: list.splits reply.splits)

lemma generateContent_keeps_images:
  "generateImages_replies (snd (generateContent r w)) = generateImages_replies w"
  by (simp add: generateContent_def settle_def Let_def split: list.splits reply.splits)

lemma generateImages_Returned_D:
  "generateImages req w = (Returned resp, w') \<Longrightarrow>
     \<exists>rest. generateImages_replies w = Resolve resp # rest"
  by (auto simp: generateImages_def settle_def Let_def split: list.splits reply.splits)

lemma first_image_bytes_Returned_D:
  "first_image_bytes resp w = (Returned c, w') \<Longrightarrow> bytes_of_first_image resp c"
  by (auto simp: first_image_bytes_def bytes_of_first_image_def throw_def ret_def
      split: option.splits list.splits)

lemma cleanFrame_Returned_D:
  assumes "cleanFrame img mime w = (Returned c, w')"
  shows "\<exists>resp rest. generateImages_replies w = Resolve resp # rest \<and> bytes_of_first_image resp c"
proof -
  from assms obtain ai wa where a: "getAiClient w = (Returned ai, wa)"
    and k1: "bind (generateContent (remove_request img mime)) (\<lambda>response.
       bind (generateContent (describe_request img mime)) (\<lambda>descriptionResponse.
       bind (generateImages (imagen_request
          (or_else (resp_text descriptionResponse) ''A clean video frame'')))
         first_image_bytes)) wa = (Returned c, w')"
    unfolding cleanFrame_def Let_def by (blast dest: bind_Returned_D)
  from k1 obtain r1 wb where b: "generateContent (remove_request img mime) wa = (Returned r1, wb)"
    and k2: "bind (generateContent (describe_request img mime)) (\<lambda>descriptionResponse.
       bind (generateImages (imagen_request
          (or_else (resp_text descriptionResponse) ''A clean video frame'')))
         first_image_bytes) wb = (Returned c, w')"
    by (blast dest: bind_Returned_D)
  from k2 obtain r2 wc where c: "generateContent (describe_request img mime) wb = (Returned r2, wc)"
    and k3: "bind (generateImages (imagen_request (or_else (resp_text r2) ''A clean video frame'')))
         first_image_bytes wc = (Returned c, w')"
    by (blast dest: bind_Returned_D)
  from k3 obtain resp wd where
    d: "generateImages (imagen_request (or_else (resp_text r2) ''A clean video frame'')) wc
        = (Returned resp, wd)"
    and e: "first_image_bytes resp wd = (Returned c, w')"
    by (blast dest: bind_Returned_D)
  from d obtain rest where r: "generateImages_replies wc = Resolve resp # rest"
    by (blast dest: generateImages_Returned_D)
  have "generateImages_replies wa = generateImages_replies w"
    using getAiClient_keeps_images [of w] a by simp
  moreover have "generateImages_replies wb = generateImages_replies wa"
    using generateContent_keeps_images [of "remove_request img mime" wa] b by simp
  moreover have "generateImages_replies wc = generateImages_replies wb"
    using generateContent_keeps_images [of "describe_request img mime" wb] c by simp
  ultimately have "generateImages_replies w = Resolve resp # rest" using r by simp
  moreover from e have "bytes_of_first_image resp c" by (rule first_image_bytes_Returned_D)
  ultimately show ?thesis by blast
qed

lemma clean_Returned_D:
  assumes "startProcessing_clean f w = (Returned c, w')"
  shows "\<exists>resp rest. generateImages_replies w = Resolve resp # rest \<and> bytes_of_first_image resp c"
  using cleanFrame_Returned_D [of f "''image/png''" "w\<lparr>caller := set_state cleaning_state (caller w)\<rparr>"
      c w'] assms
  by (simp add: clean_eq)

text \<open>A run that sets a state with the status "generating" has passed its first three steps.\<close>

lemma generating_reached:
  assumes run: "startProcessing w = (r, w')"
    and h: "list_all only_resets (interleaved w)"
    and new: "states_set (caller w') = states_set (caller w) @ new"
    and gen: "generating \<in> status ` set new"
  shows "\<exists>vd f w1 p w2 c w3. videoData (caller w) = Some vd
             \<and> startProcessing_capture w = (Returned f, w1)
             \<and> startProcessing_describe vd f w1 = (Returned p, w2)
             \<and> startProcessing_clean f w2 = (Returned c, w3)"
proof (cases "\<exists>vd. videoData (caller w) = Some vd \<and> truthy (previewUrl vd)
    \<and> (truthy (API_KEY w) \<or> aistudio w)")
  case False
  then have "caller (snd (startProcessing w)) = caller w"
    by (auto simp: startProcessing_def ret_def bind_def emit_def split: option.splits)
  with run new have "new = []" by simp
  with gen show ?thesis by simp
next
  case True
  then obtain vd where g: "videoData (caller w) = Some vd" "truthy (previewUrl vd)"
    "truthy (API_KEY w) \<or> aistudio w" by blast
  note guarded = startProcessing_guarded [OF g]
  obtain rc w1 where cap: "startProcessing_capture w = (rc, w1)"
    by (cases "startProcessing_capture w")
  from capture_adds [OF h] cap
  have a1: "adds_no_generating (caller w) (caller w1)"
    and h1: "list_all only_resets (interleaved w1)" by simp_all
  show ?thesis
  proof (cases rc)
    case Pending
    with run cap have "w' = w1"
      unfolding guarded startProcessing_try_def by (simp add: try_catch_def bind_def)
    with a1 new have "generating \<notin> status ` set new" by (auto dest: adds_new)
    with gen show ?thesis by simp
  next
    case (Threw e)
    with run cap have "w' = failed_run e w1"
      unfolding guarded startProcessing_try_def
      by (simp add: try_catch_def bind_def failed_run_eq)
    with adds_trans [OF a1 failed_adds [of w1 e]] new
    have "generating \<notin> status ` set new" by (auto dest: adds_new)
    with gen show ?thesis by simp
  next
    case (Returned f)
    with cap have cap': "startProcessing_capture w = (Returned f, w1)" by simp
    note run1 = run_capture_done [OF g cap']
    obtain rd w2 where des: "startProcessing_describe vd f w1 = (rd, w2)"
      by (cases "startProcessing_describe vd f w1")
    from moves_adds [OF moves_describe h1, of vd f] des
    have "adds_no_generating (caller w1) (caller w2)"
      and h2: "list_all only_resets (interleaved w2)" by simp_all
    with a1 have a2: "adds_no_generating (caller w) (caller w2)" by (auto intro: adds_trans)
    show ?thesis
    proof (cases rd)
      case Pending
      with run des have "w' = w2" unfolding run1 by (simp add: try_catch_def bind_def)
      with a2 new have "generating \<notin> status ` set new" by (auto dest: adds_new)
      with gen show ?thesis by simp
    next
      case (Threw e)
      with run des have "w' = failed_run e w2"
        unfolding run1 by (simp add: try_catch_def bind_def failed_run_eq)
      with adds_trans [OF a2 failed_adds [of w2 e]] new
      have "generating \<notin> status ` set new" by (auto dest: adds_new)
      with gen show ?thesis by simp
    next
      case (Returned p)
      with des have des': "startProcessing_describe vd f w1 = (Returned p, w2)" by simp
      obtain rk w3 where cl: "startProcessing_clean f w2 = (rk, w3)"
        by (cases "startProcessing_clean f w2")
      from clean_adds [OF h2, of f] cl
      have "adds_no_generating (caller w2) (caller w3)" by simp
      with a2 have a3: "adds_no_generating (caller w) (caller w3)" by (auto intro: adds_trans)
      show ?thesis
      proof (cases rk)
        case Pending
        with run des' cl have "w' = w3" unfolding run1 by (simp add: try_catch_def bind_def)
        with a3 new have "generating \<notin> status ` set new" by (auto dest: adds_new)
        with gen show ?thesis by simp
      next
        case (Threw e)
        with run des' cl have "w' = failed_run e w3"
          unfolding run1 by (simp add: try_catch_def bind_def failed_run_eq)
        with adds_trans [OF a3 failed_adds [of w3 e]] new
        have "generating \<notin> status ` set new" by (auto dest: adds_new)
        with gen show ?thesis by simp
      next
        case (Returned c)
        with cl have "startProcessing_clean f w2 = (Returned c, w3)" by simp
        with g(1) cap' des' show ?thesis by blast
      qed
    qed
  qed
qed

section \<open>The status of a run\<close>

lemma sample_quiet: "interleaved sample_world = []"
  by (simp add: sample_world_def)

lemma sample_completed:
  "processingState (caller (snd (startProcessing sample_world))) = completed_state"
proof -
  have gen: "generateCleanVideo (Str ''iVBORclean'') ''A red kite over dunes.'' (Some progress_message)
      ((after_clean sample_upload ''iVBORw0KGgo='' sample_world)
         \<lparr>caller := set_state generating_state
            (caller (after_clean sample_upload ''iVBORw0KGgo='' sample_world))\<rparr>)
       = (Returned (Str ''https://videos.example/v1?alt=media&key=k1''),
          snd (generateCleanVideo (Str ''iVBORclean'') ''A red kite over dunes.'' (Some progress_message)
            (at_generate sample_upload ''iVBORw0KGgo='' sample_world)))"
    using sample_generate by (simp add: at_generate_def)
  have tv: "truthy (Str ''https://videos.example/v1?alt=media&key=k1'')" by simp
  show ?thesis
    unfolding run_generate_Returned [OF sample_guards sample_stage1 sample_stage2 sample_stage3 gen tv]
    by (simp add: set_state_def)
qed

lemma reselect_handlers: "interleaved reselect_world = map handled reselect_script"
  by (simp add: reselect_world_def)

lemma reselect_initial: "states_set (caller reselect_world) = []"
  "status (processingState (caller reselect_world)) = idle"
  by (simp_all add: reselect_world_def sample_world_def sample_app_def idle_state_def)

lemma reselect_facts:
  "\<exists>W. startProcessing reselect_world = (Returned (), W)
     \<and> processingState (caller W) = completed_state
     \<and> resultVideoUrl (caller W) = Str ''https://videos.example/v1?alt=media&key=k1''
     \<and> states_set (caller W) =
     [analyzing_state, cleaning_state, generating_state,
      generating_state\<lparr>message := ''Initializing generation model...''\<rparr>,
      generating_state\<lparr>message := ''Video generation started. This may take a moment...''\<rparr>,
      generating_state\<lparr>message := ''Rendering video frames...''\<rparr>,
      idle_state,
      idle_state\<lparr>message := ''Rendering video frames...''\<rparr>,
      completed_state]"
  by (simp add: reselect_world_def reselect_script_def handler_defs io_defs service_defs app_defs
      sample_defs poll.simps analyzing_state_def cleaning_state_def generating_state_def
      completed_state_def)

lemma reselect_run:
  "startProcessing reselect_world = (Returned (), snd (startProcessing reselect_world))"
  using reselect_facts by (auto intro: pair_fst)

lemma reselect_run_states:
  "states_set (caller (snd (startProcessing reselect_world)))
   = states_set (caller reselect_world) @
     [analyzing_state, cleaning_state, generating_state,
      generating_state\<lparr>message := ''Initializing generation model...''\<rparr>,
      generating_state\<lparr>message := ''Video generation started. This may take a moment...''\<rparr>,
      generating_state\<lparr>message := ''Rendering video frames...''\<rparr>,
      idle_state,
      idle_state\<lparr>message := ''Rendering video frames...''\<rparr>,
      completed_state]"
  using reselect_facts by (auto simp: reselect_initial)

lemma no_bytes_clean:
  "startProcessing_clean ''iVBORw0KGgo=''
       (after_describe sample_upload ''iVBORw0KGgo='' no_bytes_world)
     = (Returned Undefined, after_clean sample_upload ''iVBORw0KGgo='' no_bytes_world)"
  unfolding after_clean_def
  by (rule pair_fst)
     (simp add: no_bytes_world_def stage_defs io_defs service_defs app_defs sample_defs)

lemma empty_bytes_clean:
  "startProcessing_clean ''iVBORw0KGgo=''
       (after_describe sample_upload ''iVBORw0KGgo='' empty_bytes_world)
     = (Returned (Str []), after_clean sample_upload ''iVBORw0KGgo='' empty_bytes_world)"
  unfolding after_clean_def
  by (rule pair_fst)
     (simp add: empty_bytes_world_def stage_defs io_defs service_defs app_defs sample_defs)

lemma no_bytes_facts:
  "\<exists>W. startProcessing no_bytes_world = (Returned (), W)
     \<and> states_set (caller W)
       = [analyzing_state, cleaning_state, generating_state,
          generating_state\<lparr>message := ''Initializing generation model...''\<rparr>,
          generating_state\<lparr>message := ''Video generation started. This may take a moment...''\<rparr>,
          generating_state\<lparr>message := ''Rendering video frames...''\<rparr>,
          generating_state\<lparr>message := ''Rendering video frames...''\<rparr>,
          completed_state]
     \<and> GenerateVideos (veo_request Undefined ''A red kite over dunes.'') \<in> set (log W)"
  by (simp add: no_bytes_world_def io_defs service_defs app_defs sample_defs poll.simps
      analyzing_state_def cleaning_state_def generating_state_def completed_state_def)

lemma empty_bytes_facts:
  "\<exists>W. startProcessing empty_bytes_world = (Returned (), W)
     \<and> GenerateVideos (veo_request (Str []) ''A red kite over dunes.'') \<in> set (log W)"
  by (simp add: empty_bytes_world_def io_defs service_defs app_defs sample_defs poll.simps)

text \<open>
  C6, as stated, fails in its second condition: when the image model answers with an
  image that has no bytes, or empty bytes, the clean-frame step returns that value, and
  the run sets the status "generating" and requests the video with it: the value is not
  tested, and no frame payload has been produced.
\<close>

theorem generating_without_frame_payload:
  "startProcessing_clean ''iVBORw0KGgo=''
       (after_describe sample_upload ''iVBORw0KGgo='' no_bytes_world)
     = (Returned Undefined, after_clean sample_upload ''iVBORw0KGgo='' no_bytes_world)
   \<and> \<not> truthy Undefined
   \<and> states_set (caller (snd (startProcessing no_bytes_world)))
     = [analyzing_state, cleaning_state, generating_state,
        generating_state\<lparr>message := ''Initializing generation model...''\<rparr>,
        generating_state\<lparr>message := ''Video generation started. This may take a moment...''\<rparr>,
        generating_state\<lparr>message := ''Rendering video frames...''\<rparr>,
        generating_state\<lparr>message := ''Rendering video frames...''\<rparr>,
        completed_state]
   \<and> status generating_state = generating
   \<and> GenerateVideos (veo_request Undefined ''A red kite over dunes.'')
       \<in> set (log (snd (startProcessing no_bytes_world)))
   \<and> startProcessing_clean ''iVBORw0KGgo=''
       (after_describe sample_upload ''iVBORw0KGgo='' empty_bytes_world)
     = (Returned (Str []), after_clean sample_upload ''iVBORw0KGgo='' empty_bytes_world)
   \<and> \<not> truthy (Str [])
   \<and> GenerateVideos (veo_request (Str []) ''A red kite over dunes.'')
       \<in> set (log (snd (startProcessing empty_bytes_world)))"
proof -
  from no_bytes_facts obtain W where
    "startProcessing no_bytes_world = (Returned (), W)"
    and c3': "states_set (caller W)
       = [analyzing_state, cleaning_state, generating_state,
          generating_state\<lparr>message := ''Initializing generation model...''\<rparr>,
          generating_state\<lparr>message := ''Video generation started. This may take a moment...''\<rparr>,
          generating_state\<lparr>message := ''Rendering video frames...''\<rparr>,
          generating_state\<lparr>message := ''Rendering video frames...''\<rparr>,
          completed_state]"
    and c5': "GenerateVideos (veo_request Undefined ''A red kite over dunes.'') \<in> set (log W)"
    by blast
  then have w: "snd (startProcessing no_bytes_world) = W" by simp
  from empty_bytes_facts obtain V where
    "startProcessing empty_bytes_world = (Returned (), V)"
    and c8': "GenerateVideos (veo_request (Str []) ''A red kite over dunes.'') \<in> set (log V)"
    by blast
  then have v: "snd (startProcessing empty_bytes_world) = V" by simp
  have c2: "\<not> truthy Undefined" and c4: "status generating_state = generating"
    and c7: "\<not> truthy (Str [])"
    by simp_all
  show ?thesis
    unfolding w v by (intro conjI no_bytes_clean c2 c3' c4 c5' empty_bytes_clean c7 c8')
qed

text \<open>
  C6 (amended): in every run of \<^verbatim>\<open>startProcessing\<close>, whatever its outcome and whatever
  handlers of the page (selection of a video, "Change Video", "Try Again") run while it
  is suspended, if one of the states set in its course has the status "generating", then
  before that the frame was captured, the describe step returned a description that is
  not empty, and the clean-frame step returned. What the clean-frame step returned is the
  value \<^verbatim>\<open>imageBytes\<close> of the first image of the answer of the image model, whatever it
  is.
\<close>

theorem generating_needs_description_and_frame:
  assumes run: "startProcessing w = (r, w')"
    and hs: "interleaved w = map handled script"
    and new: "states_set (caller w') = states_set (caller w) @ new"
    and gen: "generating \<in> status ` set new"
  shows "\<exists>vd f w1 p w2 c w3 resp rest. videoData (caller w) = Some vd
             \<and> startProcessing_capture w = (Returned f, w1)
             \<and> startProcessing_describe vd f w1 = (Returned p, w2) \<and> p \<noteq> []
             \<and> startProcessing_clean f w2 = (Returned c, w3)
             \<and> generateImages_replies w2 = Resolve resp # rest
             \<and> bytes_of_first_image resp c"
proof -
  have h: "list_all only_resets (interleaved w)"
    unfolding hs by (rule script_resets)
  from generating_reached [OF run h new gen] obtain vd f w1 p w2 c w3 where
    v: "videoData (caller w) = Some vd"
    and s1: "startProcessing_capture w = (Returned f, w1)"
    and s2: "startProcessing_describe vd f w1 = (Returned p, w2)"
    and s3: "startProcessing_clean f w2 = (Returned c, w3)"
    by blast
  have pne: "p \<noteq> []" using s2 by (rule describe_nonempty)
  from clean_Returned_D [OF s3] obtain resp rest where
    "generateImages_replies w2 = Resolve resp # rest" "bytes_of_first_image resp c"
    by blast
  with v s1 s2 pne s3 show ?thesis by blast
qed

theorem generating_needs_description_and_frame_witness:
  "startProcessing reselect_world = (Returned (), snd (startProcessing reselect_world))
   \<and> interleaved reselect_world = map handled reselect_script
   \<and> states_set (caller (snd (startProcessing reselect_world)))
     = states_set (caller reselect_world) @
     [analyzing_state, cleaning_state, generating_state,
      generating_state\<lparr>message := ''Initializing generation model...''\<rparr>,
      generating_state\<lparr>message := ''Video generation started. This may take a moment...''\<rparr>,
      generating_state\<lparr>message := ''Rendering video frames...''\<rparr>,
      idle_state,
      idle_state\<lparr>message := ''Rendering video frames...''\<rparr>,
      completed_state]
   \<and> status generating_state = generating
   \<and> (\<exists>vd f w1 p w2 c w3 resp rest. videoData (caller reselect_world) = Some vd
             \<and> startProcessing_capture reselect_world = (Returned f, w1)
             \<and> startProcessing_describe vd f w1 = (Returned p, w2) \<and> p \<noteq> []
             \<and> startProcessing_clean f w2 = (Returned c, w3)
             \<and> generateImages_replies w2 = Resolve resp # rest
             \<and> bytes_of_first_image resp c)"
proof -
  have g: "generating \<in> status ` set
     [analyzing_state, cleaning_state, generating_state,
      generating_state\<lparr>message := ''Initializing generation model...''\<rparr>,
      generating_state\<lparr>message := ''Video generation started. This may take a moment...''\<rparr>,
      generating_state\<lparr>message := ''Rendering video frames...''\<rparr>,
      idle_state,
      idle_state\<lparr>message := ''Rendering video frames...''\<rparr>,
      completed_state]"
    by simp
  note t = generating_needs_description_and_frame [OF reselect_run reselect_handlers
      reselect_run_states g]
  have s: "status generating_state = generating" by simp
  show ?thesis by (intro conjI reselect_run reselect_handlers reselect_run_states s t)
qed

text \<open>
  C7 (amended): every run in which all stages succeed ends in the completed state
  (progress 100), and the final state holds the result URL, which is not empty. When the
  run was started in the idle state and no handler of the page runs while it is
  suspended, the states set are, in this order: analyzing (progress 10), cleaning_frame
  (40), generating (60), copies of the generating state that differ in the message only,
  and completed (100); so the status goes idle, analyzing, cleaning_frame, generating,
  completed, and the progress never decreases. In every run without such handlers,
  whatever its outcome, the statuses set never go back along the enumeration and none is
  idle. The status is reset to idle by the retry action, and also by the selection of a
  video, from any status.
\<close>

theorem status_sequence_of_a_run:
  assumes g: "videoData (caller w) = Some vd" "truthy (previewUrl vd)" "truthy (API_KEY w) \<or> aistudio w"
    and init: "status (processingState (caller w)) = idle"
    and st: "startProcessing_capture w = (Returned f, w1)"
      "startProcessing_describe vd f w1 = (Returned p, w2)"
      "startProcessing_clean f w2 = (Returned c, w3)"
    and gen: "generateCleanVideo c p (Some progress_message)
        (w3\<lparr>caller := set_state generating_state (caller w3)\<rparr>) = (Returned v, w4)"
  shows "(interleaved w = [] \<longrightarrow>
       (\<exists>msgs. states_set (caller (snd (startProcessing w)))
         = states_set (caller w) @ [analyzing_state, cleaning_state, generating_state]
             @ map (\<lambda>msg. generating_state\<lparr>message := msg\<rparr>) msgs @ [completed_state])
       \<and> remdups_adj (map status (processingState (caller w) #
            drop (length (states_set (caller w))) (states_set (caller (snd (startProcessing w))))))
          = [idle, analyzing, cleaning_frame, generating, completed]
       \<and> sorted (map (\<lambda>s. the (progress s))
            (drop (length (states_set (caller w))) (states_set (caller (snd (startProcessing w)))))))
    \<and> map progress [analyzing_state, cleaning_state, generating_state, completed_state]
        = [Some 10, Some 40, Some 60, Some 100]
    \<and> fst (startProcessing w) = Returned ()
    \<and> processingState (caller (snd (startProcessing w))) = completed_state
    \<and> resultVideoUrl (caller (snd (startProcessing w))) = v \<and> truthy v
    \<and> (startProcessing w0 = (r0, w0') \<and> interleaved w0 = [] \<longrightarrow>
         (\<exists>new. states_set (caller w0') = states_set (caller w0) @ new
            \<and> sorted (map (\<lambda>s. status_rank (status s)) new) \<and> idle \<notin> status ` set new))
    \<and> status (processingState (tryAgain a)) = idle
    \<and> status (processingState (handleVideoSelected d a)) = idle"
proof -
  have tv: "truthy v" using gen by (rule generateCleanVideo_Returned_truthy)
  note run = run_generate_Returned [OF g st gen tv]
  have pr: "map progress [analyzing_state, cleaning_state, generating_state, completed_state]
        = [Some 10, Some 40, Some 60, Some 100]"
    by (simp add: analyzing_state_def cleaning_state_def generating_state_def completed_state_def)
  have quiet: "(\<exists>msgs. states_set (caller (snd (startProcessing w)))
         = states_set (caller w) @ [analyzing_state, cleaning_state, generating_state]
             @ map (\<lambda>msg. generating_state\<lparr>message := msg\<rparr>) msgs @ [completed_state])
       \<and> remdups_adj (map status (processingState (caller w) #
            drop (length (states_set (caller w))) (states_set (caller (snd (startProcessing w))))))
          = [idle, analyzing, cleaning_frame, generating, completed]
       \<and> sorted (map (\<lambda>s. the (progress s))
            (drop (length (states_set (caller w))) (states_set (caller (snd (startProcessing w))))))"
    if q: "interleaved w = []"
  proof -
    from success_states [OF g q st gen] obtain msgs where
      ss: "states_set (caller (snd (startProcessing w)))
         = states_set (caller w) @ [analyzing_state, cleaning_state, generating_state]
             @ map (\<lambda>msg. generating_state\<lparr>message := msg\<rparr>) msgs @ [completed_state]"
      by blast
    have dr: "drop (length (states_set (caller w))) (states_set (caller (snd (startProcessing w))))
        = [analyzing_state, cleaning_state, generating_state]
             @ map (\<lambda>msg. generating_state\<lparr>message := msg\<rparr>) msgs @ [completed_state]"
      by (simp add: ss)
    have sq: "remdups_adj (idle # map status
            ([analyzing_state, cleaning_state, generating_state]
             @ map (\<lambda>msg. generating_state\<lparr>message := msg\<rparr>) msgs @ [completed_state]))
          = [idle, analyzing, cleaning_frame, generating, completed]"
      using remdups_adj_generating [of msgs] by (simp add: o_def)
    have so: "sorted (map (\<lambda>s. the (progress s))
            ([analyzing_state, cleaning_state, generating_state]
             @ map (\<lambda>msg. generating_state\<lparr>message := msg\<rparr>) msgs @ [completed_state]))"
      by (auto simp: sorted_append analyzing_state_def cleaning_state_def generating_state_def
          completed_state_def o_def sorted_map_const)
    have c1: "\<exists>msgs. states_set (caller (snd (startProcessing w)))
         = states_set (caller w) @ [analyzing_state, cleaning_state, generating_state]
             @ map (\<lambda>msg. generating_state\<lparr>message := msg\<rparr>) msgs @ [completed_state]"
      using ss by blast
    have c2: "remdups_adj (map status (processingState (caller w) #
            drop (length (states_set (caller w))) (states_set (caller (snd (startProcessing w))))))
          = [idle, analyzing, cleaning_frame, generating, completed]"
      unfolding dr using sq init by simp
    have c3: "sorted (map (\<lambda>s. the (progress s))
            (drop (length (states_set (caller w))) (states_set (caller (snd (startProcessing w))))))"
      unfolding dr by (rule so)
    show ?thesis by (intro conjI c1 c2 c3)
  qed
  show ?thesis
  proof (intro conjI)
    show "interleaved w = [] \<longrightarrow>
       (\<exists>msgs. states_set (caller (snd (startProcessing w)))
         = states_set (caller w) @ [analyzing_state, cleaning_state, generating_state]
             @ map (\<lambda>msg. generating_state\<lparr>message := msg\<rparr>) msgs @ [completed_state])
       \<and> remdups_adj (map status (processingState (caller w) #
            drop (length (states_set (caller w))) (states_set (caller (snd (startProcessing w))))))
          = [idle, analyzing, cleaning_frame, generating, completed]
       \<and> sorted (map (\<lambda>s. the (progress s))
            (drop (length (states_set (caller w))) (states_set (caller (snd (startProcessing w))))))"
      using quiet by (rule impI)
    show "map progress [analyzing_state, cleaning_state, generating_state, completed_state]
        = [Some 10, Some 40, Some 60, Some 100]" by (rule pr)
    show "fst (startProcessing w) = Returned ()" by (simp add: run)
    show "processingState (caller (snd (startProcessing w))) = completed_state"
      by (simp add: run set_state_def)
    show "resultVideoUrl (caller (snd (startProcessing w))) = v" by (simp add: run set_state_def)
    show "truthy v" by (rule tv)
    show "status (processingState (tryAgain a)) = idle"
      by (simp add: tryAgain_def set_state_def idle_state_def)
    show "status (processingState (handleVideoSelected d a)) = idle"
      by (simp add: handleVideoSelected_def set_state_def idle_state_def)
    show "startProcessing w0 = (r0, w0') \<and> interleaved w0 = [] \<longrightarrow>
         (\<exists>new. states_set (caller w0') = states_set (caller w0) @ new
            \<and> sorted (map (\<lambda>s. status_rank (status s)) new) \<and> idle \<notin> status ` set new)"
    proof
      assume a: "startProcessing w0 = (r0, w0') \<and> interleaved w0 = []"
      from run_states [OF conjunct1 [OF a] conjunct2 [OF a]]
      show "\<exists>new. states_set (caller w0') = states_set (caller w0) @ new
            \<and> sorted (map (\<lambda>s. status_rank (status s)) new) \<and> idle \<notin> status ` set new" .
    qed
  qed
qed

text \<open>
  C7, as stated, fails. While a run is suspended the page goes on handling its events:
  when the user clicks "Change Video" and selects a video during the first sleep of the
  polling loop, the status is reset from generating to idle, and that is not the retry
  action; the progress callback then copies the idle state, all stages succeed, and the
  statuses set are analyzing, cleaning_frame, generating, idle, completed. Likewise,
  after a completed run the selection of a video sets the status back to idle.
\<close>

theorem selection_during_run_resets_status:
  "interleaved reselect_world = map handled reselect_script
   \<and> fst (startProcessing reselect_world) = Returned ()
   \<and> processingState (caller (snd (startProcessing reselect_world))) = completed_state
   \<and> truthy (resultVideoUrl (caller (snd (startProcessing reselect_world))))
   \<and> status (processingState (caller reselect_world)) = idle
   \<and> remdups_adj (map status (processingState (caller reselect_world) #
          drop (length (states_set (caller reselect_world)))
             (states_set (caller (snd (startProcessing reselect_world))))))
        = [idle, analyzing, cleaning_frame, generating, idle, completed]
   \<and> status_rank idle < status_rank generating
   \<and> status (processingState (caller (snd (startProcessing sample_world)))) = completed
   \<and> status (processingState (handleVideoSelected sample_upload
        (changeVideo (caller (snd (startProcessing sample_world)))))) = idle
   \<and> status_rank idle < status_rank completed"
proof -
  from reselect_facts obtain W where
    r: "startProcessing reselect_world = (Returned (), W)"
    and c3': "processingState (caller W) = completed_state"
    and u: "resultVideoUrl (caller W) = Str ''https://videos.example/v1?alt=media&key=k1''"
    and ss: "states_set (caller W) =
     [analyzing_state, cleaning_state, generating_state,
      generating_state\<lparr>message := ''Initializing generation model...''\<rparr>,
      generating_state\<lparr>message := ''Video generation started. This may take a moment...''\<rparr>,
      generating_state\<lparr>message := ''Rendering video frames...''\<rparr>,
      idle_state,
      idle_state\<lparr>message := ''Rendering video frames...''\<rparr>,
      completed_state]"
    by blast
  have w: "snd (startProcessing reselect_world) = W" by (simp add: r)
  have c2: "fst (startProcessing reselect_world) = Returned ()" by (simp add: r)
  have c4: "truthy (resultVideoUrl (caller W))" by (simp add: u)
  have c6: "remdups_adj (map status (processingState (caller reselect_world) #
          drop (length (states_set (caller reselect_world))) (states_set (caller W))))
        = [idle, analyzing, cleaning_frame, generating, idle, completed]"
    by (simp add: ss reselect_initial idle_state_def)
  have c7: "status_rank idle < status_rank generating"
    and c10: "status_rank idle < status_rank completed" by simp_all
  have c8: "status (processingState (caller (snd (startProcessing sample_world)))) = completed"
    by (simp add: sample_completed)
  have c9: "status (processingState (handleVideoSelected sample_upload
        (changeVideo (caller (snd (startProcessing sample_world)))))) = idle"
    by (simp add: handleVideoSelected_def set_state_def idle_state_def)
  show ?thesis
    unfolding w
    by (intro conjI reselect_handlers c2 c3' c4 reselect_initial(2) c6 c7 c8 c9 c10)
qed

theorem status_sequence_of_a_run_witness:
  "videoData (caller sample_world) = Some sample_upload \<and> truthy (previewUrl sample_upload)
   \<and> aistudio sample_world
   \<and> startProcessing_capture sample_world = (Returned ''iVBORw0KGgo='', after_capture sample_world)
   \<and> startProcessing_describe sample_upload ''iVBORw0KGgo='' (after_capture sample_world)
       = (Returned ''A red kite over dunes.'', after_describe sample_upload ''iVBORw0KGgo='' sample_world)
   \<and> startProcessing_clean ''iVBORw0KGgo='' (after_describe sample_upload ''iVBORw0KGgo='' sample_world)
       = (Returned (Str ''iVBORclean''), after_clean sample_upload ''iVBORw0KGgo='' sample_world)
   \<and> generateCleanVideo (Str ''iVBORclean'') ''A red kite over dunes.'' (Some progress_message)
         (at_generate sample_upload ''iVBORw0KGgo='' sample_world)
       = (Returned (Str ''https://videos.example/v1?alt=media&key=k1''),
          snd (generateCleanVideo (Str ''iVBORclean'') ''A red kite over dunes.'' (Some progress_message)
            (at_generate sample_upload ''iVBORw0KGgo='' sample_world)))
   \<and> status (processingState (caller sample_world)) = idle
   \<and> interleaved sample_world = []
   \<and> remdups_adj (map status (processingState (caller sample_world) #
          drop (length (states_set (caller sample_world)))
             (states_set (caller (snd (startProcessing sample_world))))))
        = [idle, analyzing, cleaning_frame, generating, completed]
   \<and> sorted (map (\<lambda>s. the (progress s))
          (drop (length (states_set (caller sample_world)))
             (states_set (caller (snd (startProcessing sample_world))))))
   \<and> processingState (caller (snd (startProcessing sample_world))) = completed_state
   \<and> resultVideoUrl (caller (snd (startProcessing sample_world)))
       = Str ''https://videos.example/v1?alt=media&key=k1''
   \<and> startProcessing blank_error_world = (Returned (), snd (startProcessing blank_error_world))
   \<and> interleaved blank_error_world = []
   \<and> (\<exists>new. states_set (caller (snd (startProcessing blank_error_world)))
            = states_set (caller blank_error_world) @ new
          \<and> sorted (map (\<lambda>s. status_rank (status s)) new) \<and> idle \<notin> status ` set new)
   \<and> status (processingState (tryAgain (caller (snd (startProcessing blank_error_world))))) = idle
   \<and> status (processingState (handleVideoSelected sample_upload
        (changeVideo (caller (snd (startProcessing sample_world)))))) = idle"
proof -
  have gen: "generateCleanVideo (Str ''iVBORclean'') ''A red kite over dunes.'' (Some progress_message)
      ((after_clean sample_upload ''iVBORw0KGgo='' sample_world)
         \<lparr>caller := set_state generating_state
            (caller (after_clean sample_upload ''iVBORw0KGgo='' sample_world))\<rparr>)
       = (Returned (Str ''https://videos.example/v1?alt=media&key=k1''),
          snd (generateCleanVideo (Str ''iVBORclean'') ''A red kite over dunes.'' (Some progress_message)
            (at_generate sample_upload ''iVBORw0KGgo='' sample_world)))"
    using sample_generate by (simp add: at_generate_def)
  have host: "aistudio sample_world" by (simp add: sample_defs)
  have init: "status (processingState (caller sample_world)) = idle"
    by (simp add: sample_defs idle_state_def)
  have fail: "startProcessing blank_error_world = (Returned (), snd (startProcessing blank_error_world))"
    by (simp add: variant_defs io_defs service_defs app_defs sample_defs)
  have bq: "interleaved blank_error_world = []"
    by (simp add: blank_error_world_def sample_world_def)
  note t = status_sequence_of_a_run [OF sample_guards init sample_stage1 sample_stage2 sample_stage3 gen,
      where ?w0.0 = blank_error_world and ?r0.0 = "Returned ()"
        and ?w0'.0 = "snd (startProcessing blank_error_world)"
        and a = "caller (snd (startProcessing blank_error_world))"
        and d = sample_upload]
  note t2 = status_sequence_of_a_run [OF sample_guards init sample_stage1 sample_stage2 sample_stage3 gen,
      where a = "changeVideo (caller (snd (startProcessing sample_world)))" and d = sample_upload]
  note tq = t [THEN conjunct1, rule_format, OF sample_quiet]
  note tr = t [THEN conjunct2]
  have c1: "remdups_adj (map status (processingState (caller sample_world) #
          drop (length (states_set (caller sample_world)))
             (states_set (caller (snd (startProcessing sample_world))))))
        = [idle, analyzing, cleaning_frame, generating, completed]"
    by (rule tq [THEN conjunct2, THEN conjunct1])
  have c2: "sorted (map (\<lambda>s. the (progress s))
          (drop (length (states_set (caller sample_world)))
             (states_set (caller (snd (startProcessing sample_world))))))"
    by (rule tq [THEN conjunct2, THEN conjunct2])
  have c3: "processingState (caller (snd (startProcessing sample_world))) = completed_state"
    by (rule tr [THEN conjunct2, THEN conjunct2, THEN conjunct1])
  have c4: "resultVideoUrl (caller (snd (startProcessing sample_world)))
       = Str ''https://videos.example/v1?alt=media&key=k1''"
    by (rule tr [THEN conjunct2, THEN conjunct2, THEN conjunct2, THEN conjunct1])
  have c5: "\<exists>new. states_set (caller (snd (startProcessing blank_error_world)))
            = states_set (caller blank_error_world) @ new
          \<and> sorted (map (\<lambda>s. status_rank (status s)) new) \<and> idle \<notin> status ` set new"
    by (rule tr [THEN conjunct2, THEN conjunct2, THEN conjunct2, THEN conjunct2, THEN conjunct2,
          THEN conjunct1, rule_format, OF conjI [OF fail bq]])
  have c6: "status (processingState (tryAgain (caller (snd (startProcessing blank_error_world))))) = idle"
    by (rule tr [THEN conjunct2, THEN conjunct2, THEN conjunct2, THEN conjunct2, THEN conjunct2,
          THEN conjunct2, THEN conjunct1])
  have c7: "status (processingState (handleVideoSelected sample_upload
        (changeVideo (caller (snd (startProcessing sample_world)))))) = idle"
    by (rule t2 [THEN conjunct2, THEN conjunct2, THEN conjunct2, THEN conjunct2, THEN conjunct2,
          THEN conjunct2, THEN conjunct2, THEN conjunct2])
  show ?thesis
    by (intro conjI sample_guards(1) sample_guards(2) host sample_stage1 sample_stage2
        sample_stage3 sample_generate init sample_quiet c1 c2 c3 c4 fail bq c5 c6 c7)
qed


end
